theory Spec2Isabelle
  imports Main "HOL-Library.Sublist"
begin

unbundle bit_operations_syntax

chapter \<open>Smartnode: network state, effective stakes, rewards files and bond reduction\<close>

text \<open>
  A shallow embedding of the Go sources
  \<^verbatim>\<open>shared/services/state/network-state.go\<close>,
  \<^verbatim>\<open>rocketpool/common/rewards/utils.go\<close> and the node daemon's bond reduction task.
  Go values are modelled as follows.
  \<^item> \<^verbatim>\<open>*big.Int\<close> is \<open>int\<close>; \<^verbatim>\<open>uint64\<close> is \<open>nat\<close>, with \<open>mod 2 ^ 64\<close> written
    out wherever an operation of the source can wrap.
  \<^item> A returned \<^verbatim>\<open>error\<close> is a value \<open>Error msg\<close>; a run-time panic (division by
    zero, nil dereference) is \<open>Panic msg\<close>. Fallible functions return \<open>error + 'a\<close>.
    The functions on rewards files keep every message in full. In the other functions
    a message into which the source formats a slot, a block or an address is kept by
    its fixed text; no property below depends on the text of those errors.
  \<^item> Calls that leave the process (contract reads, the Beacon client, HTTP, the file
    system) are parameters of the model: the caller of a model function supplies what
    each call answered.
\<close>

section \<open>Errors\<close>

datatype error = Error string | Panic string

text \<open>\<^verbatim>\<open>fmt.Errorf("prefix: %w", err)\<close>: the message gets a prefix; a panic is not caught.\<close>

fun wrap_error :: "string \<Rightarrow> error \<Rightarrow> error" where
  "wrap_error pre (Error m) = Error (pre @ m)"
| "wrap_error pre (Panic m) = Panic m"

section \<open>Claim status of reward intervals (\<^verbatim>\<open>GetClaimStatus\<close>)\<close>

record ClaimStatus =
  Claimed :: "nat list"
  Unclaimed :: "nat list"

text \<open>
  The test of lines 86--91 of \<^verbatim>\<open>utils.go\<close>: \<^verbatim>\<open>mask = 1 << j\<close>,
  \<^verbatim>\<open>maskedBitmap = bitmap & mask\<close>, \<^verbatim>\<open>maskedBitmap.Cmp(mask) == 0\<close>.
  \<^verbatim>\<open>big.Int.And\<close> is the two's complement conjunction, as \<open>AND\<close> on \<open>int\<close> is.
\<close>

definition bit_was_flipped :: "int \<Rightarrow> nat \<Rightarrow> bool" where
  "bit_was_flipped bitmap j =
     (let mask = push_bit j (1 :: int);
          maskedBitmap = bitmap AND mask
      in maskedBitmap = mask)"

text \<open>
  The inner loop \<^verbatim>\<open>for j := uint64(0); j < 256; j++\<close> runs over the list of the
  remaining values of \<open>j\<close>; the \<^verbatim>\<open>break\<close> returns the status as it is.
  With \<open>currentIndex < 2 ^ 64\<close> no value of the loops exceeds \<open>2 ^ 64 - 1\<close>
  (\<open>i \<le> currentIndex div 256\<close> and \<open>j \<le> 255\<close>), so \<open>nat\<close> arithmetic is the
  source's \<^verbatim>\<open>uint64\<close> arithmetic here.
\<close>

fun claim_inner_loop :: "int \<Rightarrow> nat \<Rightarrow> nat \<Rightarrow> nat list \<Rightarrow> ClaimStatus \<Rightarrow> ClaimStatus" where
  "claim_inner_loop bitmap i currentIndex [] claimStatus = claimStatus"
| "claim_inner_loop bitmap i currentIndex (j # js) claimStatus =
    (let targetIndex = i * 256 + j in
     if targetIndex \<ge> currentIndex then claimStatus
     else if bit_was_flipped bitmap j
          then claim_inner_loop bitmap i currentIndex js
                 (claimStatus\<lparr>Claimed := Claimed claimStatus @ [targetIndex]\<rparr>)
          else claim_inner_loop bitmap i currentIndex js
                 (claimStatus\<lparr>Unclaimed := Unclaimed claimStatus @ [targetIndex]\<rparr>))"

text \<open>The outer loop \<^verbatim>\<open>for i := uint64(0); i <= bucket; i++\<close>.\<close>

fun claim_outer_loop :: "int list \<Rightarrow> nat \<Rightarrow> nat list \<Rightarrow> ClaimStatus \<Rightarrow> ClaimStatus" where
  "claim_outer_loop bucketBitmaps currentIndex [] claimStatus = claimStatus"
| "claim_outer_loop bucketBitmaps currentIndex (i # is) claimStatus =
     claim_outer_loop bucketBitmaps currentIndex is
       (claim_inner_loop (bucketBitmaps ! i) i currentIndex [0..<256] claimStatus)"

text \<open>
  \<^verbatim>\<open>rp.Query\<close> (lines 61--70): one multicall that either fails as a whole or fills
  \<^verbatim>\<open>bucketBitmaps[i]\<close>, for every \<open>i \<le> bucket\<close>, with the storage word kept under
  the key of the node address and bucket \<open>i\<close>. \<open>claimedStorage i\<close> is that word.
\<close>

definition Query_bucketBitmaps :: "error option \<Rightarrow> (nat \<Rightarrow> int) \<Rightarrow> nat \<Rightarrow> error + int list" where
  "Query_bucketBitmaps queryErr claimedStorage bucket =
     (case queryErr of
        Some e \<Rightarrow> Inl e
      | None \<Rightarrow> Inr (map claimedStorage [0..<bucket + 1]))"

definition GetClaimStatus :: "error option \<Rightarrow> (nat \<Rightarrow> int) \<Rightarrow> nat \<Rightarrow> error + ClaimStatus" where
  "GetClaimStatus queryErr claimedStorage currentIndex =
     (let bucket = currentIndex div 256 in
      case Query_bucketBitmaps queryErr claimedStorage bucket of
        Inl e \<Rightarrow> Inl (wrap_error ''error getting reward bucket bitmaps: '' e)
      | Inr bucketBitmaps \<Rightarrow>
          Inr (claim_outer_loop bucketBitmaps currentIndex [0..<bucket + 1]
                 \<lparr>Claimed = [], Unclaimed = []\<rparr>))"

text \<open>
  The bit of interval \<open>k\<close>: position \<open>k mod 256\<close> of the bitmap of bucket \<open>k div 256\<close>.
\<close>

definition interval_claimed :: "(nat \<Rightarrow> int) \<Rightarrow> nat \<Rightarrow> bool" where
  "interval_claimed claimedStorage k = bit (claimedStorage (k div 256)) (k mod 256)"

section \<open>Go integers, durations and times\<close>

text \<open>
  \<^verbatim>\<open>int64(x)\<close> of a wider value keeps the low 64 bits, read as two's complement;
  \<^verbatim>\<open>int64\<close> and \<^verbatim>\<open>time.Duration\<close> arithmetic wraps the same way.
\<close>

definition wrap_int64 :: "int \<Rightarrow> int" where
  "wrap_int64 x = (x + 2 ^ 63) mod 2 ^ 64 - 2 ^ 63"

text \<open>Go's integer division truncates towards zero.\<close>

definition go_quot :: "int \<Rightarrow> int \<Rightarrow> int" where
  "go_quot a b = sgn a * sgn b * (\<bar>a\<bar> div \<bar>b\<bar>)"

text \<open>
  \<^verbatim>\<open>big.Int.Div\<close> is Euclidean division (the remainder is never negative) and panics
  on a zero divisor.
\<close>

definition big_Div :: "int \<Rightarrow> int \<Rightarrow> error + int" where
  "big_Div x y =
     (if y = 0 then Inl (Panic ''division by zero'')
      else if 0 < y then Inr (x div y)
      else Inr (- (x div (- y))))"

text \<open>
  \<^verbatim>\<open>big.Int.Int64\<close> and \<^verbatim>\<open>big.Int.Uint64\<close> take the low 64 bits of the absolute value
  (and the sign, for \<^verbatim>\<open>Int64\<close>).
\<close>

definition big_Int64 :: "int \<Rightarrow> int" where
  "big_Int64 x =
     (let v = wrap_int64 (\<bar>x\<bar> mod 2 ^ 64)
      in if x < 0 then wrap_int64 (- v) else v)"

definition big_Uint64 :: "int \<Rightarrow> nat" where
  "big_Uint64 x = nat (\<bar>x\<bar> mod 2 ^ 64)"

text \<open>
  A \<^verbatim>\<open>time.Duration\<close> is a count of nanoseconds in an \<^verbatim>\<open>int64\<close>. A \<^verbatim>\<open>time.Time\<close>
  is modelled by its nanoseconds since the Unix epoch, unbounded (Go's range of several
  hundred billion years is never left by the values below). \<^verbatim>\<open>Time.Sub\<close> saturates
  at the least and the greatest duration.
\<close>

type_synonym Duration = int
type_synonym Time = int

definition time_Second :: Duration where
  "time_Second = 1000000000"

definition maxDuration :: Duration where
  "maxDuration = 2 ^ 63 - 1"

definition minDuration :: Duration where
  "minDuration = - (2 ^ 63)"

definition time_Unix :: "int \<Rightarrow> Time" where
  "time_Unix sec = sec * time_Second"

definition Time_Add :: "Time \<Rightarrow> Duration \<Rightarrow> Time" where
  "Time_Add t d = t + d"

definition Time_Sub :: "Time \<Rightarrow> Time \<Rightarrow> Duration" where
  "Time_Sub t u =
     (let d = t - u
      in if d < minDuration then minDuration
         else if maxDuration < d then maxDuration
         else d)"

text \<open>
  \<^verbatim>\<open>time.Time\<close> counts its seconds in an \<^verbatim>\<open>int64\<close>, from the year 1. For a Unix time
  of at most \<open>2 ^ 62\<close> seconds before or after the epoch, \<^verbatim>\<open>time.Unix\<close>, \<^verbatim>\<open>Add\<close> of a
  duration and \<^verbatim>\<open>Sub\<close> do not leave that range, and the unbounded nanoseconds of the
  model are the times of the code.
\<close>

definition Unix_in_range :: "int \<Rightarrow> bool" where
  "Unix_in_range sec = (- (2 ^ 62) \<le> sec \<and> sec \<le> 2 ^ 62)"

text \<open>
  \<^verbatim>\<open>int64(d.Seconds())\<close>: \<^verbatim>\<open>Seconds\<close> returns a \<^verbatim>\<open>float64\<close>, which the conversion
  truncates. For a duration of whole seconds (every duration the network state holds is
  built as \<^verbatim>\<open>seconds * time.Second\<close>) the float is exact and the result is the
  truncating quotient.
\<close>

definition Duration_Seconds_int64 :: "Duration \<Rightarrow> int" where
  "Duration_Seconds_int64 d = go_quot d time_Second"

section \<open>The network state (\<^verbatim>\<open>network-state.go\<close>)\<close>

type_synonym address = nat
type_synonym pubkey = nat

datatype MinipoolStatus = Initialized | Prelaunch | Staking | Withdrawable | Dissolved

text \<open>
  The fields of \<^verbatim>\<open>rpstate.NativeNodeDetails\<close>, \<^verbatim>\<open>rpstate.NativeMinipoolDetails\<close>,
  \<^verbatim>\<open>beacon.ValidatorStatus\<close> and \<^verbatim>\<open>beacon.Eth2Config\<close> that the functions below read.
  The owner of a minipool is its field \<^verbatim>\<open>NodeAddress\<close>, here \<open>NodeAddress_mp\<close>.
  The amounts are \<^verbatim>\<open>*big.Int\<close>; they are taken to be set (a successful read never
  leaves one nil), so a nil amount is no value of the model.
\<close>

record NativeNodeDetails =
  NodeAddress :: address
  RplStake :: int
  RegistrationTime :: int

record NativeMinipoolDetails =
  Exists :: bool
  MinipoolAddress :: address
  Pubkey :: pubkey
  Status :: MinipoolStatus
  NodeAddress_mp :: address
  NodeDepositBalance :: int
  UserDepositBalance :: int
  NodeShareOfBalanceIncludingBeacon :: int
  UserShareOfBalanceIncludingBeacon :: int
  Version :: nat

record ValidatorStatus =
  Balance :: nat
  ActivationEpoch :: nat
  ExitEpoch :: nat

record Eth2Config =
  GenesisTime :: nat
  SecondsPerSlot :: nat
  SlotsPerEpoch :: nat

text \<open>
  \<^verbatim>\<open>rpstate.NetworkDetails\<close>: the fields that \<^verbatim>\<open>getNetworkDetails\<close> fills, by name.
  Every field's value is kept as an \<open>int\<close>: a \<^verbatim>\<open>*big.Int\<close> or \<^verbatim>\<open>uint64\<close> as itself,
  a duration in nanoseconds, a flag as 0 or 1, an address or a \<^verbatim>\<open>float64\<close> by a code
  that nothing below looks into.
\<close>

datatype nd_field =
    RplPrice | MinCollateralFraction | MaxCollateralFraction | RewardIndex
  | IntervalDuration | IntervalStart | NodeOperatorRewardsPercent
  | TrustedNodeOperatorRewardsPercent | ProtocolDaoRewardsPercent | PendingRPLRewards
  | ScrubPeriod | SmoothingPoolAddress | SmoothingPoolBalance | DepositPoolBalance
  | DepositPoolExcess | QueueCapacity | RPLInflationIntervalRate | RPLTotalSupply
  | PricesBlock | LatestReportablePricesBlock | ETHUtilizationRate | StakingETHBalance
  | RETHExchangeRate | TotalETHBalance | RETHBalance | TotalRETHSupply | TotalRPLStake
  | NodeFee | BalancesBlock | LatestReportableBalancesBlock | SubmitBalancesEnabled
  | SubmitPricesEnabled | MinipoolLaunchTimeout | PromotionScrubPeriod
  | BondReductionWindowStart | BondReductionWindowLength | DepositPoolUserBalance

type_synonym NetworkDetails = "nd_field \<Rightarrow> int"

text \<open>
  \<^verbatim>\<open>NetworkState\<close> (lines 33--59). The struct holds pointers:
  \<^item> \<^verbatim>\<open>NetworkDetails *rpstate.NetworkDetails\<close> is an option (\<open>None\<close> is nil);
  \<^item> the values of \<^verbatim>\<open>MinipoolDetailsByAddress\<close> and \<^verbatim>\<open>MinipoolDetailsByNode\<close> point into
    the slice \<^verbatim>\<open>MinipoolDetails\<close> (\<^verbatim>\<open>&state.MinipoolDetails[i]\<close>): a pointer is the
    index \<open>i\<close>;
  \<^item> the values of \<^verbatim>\<open>NodeDetailsByAddress\<close> point to variables outside the slice
    \<^verbatim>\<open>NodeDetails\<close>: a pointer is the address of a cell of \<open>node_cells\<close>, the part of
    the Go heap that holds those variables.
\<close>

record NetworkState =
  IsAtlasDeployed :: bool
  ElBlockNumber :: nat
  BeaconSlotNumber :: nat
  BeaconConfig :: Eth2Config
  NetworkDetails :: "NetworkDetails option"
  NodeDetails :: "NativeNodeDetails list"
  NodeDetailsByAddress :: "address \<rightharpoonup> nat"
  node_cells :: "nat \<rightharpoonup> NativeNodeDetails"
  MinipoolDetails :: "NativeMinipoolDetails list"
  MinipoolDetailsByAddress :: "address \<rightharpoonup> nat"
  MinipoolDetailsByNode :: "address \<rightharpoonup> nat list"
  ValidatorDetails :: "pubkey \<rightharpoonup> ValidatorStatus"

text \<open>Following a minipool pointer; a pointer that is no index of the slice is nil.\<close>

definition deref_minipool :: "NetworkState \<Rightarrow> nat \<Rightarrow> NativeMinipoolDetails option" where
  "deref_minipool s p =
     (if p < length (MinipoolDetails s) then Some (MinipoolDetails s ! p) else None)"

section \<open>Effective stakes (\<^verbatim>\<open>CalculateEffectiveStakes\<close>)\<close>

text \<open>
  One pass of the loop over a node's minipools (lines 552--576), on the pair of running
  totals. Each \<^verbatim>\<open>continue\<close> returns the totals unchanged. The \<^verbatim>\<open>uint64\<close> division of
  line 562 panics when \<^verbatim>\<open>SlotsPerEpoch\<close> is zero.
\<close>

definition eligible_step ::
  "NetworkState \<Rightarrow> NativeMinipoolDetails \<Rightarrow> int \<times> int \<Rightarrow> error + int \<times> int" where
  "eligible_step s mpd acc =
     (case acc of (eligibleBorrowedEth, eligibleBondedEth) \<Rightarrow>
      if Exists mpd \<and> Status mpd = Staking then
        (case ValidatorDetails s (Pubkey mpd) of
           None \<Rightarrow> Inr (eligibleBorrowedEth, eligibleBondedEth)
         | Some validatorStatus \<Rightarrow>
             if SlotsPerEpoch (BeaconConfig s) = 0
             then Inl (Panic ''integer divide by zero'')
             else
               let intervalEndEpoch = BeaconSlotNumber s div SlotsPerEpoch (BeaconConfig s)
               in if ActivationEpoch validatorStatus > intervalEndEpoch
                  then Inr (eligibleBorrowedEth, eligibleBondedEth)
                  else if ExitEpoch validatorStatus \<le> intervalEndEpoch
                  then Inr (eligibleBorrowedEth, eligibleBondedEth)
                  else Inr (eligibleBorrowedEth + UserDepositBalance mpd,
                            eligibleBondedEth + NodeDepositBalance mpd))
      else Inr (eligibleBorrowedEth, eligibleBondedEth))"

text \<open>The loop \<^verbatim>\<open>for _, mpd := range s.MinipoolDetailsByNode[node.NodeAddress]\<close>.\<close>

fun eligible_loop :: "NetworkState \<Rightarrow> nat list \<Rightarrow> int \<times> int \<Rightarrow> error + int \<times> int" where
  "eligible_loop s [] acc = Inr acc"
| "eligible_loop s (p # ps) acc =
     (case deref_minipool s p of
        None \<Rightarrow> Inl (Panic ''invalid memory address or nil pointer dereference'')
      | Some mpd \<Rightarrow>
          (case eligible_step s mpd acc of
             Inl e \<Rightarrow> Inl e
           | Inr acc' \<Rightarrow> eligible_loop s ps acc'))"

text \<open>A key that the map lacks gives the nil slice.\<close>

definition node_minipools :: "NetworkState \<Rightarrow> NativeNodeDetails \<Rightarrow> nat list" where
  "node_minipools s node =
     (case MinipoolDetailsByNode s (NodeAddress node) of None \<Rightarrow> [] | Some ps \<Rightarrow> ps)"

text \<open>Lines 579--587.\<close>

definition minCollateral :: "NetworkDetails \<Rightarrow> int \<Rightarrow> error + int" where
  "minCollateral nd eligibleBorrowedEth =
     big_Div (eligibleBorrowedEth * nd MinCollateralFraction) (nd RplPrice)"

definition maxCollateral :: "NetworkDetails \<Rightarrow> int \<Rightarrow> error + int" where
  "maxCollateral nd eligibleBondedEth =
     big_Div (eligibleBondedEth * nd MaxCollateralFraction) (nd RplPrice)"

text \<open>Lines 590--597: the node's stake, set to zero under the minimum and cut at the
  maximum.\<close>

definition clamp_stake :: "int \<Rightarrow> int \<Rightarrow> int \<Rightarrow> int" where
  "clamp_stake rplStake minC maxC =
     (if rplStake < minC then 0
      else if rplStake > maxC then maxC
      else rplStake)"

text \<open>Lines 601--611, the body of \<^verbatim>\<open>if scaleByParticipation\<close>.\<close>

definition scale_stake ::
  "NetworkDetails \<Rightarrow> int \<Rightarrow> Time \<Rightarrow> NativeNodeDetails \<Rightarrow> int \<Rightarrow> error + int" where
  "scale_stake nd intervalDurationBig slotTime node nodeStake =
     (let regTimeBig = RegistrationTime node;
          regTime = time_Unix (big_Int64 regTimeBig);
          eligibleDuration = Time_Sub slotTime regTime
      in if eligibleDuration < nd IntervalDuration
         then
           (let eligibleSeconds = go_quot eligibleDuration time_Second
            in big_Div (nodeStake * eligibleSeconds) intervalDurationBig)
         else Inr nodeStake)"

text \<open>The function run for one node (lines 548--616).\<close>

definition node_effective_stake ::
  "NetworkState \<Rightarrow> NetworkDetails \<Rightarrow> bool \<Rightarrow> int \<Rightarrow> Time \<Rightarrow> NativeNodeDetails \<Rightarrow> error + int" where
  "node_effective_stake s nd scaleByParticipation intervalDurationBig slotTime node =
     (case eligible_loop s (node_minipools s node) (0, 0) of
        Inl e \<Rightarrow> Inl e
      | Inr (eligibleBorrowedEth, eligibleBondedEth) \<Rightarrow>
          (case minCollateral nd eligibleBorrowedEth of
             Inl e \<Rightarrow> Inl e
           | Inr minC \<Rightarrow>
               (case maxCollateral nd eligibleBondedEth of
                  Inl e \<Rightarrow> Inl e
                | Inr maxC \<Rightarrow>
                    (let nodeStake = clamp_stake (RplStake node) minC maxC
                     in if scaleByParticipation
                        then scale_stake nd intervalDurationBig slotTime node nodeStake
                        else Inr nodeStake))))"

text \<open>
  \<^verbatim>\<open>wg.Go\<close> for every node, then \<^verbatim>\<open>wg.Wait\<close>: each goroutine writes its own element of
  \<^verbatim>\<open>effectiveStakeSlice\<close> and returns nil, so the slice is the list of the results. A
  panic in a goroutine ends the program; it is the result \<open>Inl\<close>.
\<close>

fun run_goroutines :: "('a \<Rightarrow> error + 'b) \<Rightarrow> 'a list \<Rightarrow> error + 'b list" where
  "run_goroutines f [] = Inr []"
| "run_goroutines f (x # xs) =
     (case f x of
        Inl e \<Rightarrow> Inl e
      | Inr y \<Rightarrow> (case run_goroutines f xs of Inl e \<Rightarrow> Inl e | Inr ys \<Rightarrow> Inr (y # ys)))"

text \<open>Lines 624--628: the map of the stakes and their sum. The slice has one element
  per node, so the loop over the slice ends with the list of the nodes.\<close>

fun tally ::
  "NativeNodeDetails list \<Rightarrow> int list \<Rightarrow> (address \<rightharpoonup> int) \<times> int \<Rightarrow> (address \<rightharpoonup> int) \<times> int" where
  "tally nodes [] acc = acc"
| "tally [] (nodeStake # stakes) acc = acc"
| "tally (node # nodes) (nodeStake # stakes) (effectiveStakes, totalEffectiveStake) =
     tally nodes stakes
       (effectiveStakes(NodeAddress node \<mapsto> nodeStake), totalEffectiveStake + nodeStake)"

text \<open>Lines 535--537; the product of line 536 is taken in \<^verbatim>\<open>uint64\<close>, then in
  \<^verbatim>\<open>int64\<close> nanoseconds.\<close>

definition slot_time :: "NetworkState \<Rightarrow> Time" where
  "slot_time s =
     (let genesisTime = time_Unix (wrap_int64 (int (GenesisTime (BeaconConfig s))));
          slotOffset =
            wrap_int64
              (wrap_int64 (int ((BeaconSlotNumber s * SecondsPerSlot (BeaconConfig s)) mod 2 ^ 64))
                 * time_Second)
      in Time_Add genesisTime slotOffset)"

definition CalculateEffectiveStakes ::
  "NetworkState \<Rightarrow> bool \<Rightarrow> error + (address \<rightharpoonup> int) \<times> int" where
  "CalculateEffectiveStakes s scaleByParticipation =
     (case NetworkDetails s of
        None \<Rightarrow> Inl (Panic ''invalid memory address or nil pointer dereference'')
      | Some nd \<Rightarrow>
          (let intervalDurationBig = Duration_Seconds_int64 (nd IntervalDuration);
               slotTime = slot_time s
           in case run_goroutines
                     (node_effective_stake s nd scaleByParticipation intervalDurationBig slotTime)
                     (NodeDetails s) of
                Inl e \<Rightarrow> Inl e
              | Inr effectiveStakeSlice \<Rightarrow>
                  Inr (tally (NodeDetails s) effectiveStakeSlice (Map.empty, 0))))"

text \<open>
  The condition under which a minipool counts, in one predicate: it exists and is
  staking, its public key has a validator status, the validator was activated at or
  before the epoch of the state's slot, and exits after that epoch.
\<close>

definition minipool_eligible :: "NetworkState \<Rightarrow> NativeMinipoolDetails \<Rightarrow> bool" where
  "minipool_eligible s mpd =
     (Exists mpd \<and> Status mpd = Staking \<and>
      (case ValidatorDetails s (Pubkey mpd) of
         None \<Rightarrow> False
       | Some validatorStatus \<Rightarrow>
           ActivationEpoch validatorStatus \<le> BeaconSlotNumber s div SlotsPerEpoch (BeaconConfig s)
           \<and> BeaconSlotNumber s div SlotsPerEpoch (BeaconConfig s) < ExitEpoch validatorStatus))"

section \<open>Building the network state (\<^verbatim>\<open>CreateNetworkState\<close>)\<close>

text \<open>
  What the calls of \<^verbatim>\<open>CreateNetworkState\<close> and \<^verbatim>\<open>getNetworkDetails\<close> answered. Every
  call pinned to the execution block takes the block number (\<^verbatim>\<open>opts\<close>).
  \<^item> \<open>network_read f blk\<close> is the getter behind field \<open>f\<close> of the network details. Four
    getters take \<^verbatim>\<open>state.NetworkDetails.RewardIndex\<close>, which another goroutine writes
    at the same time with no synchronisation; whichever value they saw, their answer is
    the one given here.
  \<^item> \<open>finish_rank i\<close> orders the goroutines of \<^verbatim>\<open>getNetworkDetails\<close> by the time they
    return (goroutine \<open>i\<close> is the \<open>i\<close>-th \<^verbatim>\<open>wg.Go\<close>); equal ranks are ordered by
    \<open>i\<close>.
  \<^item> \<^verbatim>\<open>rpstate.CalculateCompleteMinipoolShares\<close> receives pointers to all minipool
    details; on success its answer is what it did to the details behind pointer \<open>i\<close>.
\<close>

record BeaconBlock =
  ExecutionBlockNumber :: nat

type_synonym contracts = nat

record ChainReads =
  bc_GetBeaconBlock :: "nat \<Rightarrow> error + BeaconBlock \<times> bool"
  rp_IsAtlasDeployed :: "nat \<Rightarrow> error + bool"
  rpstate_NewNetworkContracts :: "bool \<Rightarrow> nat \<Rightarrow> error + contracts"
  network_read :: "nd_field \<Rightarrow> nat \<Rightarrow> error + int"
  finish_rank :: "nat \<Rightarrow> nat"
  rpstate_GetAllNativeNodeDetails :: "contracts \<Rightarrow> nat \<Rightarrow> error + NativeNodeDetails list"
  rpstate_GetAllNativeMinipoolDetails :: "contracts \<Rightarrow> nat \<Rightarrow> error + NativeMinipoolDetails list"
  bc_GetValidatorStatuses :: "pubkey list \<Rightarrow> nat \<Rightarrow> error + (pubkey \<rightharpoonup> ValidatorStatus)"
  rpstate_CalculateCompleteMinipoolShares ::
    "contracts \<Rightarrow> NativeMinipoolDetails list \<Rightarrow> int list \<Rightarrow> nat
       \<Rightarrow> error + (nat \<Rightarrow> NativeMinipoolDetails \<Rightarrow> NativeMinipoolDetails)"

subsection \<open>\<^verbatim>\<open>getNetworkDetails\<close>\<close>

text \<open>
  A goroutine of \<^verbatim>\<open>getNetworkDetails\<close> is a list of steps. A step calls one getter,
  returns an error if the getter failed (\<open>Wrap\<close>: \<^verbatim>\<open>fmt.Errorf("...: %w", err)\<close>;
  \<open>Replace\<close>: a new error that drops the cause) and stores the converted answer in its
  field otherwise.
\<close>

datatype err_how = Wrap string | Replace string

datatype conv = Keep | ToUint64 | SecondsToDuration

type_synonym nd_step = "nd_field \<times> err_how \<times> conv"

fun task_error :: "err_how \<Rightarrow> error \<Rightarrow> error" where
  "task_error (Wrap m) e = wrap_error m e"
| "task_error (Replace m) e = Error m"

text \<open>\<open>SecondsToDuration\<close> is \<^verbatim>\<open>time.Duration(seconds) * time.Second\<close>.\<close>

fun apply_conv :: "conv \<Rightarrow> int \<Rightarrow> int" where
  "apply_conv Keep v = v"
| "apply_conv ToUint64 v = int (big_Uint64 v)"
| "apply_conv SecondsToDuration v = wrap_int64 (wrap_int64 v * time_Second)"

text \<open>The goroutines of lines 189--482, in the order of the source.\<close>

definition network_tasks :: "nd_step list list" where
  "network_tasks =
     [[(RplPrice, Wrap ''error getting RPL price ratio: '', Keep)],
      [(MinCollateralFraction, Wrap ''error getting minimum per minipool stake: '', Keep)],
      [(MaxCollateralFraction, Wrap ''error getting maximum per minipool stake: '', Keep)],
      [(RewardIndex, Wrap ''error getting reward index: '', ToUint64)],
      [(IntervalDuration, Wrap ''error getting interval duration: '', Keep)],
      [(IntervalStart, Wrap ''error getting interval start: '', Keep)],
      [(NodeOperatorRewardsPercent,
          Replace ''error getting node operator rewards percent'', Keep)],
      [(TrustedNodeOperatorRewardsPercent,
          Replace ''error getting trusted node operator rewards percent'', Keep)],
      [(ProtocolDaoRewardsPercent,
          Replace ''error getting protocol DAO rewards percent'', Keep)],
      [(PendingRPLRewards, Replace ''error getting pending RPL rewards'', Keep)],
      [(ScrubPeriod, Wrap ''error getting scrub period: '', SecondsToDuration)],
      [(SmoothingPoolAddress, Wrap ''error getting smoothing pool contract: '', Keep),
       (SmoothingPoolBalance, Wrap ''error getting smoothing pool balance: '', Keep)],
      [(DepositPoolBalance, Wrap ''error getting deposit pool balance: '', Keep)],
      [(DepositPoolExcess, Wrap ''error getting deposit pool excess: '', Keep)],
      [(QueueCapacity, Wrap ''error getting minipool queue capacity: '', Keep)],
      [(RPLInflationIntervalRate, Wrap ''error getting RPL inflation interval: '', Keep)],
      [(RPLTotalSupply, Wrap ''error getting total RPL supply: '', Keep)],
      [(PricesBlock, Wrap ''error getting ETH1 prices block: '', Keep)],
      [(LatestReportablePricesBlock,
          Wrap ''error getting ETH1 latest reportable block: '', ToUint64)],
      [(ETHUtilizationRate, Wrap ''error getting ETH utilization rate: '', Keep)],
      [(StakingETHBalance, Wrap ''error getting total ETH staking balance: '', Keep)],
      [(RETHExchangeRate, Wrap ''error getting ETH-rETH exchange rate: '', Keep)],
      [(TotalETHBalance, Wrap ''error getting total ETH balance (TVL): '', Keep)],
      [(RETHBalance, Wrap ''error getting ETH balance of rETH staking contract: '', Keep)],
      [(TotalRETHSupply, Wrap ''error getting total rETH supply: '', Keep)],
      [(TotalRPLStake,
          Wrap ''error getting total amount of RPL staked on the network: '', Keep)],
      [(NodeFee, Wrap ''error getting current node fee for new minipools: '', Keep)],
      [(BalancesBlock, Wrap ''error getting balances block: '', Keep)],
      [(LatestReportableBalancesBlock,
          Wrap ''error getting latest reportable balances block: '', Keep)],
      [(SubmitBalancesEnabled, Wrap ''error getting submit balances enabled status: '', Keep)],
      [(SubmitPricesEnabled, Wrap ''error getting submit prices enabled status: '', Keep)],
      [(MinipoolLaunchTimeout, Wrap ''error getting minipool launch timeout '', Keep)]]"

text \<open>The goroutines of lines 484--520, started only when Atlas is deployed.\<close>

definition atlas_tasks :: "nd_step list list" where
  "atlas_tasks =
     [[(PromotionScrubPeriod, Wrap ''error getting promotion scrub period: '', SecondsToDuration)],
      [(BondReductionWindowStart,
          Wrap ''error getting bond reduction window start: '', SecondsToDuration)],
      [(BondReductionWindowLength,
          Wrap ''error getting bond reduction window length: '', SecondsToDuration)],
      [(DepositPoolUserBalance, Wrap ''error getting deposit pool user balance: '', Keep)]]"

text \<open>One goroutine: its error, if any, and the details as it leaves them.\<close>

fun run_task ::
  "ChainReads \<Rightarrow> nat \<Rightarrow> nd_step list \<Rightarrow> NetworkDetails \<Rightarrow> error option \<times> NetworkDetails" where
  "run_task env blk [] nd = (None, nd)"
| "run_task env blk (step # steps) nd =
     (case network_read env (fst step) blk of
        Inl e \<Rightarrow> (Some (task_error (fst (snd step)) e), nd)
      | Inr v \<Rightarrow> run_task env blk steps (nd(fst step := apply_conv (snd (snd step)) v)))"

text \<open>
  All goroutines. The group has no context, so a failure stops no other goroutine: each
  one runs to its end. Each writes fields of its own, so the details they leave do not
  depend on the interleaving.
\<close>

fun run_tasks ::
  "ChainReads \<Rightarrow> nat \<Rightarrow> nd_step list list \<Rightarrow> NetworkDetails
     \<Rightarrow> error option list \<times> NetworkDetails" where
  "run_tasks env blk [] nd = ([], nd)"
| "run_tasks env blk (task # tasks) nd =
     (case run_task env blk task nd of
        (err, nd') \<Rightarrow>
          (case run_tasks env blk tasks nd' of
             (errs, nd'') \<Rightarrow> (err # errs, nd'')))"

text \<open>\<^verbatim>\<open>wg.Wait\<close> returns the error of the goroutine that failed first, nil if none
  failed.\<close>

definition wg_Wait :: "(nat \<Rightarrow> nat) \<Rightarrow> error option list \<Rightarrow> error option" where
  "wg_Wait rank errs =
     (case filter (\<lambda>ie. snd ie \<noteq> None) (zip [0..<length errs] errs) of
        [] \<Rightarrow> None
      | f # fs \<Rightarrow> snd (arg_min_list (\<lambda>ie. rank (fst ie)) (f # fs)))"

definition getNetworkDetails ::
  "ChainReads \<Rightarrow> NetworkState \<Rightarrow> nat \<Rightarrow> bool \<Rightarrow> error option \<times> NetworkState" where
  "getNetworkDetails env state blk isAtlasDeployed =
     (case run_tasks env blk
             (network_tasks @ (if isAtlasDeployed then atlas_tasks else [])) (\<lambda>f. 0) of
        (errs, nd) \<Rightarrow>
          (wg_Wait (finish_rank env) errs, state\<lparr>NetworkDetails := Some nd\<rparr>))"

subsection \<open>The lookups\<close>

text \<open>
  The variable of a \<^verbatim>\<open>range\<close> loop: one variable for the whole loop up to Go 1.21, a
  new one in every iteration from Go 1.22 on (for modules that declare that version).
  The file is written for the former: \<^verbatim>\<open>CalculateEffectiveStakes\<close> copies its loop
  variables (\<^verbatim>\<open>i := i\<close>, \<^verbatim>\<open>node := node\<close>) before its goroutines capture them.
\<close>

datatype go_loopvar = PerLoop | PerIteration

text \<open>
  Lines 127--129: \<^verbatim>\<open>for _, details := range state.NodeDetails\<close> stores \<^verbatim>\<open>&details\<close>,
  the address of the loop variable, which holds a copy of the element. \<open>k\<close> counts the
  iterations; the variable of iteration \<open>k\<close> is cell 0 under \<open>PerLoop\<close> and cell \<open>k\<close>
  under \<open>PerIteration\<close>.
\<close>

fun node_lookup_loop ::
  "go_loopvar \<Rightarrow> nat \<Rightarrow> NativeNodeDetails list \<Rightarrow> NetworkState \<Rightarrow> NetworkState" where
  "node_lookup_loop sem k [] state = state"
| "node_lookup_loop sem k (details # rest) state =
     node_lookup_loop sem (Suc k) rest
       (state\<lparr>node_cells :=
                 (node_cells state)((case sem of PerLoop \<Rightarrow> 0 | PerIteration \<Rightarrow> k) \<mapsto> details),
              NodeDetailsByAddress :=
                 (NodeDetailsByAddress state)
                   (NodeAddress details \<mapsto> (case sem of PerLoop \<Rightarrow> 0 | PerIteration \<Rightarrow> k))\<rparr>)"

text \<open>Reading \<^verbatim>\<open>*state.NodeDetailsByAddress[a]\<close>.\<close>

definition lookup_node :: "NetworkState \<Rightarrow> address \<Rightarrow> NativeNodeDetails option" where
  "lookup_node state a =
     (case NodeDetailsByAddress state a of
        None \<Rightarrow> None
      | Some p \<Rightarrow> node_cells state p)"

text \<open>
  Lines 132--147: the minipool lookups store \<^verbatim>\<open>&state.MinipoolDetails[i]\<close>, the index.
  The empty public key is all zero.
\<close>

definition emptyPubkey :: pubkey where
  "emptyPubkey = 0"

fun minipool_lookup_loop ::
  "nat \<Rightarrow> NativeMinipoolDetails list \<Rightarrow> NetworkState \<Rightarrow> pubkey list
     \<Rightarrow> NetworkState \<times> pubkey list" where
  "minipool_lookup_loop i [] state pubkeys = (state, pubkeys)"
| "minipool_lookup_loop i (details # rest) state pubkeys =
     minipool_lookup_loop (Suc i) rest
       (state\<lparr>MinipoolDetailsByAddress :=
                 (MinipoolDetailsByAddress state)(MinipoolAddress details \<mapsto> i),
              MinipoolDetailsByNode :=
                 (MinipoolDetailsByNode state)
                   (NodeAddress_mp details \<mapsto>
                      (case MinipoolDetailsByNode state (NodeAddress_mp details) of
                         None \<Rightarrow> []
                       | Some nodeList \<Rightarrow> nodeList) @ [i])\<rparr>)
       (if Pubkey details \<noteq> emptyPubkey then pubkeys @ [Pubkey details] else pubkeys)"

text \<open>
  Lines 160--170. \<^verbatim>\<open>eth.GweiToWei(float64(validator.Balance))\<close> is exact for a balance
  below \<open>2 ^ 53\<close> gwei.
\<close>

definition GweiToWei :: "nat \<Rightarrow> int" where
  "GweiToWei gwei = int gwei * 1000000000"

definition beaconBalances :: "NetworkState \<Rightarrow> int list" where
  "beaconBalances state =
     map (\<lambda>mpd. case ValidatorDetails state (Pubkey mpd) of
                   None \<Rightarrow> 0
                 | Some validator \<Rightarrow> GweiToWei (Balance validator))
         (MinipoolDetails state)"

subsection \<open>\<^verbatim>\<open>CreateNetworkState\<close>\<close>

text \<open>
  The function returns a pointer and an error: the model returns the pair of an optional
  state and an optional error. Every \<^verbatim>\<open>return nil, err\<close> of the source is a result
  \<open>(None, Some err)\<close>.
\<close>

definition CreateNetworkState ::
  "ChainReads \<Rightarrow> go_loopvar \<Rightarrow> nat \<Rightarrow> Eth2Config \<Rightarrow> NetworkState option \<times> error option" where
  "CreateNetworkState env sem slotNumber beaconConfig =
     (case bc_GetBeaconBlock env slotNumber of
        Inl err \<Rightarrow> (None, Some (wrap_error ''error getting Beacon block for slot: '' err))
      | Inr (beaconBlock, exists) \<Rightarrow>
        if \<not> exists then (None, Some (Error ''slot did not have a Beacon block''))
        else
          let elBlockNumber = ExecutionBlockNumber beaconBlock in
          case rp_IsAtlasDeployed env elBlockNumber of
            Inl err \<Rightarrow> (None, Some (wrap_error ''error checking if Atlas is deployed: '' err))
          | Inr isAtlasDeployed \<Rightarrow>
            let state0 =
                  \<lparr>IsAtlasDeployed = isAtlasDeployed, ElBlockNumber = elBlockNumber,
                   BeaconSlotNumber = slotNumber, BeaconConfig = beaconConfig,
                   NetworkDetails = None, NodeDetails = [],
                   NodeDetailsByAddress = Map.empty, node_cells = Map.empty,
                   MinipoolDetails = [], MinipoolDetailsByAddress = Map.empty,
                   MinipoolDetailsByNode = Map.empty, ValidatorDetails = Map.empty\<rparr>
            in
            case rpstate_NewNetworkContracts env isAtlasDeployed elBlockNumber of
              Inl err \<Rightarrow> (None, Some (wrap_error ''error getting network contracts: '' err))
            | Inr contracts \<Rightarrow>
              case getNetworkDetails env state0 elBlockNumber isAtlasDeployed of
                (Some err, state1) \<Rightarrow>
                  (None, Some (wrap_error ''error getting network details: '' err))
              | (None, state1) \<Rightarrow>
                case rpstate_GetAllNativeNodeDetails env contracts elBlockNumber of
                  Inl err \<Rightarrow> (None, Some (wrap_error ''error getting all node details: '' err))
                | Inr nodeDetails \<Rightarrow>
                  let state2 = state1\<lparr>NodeDetails := nodeDetails\<rparr> in
                  case rpstate_GetAllNativeMinipoolDetails env contracts elBlockNumber of
                    Inl err \<Rightarrow>
                      (None, Some (wrap_error ''error getting all minipool details: '' err))
                  | Inr minipoolDetails \<Rightarrow>
                    let state3 = state2\<lparr>MinipoolDetails := minipoolDetails\<rparr>;
                        state4 = node_lookup_loop sem 0 (NodeDetails state3) state3
                    in
                    case minipool_lookup_loop 0 (MinipoolDetails state4) state4 [] of
                      (state5, pubkeys) \<Rightarrow>
                        case bc_GetValidatorStatuses env pubkeys slotNumber of
                          Inl err \<Rightarrow> (None, Some err)
                        | Inr statusMap \<Rightarrow>
                          let state6 = state5\<lparr>ValidatorDetails := statusMap\<rparr> in
                          case rpstate_CalculateCompleteMinipoolShares env contracts
                                 (MinipoolDetails state6) (beaconBalances state6)
                                 elBlockNumber of
                            Inl err \<Rightarrow> (None, Some err)
                          | Inr shares \<Rightarrow>
                              (Some (state6\<lparr>MinipoolDetails :=
                                        map (\<lambda>ip. shares (fst ip) (snd ip))
                                          (zip [0..<length (MinipoolDetails state6)]
                                               (MinipoolDetails state6)),
                                      ValidatorDetails := statusMap\<rparr>),
                               None))"

text \<open>The fields whose getters \<^verbatim>\<open>getNetworkDetails\<close> calls.\<close>

definition fields_read :: "bool \<Rightarrow> nd_field list" where
  "fields_read isAtlasDeployed =
     map fst (concat (network_tasks @ (if isAtlasDeployed then atlas_tasks else [])))"

section \<open>Rewards files (\<^verbatim>\<open>utils.go\<close>)\<close>

type_synonym bytes = "nat list"
type_synonym hash = nat

text \<open>The local files: a path has a content or does not exist.\<close>

type_synonym FileSystem = "string \<rightharpoonup> bytes"

text \<open>
  \<^verbatim>\<open>rewards.RewardsEvent\<close>, the entry of a node in a rewards file with the file itself
  (\<^verbatim>\<open>RewardsFile\<close>: the root as the hex string of the JSON field \<^verbatim>\<open>merkleRoot\<close>), and
  \<^verbatim>\<open>IntervalInfo\<close>, by the fields that \<^verbatim>\<open>GetIntervalInfo\<close> reads and writes. The three
  amounts of \<^verbatim>\<open>IntervalInfo\<close> are pointers: \<open>None\<close> is nil.
\<close>

record RewardsEvent =
  MerkleTreeCID :: string
  IntervalStartTime :: Time
  IntervalEndTime :: Time
  MerkleRoot :: hash

record NodeRewardsInfo =
  CollateralRpl :: int
  OracleDaoRpl :: int
  SmoothingPoolEth :: int
  MerkleProof_hex :: "string list"

record RewardsFile =
  MerkleRoot_hex :: string
  NodeRewards :: "address \<rightharpoonup> NodeRewardsInfo"

record IntervalInfo =
  Index :: nat
  TreeFilePath :: string
  TreeFileExists :: bool
  MerkleRootValid :: bool
  CID :: string
  StartTime :: Time
  EndTime :: Time
  NodeExists :: bool
  CollateralRplAmount :: "int option"
  ODaoRplAmount :: "int option"
  SmoothingPoolEthAmount :: "int option"
  MerkleProof :: "hash list"

text \<open>
  What lies outside the two functions: the configuration, the table of the early Prater
  intervals, the rewards pool contract, the JSON and hex decoders, HTTP, the
  decompressor and failures of the file system.
  \<^item> \<open>http_Get url\<close> is the answer of \<^verbatim>\<open>http.Get\<close>: an error, or a response with its
    status and what \<^verbatim>\<open>io.ReadAll(resp.Body)\<close> gives.
  \<^item> \<open>stat_fails\<close>, \<open>read_fails\<close> and \<open>write_fails\<close> are the failures of \<^verbatim>\<open>os.Stat\<close>
    (other than "not exist"), \<^verbatim>\<open>os.ReadFile\<close> and \<^verbatim>\<open>os.WriteFile\<close> on a path.
    \<^verbatim>\<open>os.WriteFile\<close> opens the file, creating or truncating it, writes and closes: it
    fails at the open (\<open>OpenFails\<close>), or later (\<open>WriteFails\<close>, with the number of bytes
    that reached the file).
  \<^item> \<open>Address_Hex\<close> is \<^verbatim>\<open>common.Address.Hex\<close>.
  \<^item> \<open>fmt_no_operands\<close> is what \<^verbatim>\<open>fmt\<close> makes of a format string that contains \<^verbatim>\<open>%\<close>
    when it is given no operand.
\<close>

datatype write_failure = OpenFails error | WriteFails error nat

record HttpResponse =
  StatusCode :: nat
  Status_text :: string
  Body :: "error + bytes"

record RewardsEnv =
  Network_is_Prater :: bool
  Network_name :: string
  GetRewardsTreePath :: "nat \<Rightarrow> bool \<Rightarrow> string"
  praterPrehistoryIntervalEvents :: "nat \<Rightarrow> RewardsEvent"
  rewards_NewRewardsPool :: "error option"
  rewardsPool_GetRewardsEvent :: "nat \<Rightarrow> error + bool \<times> RewardsEvent"
  json_Unmarshal :: "bytes \<Rightarrow> error + RewardsFile"
  common_HexToHash :: "string \<Rightarrow> hash"
  GetMerkleProof :: "NodeRewardsInfo \<Rightarrow> error + hash list"
  Address_Hex :: "address \<Rightarrow> string"
  fmt_no_operands :: "string \<Rightarrow> string"
  homedir_Expand :: "string \<Rightarrow> error + string"
  filepath_Base :: "string \<Rightarrow> string"
  RewardsTreeIpfsExtension :: string
  PrimaryRewardsFileUrl :: "string \<Rightarrow> string \<Rightarrow> string"
  SecondaryRewardsFileUrl :: "string \<Rightarrow> string \<Rightarrow> string"
  GithubRewardsFileUrl :: "string \<Rightarrow> string \<Rightarrow> string"
  http_Get :: "string \<Rightarrow> error + HttpResponse"
  zstd_DecodeAll :: "bytes \<Rightarrow> error + bytes"
  zstd_NewReader :: "error option"
  stat_fails :: "string \<Rightarrow> error option"
  read_fails :: "string \<Rightarrow> error option"
  write_fails :: "string \<Rightarrow> write_failure option"

fun error_text :: "error \<Rightarrow> string" where
  "error_text (Error m) = m"
| "error_text (Panic m) = m"

subsection \<open>Formatting\<close>

text \<open>
  \<^verbatim>\<open>%s\<close> with a string operand inserts the string, \<^verbatim>\<open>%w\<close> with an error its message
  (\<open>wrap_error\<close>), \<^verbatim>\<open>%d\<close> with a \<^verbatim>\<open>uint64\<close> its decimal digits.
\<close>

fun fmt_decimal :: "nat \<Rightarrow> string" where
  "fmt_decimal n =
     (if n < 10 then [''0123456789'' ! n]
      else fmt_decimal (n div 10) @ [''0123456789'' ! (n mod 10)])"

declare fmt_decimal.simps [simp del]

text \<open>
  \<^verbatim>\<open>fmt.Errorf(format)\<close> with no operand: the text up to the first \<^verbatim>\<open>%\<close> is copied, so
  a format without \<^verbatim>\<open>%\<close> is the message; a format with \<^verbatim>\<open>%\<close> comes out rewritten
  (\<^verbatim>\<open>%d\<close> as \<^verbatim>\<open>%!d(MISSING)\<close>, for one).
\<close>

definition fmt_Errorf_format :: "RewardsEnv \<Rightarrow> string \<Rightarrow> error" where
  "fmt_Errorf_format env format =
     Error (if CHR ''%'' \<in> set format then fmt_no_operands env format else format)"

subsection \<open>The file system\<close>

datatype stat_result = StatOk | StatNotExist | StatError error

definition os_Stat :: "RewardsEnv \<Rightarrow> FileSystem \<Rightarrow> string \<Rightarrow> stat_result" where
  "os_Stat env fs path =
     (case stat_fails env path of
        Some e \<Rightarrow> StatError e
      | None \<Rightarrow> (case fs path of None \<Rightarrow> StatNotExist | Some b \<Rightarrow> StatOk))"

definition os_ReadFile :: "RewardsEnv \<Rightarrow> FileSystem \<Rightarrow> string \<Rightarrow> error + bytes" where
  "os_ReadFile env fs path =
     (case read_fails env path of
        Some e \<Rightarrow> Inl e
      | None \<Rightarrow> (case fs path of
                   None \<Rightarrow> Inl (Error ''no such file or directory'')
                 | Some b \<Rightarrow> Inr b))"

text \<open>A failed open leaves the files as they were; after a later failure the file holds
  the bytes that reached it.\<close>

definition os_WriteFile ::
  "RewardsEnv \<Rightarrow> FileSystem \<Rightarrow> string \<Rightarrow> bytes \<Rightarrow> error option \<times> FileSystem" where
  "os_WriteFile env fs path b =
     (case write_fails env path of
        None \<Rightarrow> (None, fs(path \<mapsto> b))
      | Some (OpenFails e) \<Rightarrow> (Some e, fs)
      | Some (WriteFails e n) \<Rightarrow> (Some e, fs(path \<mapsto> take n b)))"

subsection \<open>\<^verbatim>\<open>GetRewardSnapshotEvent\<close> and \<^verbatim>\<open>GetIntervalInfo\<close>\<close>

definition GetRewardSnapshotEvent :: "RewardsEnv \<Rightarrow> nat \<Rightarrow> error + RewardsEvent" where
  "GetRewardSnapshotEvent env interval =
     (case rewards_NewRewardsPool env of
        Some err \<Rightarrow> Inl (wrap_error ''error getting rewards pool binding: '' err)
      | None \<Rightarrow>
          (case rewardsPool_GetRewardsEvent env interval of
             Inl err \<Rightarrow>
               Inl (wrap_error (''error getting rewards event for interval ''
                                  @ fmt_decimal interval @ '': '') err)
           | Inr (found, event) \<Rightarrow>
               if \<not> found
               then Inl (Error (''interval '' @ fmt_decimal interval @ '' event not found''))
               else Inr event))"

text \<open>The zero value of \<^verbatim>\<open>IntervalInfo\<close>, with which the named result \<^verbatim>\<open>info\<close> starts.\<close>

definition zero_IntervalInfo :: IntervalInfo where
  "zero_IntervalInfo =
     \<lparr>Index = 0, TreeFilePath = [], TreeFileExists = False, MerkleRootValid = False,
      CID = [], StartTime = 0, EndTime = 0, NodeExists = False,
      CollateralRplAmount = None, ODaoRplAmount = None, SmoothingPoolEthAmount = None,
      MerkleProof = []\<rparr>"

text \<open>
  Lines 105--118: the event of the interval. The function has named results
  \<^verbatim>\<open>(info, err)\<close>, so every \<^verbatim>\<open>return\<close> gives back \<^verbatim>\<open>info\<close> as filled so far together
  with \<^verbatim>\<open>err\<close>: the model returns the pair.
\<close>

definition interval_event :: "RewardsEnv \<Rightarrow> nat \<Rightarrow> error + RewardsEvent" where
  "interval_event env interval =
     (if Network_is_Prater env \<and> interval < 6
      then Inr (praterPrehistoryIntervalEvents env interval)
      else GetRewardSnapshotEvent env interval)"

text \<open>Lines 156--171, once the root is found valid.\<close>

definition node_rewards ::
  "RewardsEnv \<Rightarrow> RewardsFile \<Rightarrow> address \<Rightarrow> IntervalInfo \<Rightarrow> IntervalInfo \<times> error option" where
  "node_rewards env proofWrapper nodeAddress info =
     (case NodeRewards proofWrapper nodeAddress of
        None \<Rightarrow> (info\<lparr>NodeExists := False\<rparr>, None)
      | Some rewards \<Rightarrow>
          (let info1 = info\<lparr>NodeExists := True,
                            CollateralRplAmount := Some (CollateralRpl rewards),
                            ODaoRplAmount := Some (OracleDaoRpl rewards),
                            SmoothingPoolEthAmount := Some (SmoothingPoolEth rewards)\<rparr>
           in case GetMerkleProof env rewards of
                Inl err \<Rightarrow>
                  (info1,
                   Some (wrap_error (''error deserializing merkle proof for ''
                                       @ TreeFilePath info @ '', node ''
                                       @ Address_Hex env nodeAddress @ '': '') err))
              | Inr proof \<Rightarrow> (info1\<lparr>MerkleProof := proof\<rparr>, None)))"

definition GetIntervalInfo ::
  "RewardsEnv \<Rightarrow> FileSystem \<Rightarrow> address \<Rightarrow> nat \<Rightarrow> IntervalInfo \<times> error option" where
  "GetIntervalInfo env fs nodeAddress interval =
     (let info0 = zero_IntervalInfo\<lparr>Index := interval\<rparr> in
      case interval_event env interval of
        Inl err \<Rightarrow> (info0, Some err)
      | Inr event \<Rightarrow>
          (let info1 = info0\<lparr>CID := MerkleTreeCID event,
                             StartTime := IntervalStartTime event,
                             EndTime := IntervalEndTime event\<rparr>;
               merkleRootCanon = MerkleRoot event;
               info2 = info1\<lparr>TreeFilePath := GetRewardsTreePath env interval True\<rparr>
           in
           if os_Stat env fs (TreeFilePath info2) = StatNotExist
           then (info2\<lparr>TreeFileExists := False\<rparr>, None)
           else
             (let info3 = info2\<lparr>TreeFileExists := True\<rparr> in
              case os_ReadFile env fs (TreeFilePath info3) of
                Inl err \<Rightarrow>
                  (info3,
                   Some (wrap_error (''error reading '' @ TreeFilePath info3 @ '': '') err))
              | Inr fileBytes \<Rightarrow>
                  (case json_Unmarshal env fileBytes of
                     Inl err \<Rightarrow>
                       (info3,
                        Some (wrap_error (''error deserializing '' @ TreeFilePath info3
                                            @ '': '') err))
                   | Inr proofWrapper \<Rightarrow>
                       (let merkleRootFromFile =
                              common_HexToHash env (MerkleRoot_hex proofWrapper)
                        in if merkleRootCanon \<noteq> merkleRootFromFile
                           then (info3\<lparr>MerkleRootValid := False\<rparr>, None)
                           else node_rewards env proofWrapper nodeAddress
                                  (info3\<lparr>MerkleRootValid := True\<rparr>))))))"

subsection \<open>\<^verbatim>\<open>DownloadRewardsFile\<close>\<close>

definition decompressFile :: "RewardsEnv \<Rightarrow> bytes \<Rightarrow> error + bytes" where
  "decompressFile env compressedBytes =
     (case zstd_NewReader env of
        Some err \<Rightarrow> Inl (wrap_error ''error creating compression decoder: '' err)
      | None \<Rightarrow>
          (case zstd_DecodeAll env compressedBytes of
             Inl err \<Rightarrow> Inl (wrap_error ''error decompressing rewards file: '' err)
           | Inr decompressedBytes \<Rightarrow> Inr decompressedBytes))"

text \<open>
  One pass of the loop over the URLs up to the write (lines 287--313): either the line
  that the pass appends to \<^verbatim>\<open>errBuilder\<close> before its \<^verbatim>\<open>continue\<close>, or the bytes to
  write. \<^verbatim>\<open>strings.HasSuffix\<close> is \<open>suffix\<close>.
\<close>

definition fetch_url :: "RewardsEnv \<Rightarrow> string \<Rightarrow> string + bytes" where
  "fetch_url env url =
     (case http_Get env url of
        Inl err \<Rightarrow> Inl (''Downloading '' @ url @ '' failed ('' @ error_text err @ '')\<newline>'')
      | Inr resp \<Rightarrow>
          if StatusCode resp \<noteq> 200
          then Inl (''Downloading '' @ url @ '' failed with status '' @ Status_text resp @ ''\<newline>'')
          else
            (case Body resp of
               Inl err \<Rightarrow>
                 Inl (''Error reading response bytes from '' @ url @ '': '' @ error_text err
                        @ ''\<newline>'')
             | Inr bytes \<Rightarrow>
                 if suffix (RewardsTreeIpfsExtension env) url
                 then
                   (case decompressFile env bytes of
                      Inl err \<Rightarrow>
                        Inl (''Error decompressing '' @ url @ '': '' @ error_text err @ ''\<newline>'')
                    | Inr writeBytes \<Rightarrow> Inr writeBytes)
                 else Inr bytes))"

text \<open>The error of line 318.\<close>

definition saving_error :: "nat \<Rightarrow> string \<Rightarrow> error \<Rightarrow> error" where
  "saving_error interval rewardsTreePath err =
     wrap_error (''error saving interval '' @ fmt_decimal interval @ '' file to ''
                   @ rewardsTreePath @ '': '') err"

text \<open>
  The loop (lines 286--322) and the return after it (line 324), which hands the
  collected lines to \<^verbatim>\<open>fmt.Errorf\<close> as its format.
\<close>

fun download_loop ::
  "RewardsEnv \<Rightarrow> FileSystem \<Rightarrow> nat \<Rightarrow> string \<Rightarrow> string list \<Rightarrow> string
     \<Rightarrow> error option \<times> FileSystem" where
  "download_loop env fs interval rewardsTreePath [] errBuilder =
     (Some (fmt_Errorf_format env errBuilder), fs)"
| "download_loop env fs interval rewardsTreePath (url # urls) errBuilder =
     (case fetch_url env url of
        Inl line \<Rightarrow> download_loop env fs interval rewardsTreePath urls (errBuilder @ line)
      | Inr writeBytes \<Rightarrow>
          (case os_WriteFile env fs rewardsTreePath writeBytes of
             (Some err, fs') \<Rightarrow> (Some (saving_error interval rewardsTreePath err), fs')
           | (None, fs') \<Rightarrow> (None, fs')))"

text \<open>The lines that the failed passes over a list of URLs write to \<^verbatim>\<open>errBuilder\<close>.\<close>

definition failure_lines :: "RewardsEnv \<Rightarrow> string list \<Rightarrow> string" where
  "failure_lines env urls =
     concat (map (\<lambda>url. case fetch_url env url of Inl line \<Rightarrow> line | Inr b \<Rightarrow> []) urls)"

text \<open>Lines 278--282.\<close>

definition rewards_urls :: "RewardsEnv \<Rightarrow> string \<Rightarrow> string \<Rightarrow> string list" where
  "rewards_urls env cid rewardsTreeFilename =
     (let ipfsFilename = rewardsTreeFilename @ RewardsTreeIpfsExtension env
      in [PrimaryRewardsFileUrl env cid ipfsFilename,
          SecondaryRewardsFileUrl env cid ipfsFilename,
          GithubRewardsFileUrl env (Network_name env) rewardsTreeFilename])"

definition DownloadRewardsFile ::
  "RewardsEnv \<Rightarrow> FileSystem \<Rightarrow> nat \<Rightarrow> string \<Rightarrow> bool \<Rightarrow> error option \<times> FileSystem" where
  "DownloadRewardsFile env fs interval cid isDaemon =
     (case homedir_Expand env (GetRewardsTreePath env interval isDaemon) of
        Inl err \<Rightarrow> (Some (wrap_error ''error expanding rewards tree path: '' err), fs)
      | Inr rewardsTreePath \<Rightarrow>
          download_loop env fs interval rewardsTreePath
            (rewards_urls env cid (filepath_Base env rewardsTreePath)) [])"

section \<open>Bond reduction (\<^verbatim>\<open>reduceBond\<close>)\<close>

text \<open>
  The fields of the task \<^verbatim>\<open>reduceBonds\<close> that \<^verbatim>\<open>reduceBond\<close> reads (\<^verbatim>\<open>maxFee\<close> may be
  nil), the gas estimate, and the options of a transaction.
\<close>

record reduceBonds =
  maxFee :: "int option"
  maxPriorityFee :: int
  gasLimit :: nat

record GasInfo =
  EstGasLimit :: nat
  SafeGasLimit :: nat

record TransactOpts =
  From :: address
  GasFeeCap :: "int option"
  GasTipCap :: "int option"
  GasLimit :: nat

text \<open>
  What the calls of \<^verbatim>\<open>reduceBond\<close> answered. A minipool binding is known by its
  delegate version. \<^verbatim>\<open>api.PrintAndCheckGasInfo\<close> gets the gas estimate, the maximum fee
  and the gas limit (its threshold and logger are those of the task); it answers whether
  the gas price is acceptable. \<^verbatim>\<open>mpv3.ReduceBondAmount\<close> submits the transaction.
\<close>

record ReduceBondCalls =
  w_GetNodeAccountTransactor :: "error + TransactOpts"
  minipool_NewMinipoolFromVersion :: "address \<Rightarrow> nat \<Rightarrow> error + nat"
  minipool_GetMinipoolAsV3 :: "nat \<Rightarrow> bool"
  mpv3_EstimateReduceBondAmountGas :: "TransactOpts \<Rightarrow> error + GasInfo"
  rpgas_GetHeadlessMaxFeeWei :: "error + int"
  minipool_GetReduceBondTime :: "address \<Rightarrow> error + Time"
  api_PrintAndCheckGasInfo :: "GasInfo \<Rightarrow> int \<Rightarrow> nat \<Rightarrow> bool"
  mpv3_ReduceBondAmount :: "TransactOpts \<Rightarrow> error + hash"
  api_PrintAndWaitForTransaction :: "hash \<Rightarrow> error option"

text \<open>Line 29.\<close>

definition reduceBondTimeoutSafetyFactor :: int where
  "reduceBondTimeoutSafetyFactor = 2"

text \<open>Lines 265--271.\<close>

definition get_maxFee :: "reduceBonds \<Rightarrow> ReduceBondCalls \<Rightarrow> error + int" where
  "get_maxFee t calls =
     (case maxFee t of
        None \<Rightarrow> rpgas_GetHeadlessMaxFeeWei calls
      | Some fee \<Rightarrow>
          if big_Uint64 fee = 0 then rpgas_GetHeadlessMaxFeeWei calls else Inr fee)"

text \<open>
  Lines 282--284, in \<^verbatim>\<open>time.Duration\<close> arithmetic: the sum and the difference wrap, the
  quotient truncates.
\<close>

definition remainingTime :: "Duration \<Rightarrow> Duration \<Rightarrow> Time \<Rightarrow> Time \<Rightarrow> Duration" where
  "remainingTime windowStart windowLength latestBlockTime reduceBondTime =
     (let timeSinceReductionStart = Time_Sub latestBlockTime reduceBondTime
      in wrap_int64 (wrap_int64 (windowStart + windowLength) - timeSinceReductionStart))"

definition isDue :: "Duration \<Rightarrow> Duration \<Rightarrow> Time \<Rightarrow> Time \<Rightarrow> bool" where
  "isDue windowStart windowLength latestBlockTime reduceBondTime =
     (remainingTime windowStart windowLength latestBlockTime reduceBondTime
        < go_quot windowLength reduceBondTimeoutSafetyFactor)"

text \<open>
  Lines 294--314: the transaction is submitted, then waited for. The second component of
  the result lists the transactions submitted.
\<close>

definition submit_reduceBond ::
  "reduceBonds \<Rightarrow> ReduceBondCalls \<Rightarrow> TransactOpts \<Rightarrow> int \<Rightarrow> nat
     \<Rightarrow> (bool \<times> error option) \<times> TransactOpts list" where
  "submit_reduceBond t calls opts fee gas =
     (let opts' = opts\<lparr>GasFeeCap := Some fee, GasTipCap := Some (maxPriorityFee t),
                       GasLimit := gas\<rparr>
      in case mpv3_ReduceBondAmount calls opts' of
           Inl err \<Rightarrow> ((False, Some err), [opts'])
         | Inr txHash \<Rightarrow>
             (case api_PrintAndWaitForTransaction calls txHash of
                Some err \<Rightarrow> ((False, Some err), [opts'])
              | None \<Rightarrow> ((True, None), [opts'])))"

definition reduceBond ::
  "reduceBonds \<Rightarrow> ReduceBondCalls \<Rightarrow> NativeMinipoolDetails \<Rightarrow> Duration \<Rightarrow> Duration \<Rightarrow> Time
     \<Rightarrow> (bool \<times> error option) \<times> TransactOpts list" where
  "reduceBond t calls mpd windowStart windowLength latestBlockTime =
     (case w_GetNodeAccountTransactor calls of
        Inl err \<Rightarrow> ((False, Some err), [])
      | Inr opts \<Rightarrow>
        case minipool_NewMinipoolFromVersion calls (MinipoolAddress mpd) (Version mpd) of
          Inl err \<Rightarrow> ((False, Some (wrap_error ''error creating minipool binding: '' err)), [])
        | Inr mpBinding \<Rightarrow>
          if \<not> minipool_GetMinipoolAsV3 calls mpBinding
          then ((False, Some (Error ''cannot reduce bond because the delegate version is too low'')),
                [])
          else
            case mpv3_EstimateReduceBondAmountGas calls opts of
              Inl err \<Rightarrow>
                ((False, Some (wrap_error
                    ''could not estimate the gas required to reduce bond: '' err)), [])
            | Inr gasInfo \<Rightarrow>
              let gas = (if gasLimit t \<noteq> 0 then gasLimit t else SafeGasLimit gasInfo) in
              case get_maxFee t calls of
                Inl err \<Rightarrow> ((False, Some err), [])
              | Inr fee \<Rightarrow>
                case minipool_GetReduceBondTime calls (MinipoolAddress mpd) of
                  Inl err \<Rightarrow>
                    ((False, Some (wrap_error ''error getting reduce bond time: '' err)), [])
                | Inr reduceBondTime \<Rightarrow>
                    if \<not> api_PrintAndCheckGasInfo calls gasInfo fee (gasLimit t)
                    then
                      (if \<not> isDue windowStart windowLength latestBlockTime reduceBondTime
                       then ((False, None), [])
                       else submit_reduceBond t calls opts fee gas)
                    else submit_reduceBond t calls opts fee gas)"

section \<open>Finding the block of a time (\<^verbatim>\<open>GetELBlockHeaderForTime\<close>)\<close>

text \<open>
  A block header, by its number (a \<^verbatim>\<open>*big.Int\<close>) and its time (a \<^verbatim>\<open>uint64\<close>). The
  execution client is the function \<^verbatim>\<open>HeaderByNumber\<close>; the argument \<open>None\<close> is nil and
  asks for the latest block.
\<close>

record Header =
  Number :: int
  Time :: nat

type_synonym ExecutionClient = "int option \<Rightarrow> error + Header"

text \<open>
  The function computes with \<^verbatim>\<open>float64\<close>: the times, their difference and its absolute
  value, and the half of the pivot (\<^verbatim>\<open>math.Ceil(float64(pivotSize) / 2)\<close>). All these are
  whole numbers or halves of whole numbers; below \<open>2 ^ 53\<close>, which holds for every block
  number and every time in seconds of a chain, \<^verbatim>\<open>float64\<close> computes them exactly, and
  the model computes them in the integers. The least distance starts as \<^verbatim>\<open>+Inf\<close>,
  here \<open>None\<close>.
\<close>

text \<open>Line 226: \<^verbatim>\<open>distance < minimumDistance\<close>.\<close>

definition is_better :: "int \<Rightarrow> int option \<Rightarrow> bool" where
  "is_better distance minimumDistance =
     (case minimumDistance of None \<Rightarrow> True | Some m \<Rightarrow> distance < m)"

text \<open>Line 245.\<close>

definition half_pivot :: "nat \<Rightarrow> nat" where
  "half_pivot pivotSize = (pivotSize + 1) div 2"

text \<open>Lines 246--252: \<^verbatim>\<open>big.NewInt(int64(pivotSize))\<close> is subtracted or added.\<close>

definition move_candidate :: "int \<Rightarrow> int \<Rightarrow> nat \<Rightarrow> int" where
  "move_candidate candidateBlockNumber delta pivotSize =
     (if delta < 0 then candidateBlockNumber - wrap_int64 (int pivotSize)
      else candidateBlockNumber + wrap_int64 (int pivotSize))"

text \<open>Lines 255--257: the comparison and \<^verbatim>\<open>latestBlock.Uint64() - 1\<close> are in \<^verbatim>\<open>uint64\<close>.\<close>

definition clamp_candidate :: "int \<Rightarrow> int \<Rightarrow> int" where
  "clamp_candidate latestBlock candidateBlockNumber =
     (let limit = (big_Uint64 latestBlock + 2 ^ 64 - 1) mod 2 ^ 64
      in if big_Uint64 candidateBlockNumber > limit then int limit
         else candidateBlockNumber)"

text \<open>
  The inner loop of lines 231--240 and the return of line 241. The loops of the function
  have no bound of their own; the model counts the passes it may still make and returns
  \<open>None\<close> when none is left.
\<close>

fun walk_back ::
  "nat \<Rightarrow> ExecutionClient \<Rightarrow> int \<Rightarrow> int \<Rightarrow> int \<Rightarrow> Header \<Rightarrow> (error + Header) option" where
  "walk_back 0 client targetTimeUnix candidateBlockNumber candidateTime bestBlock = None"
| "walk_back (Suc n) client targetTimeUnix candidateBlockNumber candidateTime bestBlock =
     (if candidateTime > targetTimeUnix
      then
        (case client (Some (candidateBlockNumber - 1)) of
           Inl err \<Rightarrow> Some (Inl (wrap_error ''error getting EL block: '' err))
         | Inr candidateBlock \<Rightarrow>
             walk_back n client targetTimeUnix (candidateBlockNumber - 1)
               (int (Time candidateBlock)) candidateBlock)
      else Some (Inr bestBlock))"

text \<open>The loop of lines 219--263.\<close>

fun search_loop ::
  "nat \<Rightarrow> ExecutionClient \<Rightarrow> int \<Rightarrow> int \<Rightarrow> int \<Rightarrow> Header \<Rightarrow> Header \<Rightarrow> nat \<Rightarrow> int option
     \<Rightarrow> (error + Header) option" where
  "search_loop 0 client latestBlock targetTimeUnix candidateBlockNumber candidateBlock
     bestBlock pivotSize minimumDistance = None"
| "search_loop (Suc n) client latestBlock targetTimeUnix candidateBlockNumber candidateBlock
     bestBlock pivotSize minimumDistance =
     (if \<not> is_better \<bar>targetTimeUnix - int (Time candidateBlock)\<bar> minimumDistance
         \<and> pivotSize = 1
      then walk_back n client targetTimeUnix candidateBlockNumber (int (Time candidateBlock))
             bestBlock
      else
        (case client (Some (clamp_candidate latestBlock
                 (move_candidate candidateBlockNumber
                    (targetTimeUnix - int (Time candidateBlock)) (half_pivot pivotSize)))) of
           Inl err \<Rightarrow> Some (Inl (wrap_error ''error getting EL block: '' err))
         | Inr nextBlock \<Rightarrow>
             search_loop n client latestBlock targetTimeUnix
               (clamp_candidate latestBlock
                  (move_candidate candidateBlockNumber
                     (targetTimeUnix - int (Time candidateBlock)) (half_pivot pivotSize)))
               nextBlock
               (if is_better \<bar>targetTimeUnix - int (Time candidateBlock)\<bar> minimumDistance
                then candidateBlock else bestBlock)
               (half_pivot pivotSize)
               (if is_better \<bar>targetTimeUnix - int (Time candidateBlock)\<bar> minimumDistance
                then Some \<bar>targetTimeUnix - int (Time candidateBlock)\<bar>
                else minimumDistance)))"

text \<open>
  Lines 196--217. The divisor of line 206 is 2, so \<^verbatim>\<open>Div\<close> is \<open>div\<close>.
  \<^verbatim>\<open>targetTime.Unix()\<close> is the time in whole seconds.
\<close>

definition GetELBlockHeaderForTime ::
  "nat \<Rightarrow> ExecutionClient \<Rightarrow> int \<Rightarrow> Time \<Rightarrow> (error + Header) option" where
  "GetELBlockHeaderForTime fuel client deployBlock targetTime =
     (case client None of
        Inl err \<Rightarrow> Some (Inl (wrap_error ''error getting latest block header: '' err))
      | Inr latestBlockHeader \<Rightarrow>
          (let latestBlock = Number latestBlockHeader;
               delta = (latestBlock - deployBlock) div 2;
               candidateBlockNumber = latestBlock - delta
           in case client (Some candidateBlockNumber) of
                Inl err \<Rightarrow> Some (Inl (wrap_error ''error getting EL block: '' err))
              | Inr candidateBlock \<Rightarrow>
                  search_loop fuel client latestBlock (targetTime div time_Second)
                    candidateBlockNumber candidateBlock candidateBlock
                    (big_Uint64 (Number candidateBlock)) None))"

text \<open>
  A bound on the passes that the search loop still makes: a pass that finds a nearer block
  lowers the least distance, any other pass that goes on halves a pivot of at least 2.
\<close>

definition search_measure :: "int \<Rightarrow> nat \<Rightarrow> int option \<Rightarrow> nat" where
  "search_measure distance pivotSize minimumDistance =
     (case minimumDistance of
        None \<Rightarrow> nat distance + pivotSize + 1
      | Some m \<Rightarrow> nat m + pivotSize)"

section \<open>Example inputs\<close>

text \<open>
  A state with one node (address 100) that owns five minipools of 8 ETH bonded and
  24 ETH borrowed: one that counts, one in prelaunch, one whose validator is unknown, one
  activated after the state's epoch (slot 100, epoch 3) and one that exited before it.
  The RPL price is 0.01 ETH, the collateral bounds are 10 percent of the borrowed and
  150 percent of the bonded ETH, the interval lasts 28 days. The node's stake and its
  registration time are arguments.
\<close>

definition example_details :: NetworkDetails where
  "example_details =
     (\<lambda>f. 0)(RplPrice := 10000000000000000,
              MinCollateralFraction := 100000000000000000,
              MaxCollateralFraction := 1500000000000000000,
              IntervalDuration := 2419200 * time_Second)"

definition example_minipool :: "address \<Rightarrow> pubkey \<Rightarrow> MinipoolStatus \<Rightarrow> NativeMinipoolDetails" where
  "example_minipool a k st =
     \<lparr>Exists = True, MinipoolAddress = a, Pubkey = k, Status = st, NodeAddress_mp = 100,
      NodeDepositBalance = 8000000000000000000, UserDepositBalance = 24000000000000000000,
      NodeShareOfBalanceIncludingBeacon = 0, UserShareOfBalanceIncludingBeacon = 0,
      Version = 3\<rparr>"

definition example_node :: "int \<Rightarrow> int \<Rightarrow> NativeNodeDetails" where
  "example_node rplStake registrationTime =
     \<lparr>NodeAddress = 100, RplStake = rplStake, RegistrationTime = registrationTime\<rparr>"

definition example_state :: "int \<Rightarrow> int \<Rightarrow> NetworkState" where
  "example_state rplStake registrationTime =
     \<lparr>IsAtlasDeployed = True, ElBlockNumber = 5000, BeaconSlotNumber = 100,
      BeaconConfig = \<lparr>GenesisTime = 1606824023, SecondsPerSlot = 12, SlotsPerEpoch = 32\<rparr>,
      NetworkDetails = Some example_details,
      NodeDetails = [example_node rplStake registrationTime],
      NodeDetailsByAddress = [100 \<mapsto> 0],
      node_cells = [0 \<mapsto> example_node rplStake registrationTime],
      MinipoolDetails =
        [example_minipool 200 1 Staking, example_minipool 201 2 Prelaunch,
         example_minipool 202 3 Staking, example_minipool 203 4 Staking,
         example_minipool 204 5 Staking],
      MinipoolDetailsByAddress = [200 \<mapsto> 0, 201 \<mapsto> 1, 202 \<mapsto> 2, 203 \<mapsto> 3, 204 \<mapsto> 4],
      MinipoolDetailsByNode = [100 \<mapsto> [0, 1, 2, 3, 4]],
      ValidatorDetails =
        [1 \<mapsto> \<lparr>Balance = 32000000000, ActivationEpoch = 0, ExitEpoch = 18446744073709551615\<rparr>,
         2 \<mapsto> \<lparr>Balance = 32000000000, ActivationEpoch = 0, ExitEpoch = 18446744073709551615\<rparr>,
         4 \<mapsto> \<lparr>Balance = 32000000000, ActivationEpoch = 10, ExitEpoch = 18446744073709551615\<rparr>,
         5 \<mapsto> \<lparr>Balance = 32000000000, ActivationEpoch = 0, ExitEpoch = 2\<rparr>]\<rparr>"

text \<open>
  Answers of the chain for a state with two nodes, 100 and 101, and the minipools and
  validators of the example state; every call succeeds. In \<open>failing_reads\<close> one
  getter of the network details, \<^verbatim>\<open>node.GetTotalRPLStake\<close>, fails.
\<close>

definition example_reads :: ChainReads where
  "example_reads =
     \<lparr>bc_GetBeaconBlock = (\<lambda>slot. Inr (\<lparr>ExecutionBlockNumber = 5000\<rparr>, True)),
      rp_IsAtlasDeployed = (\<lambda>blk. Inr True),
      rpstate_NewNetworkContracts = (\<lambda>isAtlasDeployed blk. Inr 1),
      network_read = (\<lambda>f blk. Inr (example_details f)),
      finish_rank = (\<lambda>i. i),
      rpstate_GetAllNativeNodeDetails =
        (\<lambda>c blk. Inr [example_node 300000000000000000000 1605615623,
                       \<lparr>NodeAddress = 101, RplStake = 0, RegistrationTime = 1606000000\<rparr>]),
      rpstate_GetAllNativeMinipoolDetails =
        (\<lambda>c blk. Inr (MinipoolDetails (example_state 0 0))),
      bc_GetValidatorStatuses = (\<lambda>pubkeys slot. Inr (ValidatorDetails (example_state 0 0))),
      rpstate_CalculateCompleteMinipoolShares =
        (\<lambda>c mpds balances blk.
           Inr (\<lambda>i mpd. mpd\<lparr>NodeShareOfBalanceIncludingBeacon := 8000000000000000000,
                                UserShareOfBalanceIncludingBeacon := 24000000000000000000\<rparr>))\<rparr>"

definition failing_reads :: ChainReads where
  "failing_reads =
     example_reads
       \<lparr>network_read :=
          (\<lambda>f blk. if f = TotalRPLStake then Inl (Error ''execution reverted'')
                    else Inr (example_details f))\<rparr>"

definition example_config :: Eth2Config where
  "example_config = \<lparr>GenesisTime = 1606824023, SecondsPerSlot = 12, SlotsPerEpoch = 32\<rparr>"

text \<open>
  A rewards environment for interval 5, whose event records the root 77. Two files have
  the same entry for node 100; \<open>good_file\<close> states the root \<open>0x4d\<close> (77),
  \<open>tampered_file\<close> the root \<open>0x63\<close> (99). The primary mirror serves the tampered
  file, the secondary mirror the good one, both compressed; the third mirror is down.
  In \<open>fallback_env\<close> the first two mirrors fail and the third serves the good file; in
  \<open>offline_env\<close> no mirror answers; in \<open>full_disk_env\<close> the mirrors are those of
  \<open>fallback_env\<close> and the write fails after two bytes.
\<close>

definition example_event :: RewardsEvent where
  "example_event =
     \<lparr>MerkleTreeCID = ''bafy'', IntervalStartTime = 1000, IntervalEndTime = 2000,
      MerkleRoot = 77\<rparr>"

definition good_file :: RewardsFile where
  "good_file =
     \<lparr>MerkleRoot_hex = ''0x4d'',
      NodeRewards = [100 \<mapsto> \<lparr>CollateralRpl = 10, OracleDaoRpl = 0, SmoothingPoolEth = 20,
                              MerkleProof_hex = [''0x01'']\<rparr>]\<rparr>"

definition tampered_file :: RewardsFile where
  "tampered_file = good_file\<lparr>MerkleRoot_hex := ''0x63''\<rparr>"

definition good_bytes :: bytes where
  "good_bytes = [123, 1, 125]"

definition tampered_bytes :: bytes where
  "tampered_bytes = [123, 2, 125]"

definition tree_path :: string where
  "tree_path = ''rp-rewards-mainnet-5.json''"

definition primary_url :: string where
  "primary_url = ''https://bafy.ipfs.dweb.link/rp-rewards-mainnet-5.json.zst''"

definition secondary_url :: string where
  "secondary_url = ''https://ipfs.io/ipfs/bafy/rp-rewards-mainnet-5.json.zst''"

definition github_url :: string where
  "github_url = ''https://github.com/rocket-pool/rewards-trees/raw/main/mainnet/rp-rewards-mainnet-5.json''"

definition rewards_env :: RewardsEnv where
  "rewards_env =
     \<lparr>Network_is_Prater = False, Network_name = ''mainnet'',
      GetRewardsTreePath = (\<lambda>interval isDaemon. tree_path),
      praterPrehistoryIntervalEvents = (\<lambda>interval. example_event),
      rewards_NewRewardsPool = None,
      rewardsPool_GetRewardsEvent = (\<lambda>interval. Inr (True, example_event)),
      json_Unmarshal =
        (\<lambda>b. if b = good_bytes then Inr good_file
              else if b = tampered_bytes then Inr tampered_file
              else Inl (Error ''invalid character'')),
      common_HexToHash = (\<lambda>s. if s = ''0x4d'' then 77 else if s = ''0x63'' then 99 else 0),
      GetMerkleProof = (\<lambda>rewards. Inr [1]),
      Address_Hex =
        (\<lambda>a. if a = 100 then ''0x0000000000000000000000000000000000000064'' else []),
      fmt_no_operands = (\<lambda>format. if format = ''%d'' then ''%!d(MISSING)'' else []),
      homedir_Expand = (\<lambda>path. Inr path),
      filepath_Base = (\<lambda>path. path),
      RewardsTreeIpfsExtension = ''.zst'',
      PrimaryRewardsFileUrl = (\<lambda>cid f. ''https://'' @ cid @ ''.ipfs.dweb.link/'' @ f),
      SecondaryRewardsFileUrl = (\<lambda>cid f. ''https://ipfs.io/ipfs/'' @ cid @ ''/'' @ f),
      GithubRewardsFileUrl =
        (\<lambda>network f. ''https://github.com/rocket-pool/rewards-trees/raw/main/'' @ network
                        @ ''/'' @ f),
      http_Get =
        (\<lambda>url. if url = primary_url
                then Inr \<lparr>StatusCode = 200, Status_text = ''200 OK'',
                          Body = Inr (40 # tampered_bytes)\<rparr>
                else if url = secondary_url
                then Inr \<lparr>StatusCode = 200, Status_text = ''200 OK'',
                          Body = Inr (40 # good_bytes)\<rparr>
                else Inl (Error ''connection refused'')),
      zstd_DecodeAll =
        (\<lambda>b. case b of [] \<Rightarrow> Inl (Error ''unexpected EOF'') | m # raw \<Rightarrow> Inr raw),
      zstd_NewReader = None,
      stat_fails = (\<lambda>path. None), read_fails = (\<lambda>path. None),
      write_fails = (\<lambda>path. None)\<rparr>"

definition fallback_env :: RewardsEnv where
  "fallback_env =
     rewards_env
       \<lparr>http_Get :=
          (\<lambda>url. if url = primary_url then Inl (Error ''connection refused'')
                  else if url = secondary_url
                  then Inr \<lparr>StatusCode = 404, Status_text = ''404 Not Found'', Body = Inr []\<rparr>
                  else Inr \<lparr>StatusCode = 200, Status_text = ''200 OK'',
                            Body = Inr good_bytes\<rparr>)\<rparr>"

definition offline_env :: RewardsEnv where
  "offline_env = rewards_env\<lparr>http_Get := (\<lambda>url. Inl (Error ''connection refused''))\<rparr>"

definition full_disk_env :: RewardsEnv where
  "full_disk_env =
     fallback_env
       \<lparr>write_fails := (\<lambda>path. Some (WriteFails (Error ''no space left on device'') 2))\<rparr>"

text \<open>
  A bond reduction requested at time 1700000000, with a window that starts after 12 hours
  and lasts 2 days; every call succeeds and the gas price is found too high.
\<close>

definition example_task :: reduceBonds where
  "example_task = \<lparr>maxFee = None, maxPriorityFee = 2000000000, gasLimit = 0\<rparr>"

definition example_opts :: TransactOpts where
  "example_opts = \<lparr>From = 100, GasFeeCap = None, GasTipCap = None, GasLimit = 0\<rparr>"

definition example_calls :: ReduceBondCalls where
  "example_calls =
     \<lparr>w_GetNodeAccountTransactor = Inr example_opts,
      minipool_NewMinipoolFromVersion = (\<lambda>a v. Inr v),
      minipool_GetMinipoolAsV3 = (\<lambda>v. 3 \<le> v),
      mpv3_EstimateReduceBondAmountGas =
        (\<lambda>opts. Inr \<lparr>EstGasLimit = 100000, SafeGasLimit = 150000\<rparr>),
      rpgas_GetHeadlessMaxFeeWei = Inr 90000000000,
      minipool_GetReduceBondTime = (\<lambda>a. Inr (time_Unix 1700000000)),
      api_PrintAndCheckGasInfo = (\<lambda>gasInfo fee limit. False),
      mpv3_ReduceBondAmount = (\<lambda>opts. Inr 4711),
      api_PrintAndWaitForTransaction = (\<lambda>txHash. None)\<rparr>"

text \<open>
  A chain of the blocks 0 to 10, block \<open>k\<close> at time \<open>100 + 12 * k\<close>; the client knows
  no other block.
\<close>

definition example_chain :: ExecutionClient where
  "example_chain n =
     (case n of
        None \<Rightarrow> Inr \<lparr>Number = 10, Time = 220\<rparr>
      | Some k \<Rightarrow>
          if 0 \<le> k \<and> k \<le> 10 then Inr \<lparr>Number = k, Time = 100 + 12 * nat k\<rparr>
          else Inl (Error ''not found''))"

chapter \<open>Properties\<close>

section \<open>Claim status\<close>

lemma bit_was_flipped_iff: "bit_was_flipped bitmap j \<longleftrightarrow> bit bitmap j"
proof
  assume "bit_was_flipped bitmap j"
  then have "bitmap AND 2 ^ j = 2 ^ j"
    by (simp add: bit_was_flipped_def Let_def)
  then have "bit (bitmap AND 2 ^ j) j = bit (2 ^ j :: int) j"
    by simp
  then show "bit bitmap j"
    by (simp add: bit_and_iff bit_exp_iff)
next
  assume b: "bit bitmap j"
  have "bitmap AND 2 ^ j = 2 ^ j"
    by (rule bit_eqI) (auto simp add: bit_and_iff bit_exp_iff b)
  then show "bit_was_flipped bitmap j"
    by (simp add: bit_was_flipped_def Let_def)
qed

text \<open>
  Invariant of the inner loop: before \<open>j = j0\<close> the two lists hold the claimed and the
  unclaimed indices below \<open>i * 256 + j0\<close>.
\<close>

lemma claim_inner_loop_upt:
  assumes "i * 256 + j0 \<le> cur" and "j0 \<le> 256"
    and "Claimed cs = filter (interval_claimed st) [0..<i * 256 + j0]"
    and "Unclaimed cs = filter (\<lambda>k. \<not> interval_claimed st k) [0..<i * 256 + j0]"
  shows "claim_inner_loop (st i) i cur [j0..<256] cs =
           \<lparr>Claimed = filter (interval_claimed st) [0..<min (i * 256 + 256) cur],
            Unclaimed = filter (\<lambda>k. \<not> interval_claimed st k) [0..<min (i * 256 + 256) cur]\<rparr>"
  using assms
proof (induction "256 - j0" arbitrary: j0 cs)
  case 0
  then have "j0 = 256" by simp
  with 0 show ?case by simp
next
  case (Suc n)
  then have lt: "j0 < 256" by simp
  then have upt: "[j0..<256] = j0 # [Suc j0..<256]"
    by (simp add: upt_conv_Cons)
  show ?case
  proof (cases "cur \<le> i * 256 + j0")
    case True
    with Suc.prems have "cur = i * 256 + j0" by simp
    with Suc.prems lt show ?thesis
      by (simp add: upt min_def)
  next
    case False
    have flip: "bit_was_flipped (st i) j0 = interval_claimed st (i * 256 + j0)"
      using lt by (simp add: bit_was_flipped_iff interval_claimed_def)
    let ?cs = "if interval_claimed st (i * 256 + j0)
               then cs\<lparr>Claimed := Claimed cs @ [i * 256 + j0]\<rparr>
               else cs\<lparr>Unclaimed := Unclaimed cs @ [i * 256 + j0]\<rparr>"
    have step: "claim_inner_loop (st i) i cur [j0..<256] cs =
                claim_inner_loop (st i) i cur [Suc j0..<256] ?cs"
      using False by (simp add: upt flip)
    have "claim_inner_loop (st i) i cur [Suc j0..<256] ?cs =
           \<lparr>Claimed = filter (interval_claimed st) [0..<min (i * 256 + 256) cur],
            Unclaimed = filter (\<lambda>k. \<not> interval_claimed st k) [0..<min (i * 256 + 256) cur]\<rparr>"
    proof (rule Suc.hyps(1))
      show "n = 256 - Suc j0" using Suc.hyps(2) by simp
      show "i * 256 + Suc j0 \<le> cur" using False by simp
      show "Suc j0 \<le> 256" using lt by simp
      show "Claimed ?cs = filter (interval_claimed st) [0..<i * 256 + Suc j0]"
        using Suc.prems(3) by simp
      show "Unclaimed ?cs = filter (\<lambda>k. \<not> interval_claimed st k) [0..<i * 256 + Suc j0]"
        using Suc.prems(4) by simp
    qed
    with step show ?thesis by simp
  qed
qed

text \<open>Invariant of the outer loop: before bucket \<open>i0\<close> the lists cover the indices below
  \<open>min (i0 * 256) cur\<close>.\<close>

lemma claim_outer_loop_upt:
  assumes "i0 \<le> cur div 256 + 1"
    and "\<forall>i \<le> cur div 256. bms ! i = st i"
    and "Claimed cs = filter (interval_claimed st) [0..<min (i0 * 256) cur]"
    and "Unclaimed cs = filter (\<lambda>k. \<not> interval_claimed st k) [0..<min (i0 * 256) cur]"
  shows "claim_outer_loop bms cur [i0..<cur div 256 + 1] cs =
           \<lparr>Claimed = filter (interval_claimed st) [0..<cur],
            Unclaimed = filter (\<lambda>k. \<not> interval_claimed st k) [0..<cur]\<rparr>"
  using assms
proof (induction "cur div 256 + 1 - i0" arbitrary: i0 cs)
  case 0
  then have i0: "i0 = cur div 256 + 1" by simp
  have "cur < i0 * 256"
    unfolding i0 by (simp add: div_less_iff_less_mult flip: less_Suc_eq_le)
  with 0 i0 show ?case by simp
next
  case (Suc n)
  then have le: "i0 \<le> cur div 256" by simp
  then have upt: "[i0..<cur div 256 + 1] = i0 # [Suc i0..<cur div 256 + 1]"
    by (simp add: upt_conv_Cons)
  have le2: "i0 * 256 \<le> cur"
    using le by (simp add: less_eq_div_iff_mult_less_eq)
  have pre: "Claimed cs = filter (interval_claimed st) [0..<i0 * 256 + 0]"
    "Unclaimed cs = filter (\<lambda>k. \<not> interval_claimed st k) [0..<i0 * 256 + 0]"
    using Suc.prems(3,4) le2 by (simp_all add: min_def)
  have bm: "bms ! i0 = st i0" using Suc.prems(2) le by simp
  have inner: "claim_inner_loop (bms ! i0) i0 cur [0..<256] cs =
           \<lparr>Claimed = filter (interval_claimed st) [0..<min (i0 * 256 + 256) cur],
            Unclaimed = filter (\<lambda>k. \<not> interval_claimed st k) [0..<min (i0 * 256 + 256) cur]\<rparr>"
    unfolding bm using le2 pre by (intro claim_inner_loop_upt) simp_all
  have "claim_outer_loop bms cur [Suc i0..<cur div 256 + 1]
          (claim_inner_loop (bms ! i0) i0 cur [0..<256] cs) =
           \<lparr>Claimed = filter (interval_claimed st) [0..<cur],
            Unclaimed = filter (\<lambda>k. \<not> interval_claimed st k) [0..<cur]\<rparr>"
  proof (rule Suc.hyps(1))
    show "n = cur div 256 + 1 - Suc i0" using Suc.hyps(2) by simp
    show "Suc i0 \<le> cur div 256 + 1" using le by simp
    show "\<forall>i\<le>cur div 256. bms ! i = st i" by (rule Suc.prems(2))
    show "Claimed (claim_inner_loop (bms ! i0) i0 cur [0..<256] cs) =
            filter (interval_claimed st) [0..<min (Suc i0 * 256) cur]"
      by (simp add: inner add.commute)
    show "Unclaimed (claim_inner_loop (bms ! i0) i0 cur [0..<256] cs) =
            filter (\<lambda>k. \<not> interval_claimed st k) [0..<min (Suc i0 * 256) cur]"
      by (simp add: inner add.commute)
  qed
  then show ?case by (subst upt) (simp del: upt_Suc)
qed

lemma GetClaimStatus_filter:
  "GetClaimStatus None st cur =
     Inr \<lparr>Claimed = filter (interval_claimed st) [0..<cur],
          Unclaimed = filter (\<lambda>k. \<not> interval_claimed st k) [0..<cur]\<rparr>"
proof -
  have "claim_outer_loop (map st [0..<cur div 256 + 1]) cur [0..<cur div 256 + 1]
          \<lparr>Claimed = [], Unclaimed = []\<rparr> =
           \<lparr>Claimed = filter (interval_claimed st) [0..<cur],
            Unclaimed = filter (\<lambda>k. \<not> interval_claimed st k) [0..<cur]\<rparr>"
  proof (rule claim_outer_loop_upt)
    show "\<forall>i\<le>cur div 256. map st [0..<cur div 256 + 1] ! i = st i"
    proof (intro allI impI)
      fix i assume "i \<le> cur div 256"
      then have "i < length [0..<cur div 256 + 1]" by simp
      then show "map st [0..<cur div 256 + 1] ! i = st i"
        by (simp only: nth_map) (simp add: nth_upt del: upt_Suc)
    qed
  qed simp_all
  then show ?thesis
    by (simp add: GetClaimStatus_def Query_bucketBitmaps_def Let_def del: upt_Suc)
qed

text \<open>
  \<^bold>\<open>C4.\<close> When the multicall succeeds, \<open>GetClaimStatus\<close> returns two lists that
  partition the interval indices \<open>0, \<dots>, currentIndex - 1\<close>: \<open>Claimed\<close> holds, in
  increasing order, exactly the indices whose bit (position \<open>index mod 256\<close> of the
  bitmap of bucket \<open>index div 256\<close>) is set, \<open>Unclaimed\<close> exactly those whose bit is
  clear; every index below \<open>currentIndex\<close> is in one list and in one only. With
  bucket 0 holding \<open>0b101 = 5\<close> and \<open>currentIndex = 3\<close> the result is
  \<open>Claimed = [0, 2]\<close>, \<open>Unclaimed = [1]\<close>.
\<close>

theorem GetClaimStatus_partition:
  "(\<exists>cs. GetClaimStatus None claimedStorage currentIndex = Inr cs
      \<and> Claimed cs = filter (interval_claimed claimedStorage) [0..<currentIndex]
      \<and> Unclaimed cs = filter (\<lambda>k. \<not> interval_claimed claimedStorage k) [0..<currentIndex]
      \<and> set (Claimed cs) \<union> set (Unclaimed cs) = {0..<currentIndex}
      \<and> set (Claimed cs) \<inter> set (Unclaimed cs) = {}
      \<and> distinct (Claimed cs @ Unclaimed cs))
   \<and> GetClaimStatus None (\<lambda>b. if b = 0 then 5 else 0) 3
       = Inr \<lparr>Claimed = [0, 2], Unclaimed = [1]\<rparr>"
proof
  show "\<exists>cs. GetClaimStatus None claimedStorage currentIndex = Inr cs
      \<and> Claimed cs = filter (interval_claimed claimedStorage) [0..<currentIndex]
      \<and> Unclaimed cs = filter (\<lambda>k. \<not> interval_claimed claimedStorage k) [0..<currentIndex]
      \<and> set (Claimed cs) \<union> set (Unclaimed cs) = {0..<currentIndex}
      \<and> set (Claimed cs) \<inter> set (Unclaimed cs) = {}
      \<and> distinct (Claimed cs @ Unclaimed cs)"
    unfolding GetClaimStatus_filter by (intro exI conjI) auto
  show "GetClaimStatus None (\<lambda>b. if b = 0 then 5 else 0) 3
       = Inr \<lparr>Claimed = [0, 2], Unclaimed = [1]\<rparr>"
    by (simp add: GetClaimStatus_filter interval_claimed_def upt_rec
        bit_numeral_Bit1_Suc_iff bit_numeral_Bit0_Suc_iff numeral_3_eq_3)
qed

text \<open>The theorem at bucket 0 = \<open>0b0110\<close> and \<open>currentIndex = 4\<close>.\<close>

theorem GetClaimStatus_partition_witness:
  "GetClaimStatus None (\<lambda>b. if b = 0 then 6 else 0) 4
     = Inr \<lparr>Claimed = [1, 2], Unclaimed = [0, 3]\<rparr>"
proof -
  obtain cs where cs: "GetClaimStatus None (\<lambda>b. if b = 0 then 6 else 0) 4 = Inr cs"
    "Claimed cs = filter (interval_claimed (\<lambda>b. if b = 0 then 6 else 0)) [0..<4]"
    "Unclaimed cs = filter (\<lambda>k. \<not> interval_claimed (\<lambda>b. if b = 0 then 6 else 0) k) [0..<4]"
    using GetClaimStatus_partition [of "\<lambda>b. if b = 0 then 6 else 0" 4] by blast
  have c: "filter (interval_claimed (\<lambda>b. if b = 0 then 6 else 0)) [0..<4] = [1, 2]"
    by code_simp
  have u: "filter (\<lambda>k. \<not> interval_claimed (\<lambda>b. if b = 0 then 6 else 0) k) [0..<4] = [0, 3]"
    by code_simp
  have "cs = \<lparr>Claimed = [1, 2], Unclaimed = [0, 3]\<rparr>"
    using cs(2,3) unfolding c u by simp
  with cs(1) show ?thesis
    by simp
qed

section \<open>Effective stakes\<close>

text \<open>One pass of the loop adds a minipool's two amounts when the minipool is eligible
  and changes nothing otherwise.\<close>

lemma eligible_step_eligible:
  assumes "SlotsPerEpoch (BeaconConfig s) \<noteq> 0"
  shows "eligible_step s mpd (b, d) =
           Inr (if minipool_eligible s mpd
                then (b + UserDepositBalance mpd, d + NodeDepositBalance mpd)
                else (b, d))"
  using assms
  by (auto simp add: eligible_step_def minipool_eligible_def Let_def split: option.splits)

lemma eligible_loop_sums:
  assumes "SlotsPerEpoch (BeaconConfig s) \<noteq> 0"
    and "\<forall>p \<in> set ps. p < length (MinipoolDetails s)"
  shows "eligible_loop s ps (b, d) =
           Inr (b + sum_list (map UserDepositBalance
                      (filter (minipool_eligible s) (map (\<lambda>p. MinipoolDetails s ! p) ps))),
                d + sum_list (map NodeDepositBalance
                      (filter (minipool_eligible s) (map (\<lambda>p. MinipoolDetails s ! p) ps))))"
  using assms(2)
proof (induction ps arbitrary: b d)
  case Nil
  then show ?case by simp
next
  case (Cons p ps)
  then have p: "deref_minipool s p = Some (MinipoolDetails s ! p)"
    by (simp add: deref_minipool_def)
  from Cons have IH: "\<And>b d. eligible_loop s ps (b, d) =
           Inr (b + sum_list (map UserDepositBalance
                      (filter (minipool_eligible s) (map (\<lambda>p. MinipoolDetails s ! p) ps))),
                d + sum_list (map NodeDepositBalance
                      (filter (minipool_eligible s) (map (\<lambda>p. MinipoolDetails s ! p) ps))))"
    by simp
  show ?case
    by (simp add: p eligible_step_eligible [OF assms(1)] IH)
qed

text \<open>The slice of results has one element per node, the result of that node's run.\<close>

lemma run_goroutines_Inr:
  "run_goroutines f xs = Inr ys \<Longrightarrow>
     length ys = length xs \<and> (\<forall>i < length xs. f (xs ! i) = Inr (ys ! i))"
proof (induction xs arbitrary: ys)
  case Nil
  then show ?case by simp
next
  case (Cons x xs)
  then obtain y ys' where y: "f x = Inr y" "run_goroutines f xs = Inr ys'" "ys = y # ys'"
    by (auto split: sum.splits)
  with Cons.IH [of ys'] show ?case
    by (auto simp add: nth_Cons split: nat.splits)
qed

text \<open>With pairwise different node addresses the map holds every node's own stake.\<close>

lemma tally_other:
  "a \<notin> NodeAddress ` set nodes \<Longrightarrow> fst (tally nodes stakes (m, t)) a = m a"
  by (induction nodes stakes "(m, t)" arbitrary: m t rule: tally.induct) auto

lemma tally_lookup:
  assumes "distinct (map NodeAddress nodes)" and "length stakes = length nodes"
    and "i < length nodes"
  shows "fst (tally nodes stakes (m, t)) (NodeAddress (nodes ! i)) = Some (stakes ! i)"
  using assms
proof (induction nodes arbitrary: stakes m t i)
  case Nil
  then show ?case by simp
next
  case (Cons node nodes)
  then obtain nodeStake stakes' where st: "stakes = nodeStake # stakes'"
    by (cases stakes) auto
  show ?case
  proof (cases i)
    case 0
    have "NodeAddress node \<notin> NodeAddress ` set nodes"
      using Cons.prems(1) by simp
    then show ?thesis
      by (simp add: st 0 tally_other)
  next
    case (Suc k)
    with Cons st show ?thesis by simp
  qed
qed

lemma CalculateEffectiveStakes_lookup:
  assumes "CalculateEffectiveStakes s scale = Inr (effectiveStakes, totalStake)"
    and "NetworkDetails s = Some nd"
    and "distinct (map NodeAddress (NodeDetails s))"
    and "node \<in> set (NodeDetails s)"
  shows "\<exists>v. effectiveStakes (NodeAddress node) = Some v \<and>
             node_effective_stake s nd scale (Duration_Seconds_int64 (nd IntervalDuration))
               (slot_time s) node = Inr v"
proof -
  let ?f = "node_effective_stake s nd scale (Duration_Seconds_int64 (nd IntervalDuration)) (slot_time s)"
  from assms(1,2) obtain slice where slice: "run_goroutines ?f (NodeDetails s) = Inr slice"
    and res: "tally (NodeDetails s) slice (Map.empty, 0) = (effectiveStakes, totalStake)"
    by (auto simp add: CalculateEffectiveStakes_def Let_def split: sum.splits)
  from assms(4) obtain i where i: "i < length (NodeDetails s)" "NodeDetails s ! i = node"
    by (auto simp add: in_set_conv_nth)
  from run_goroutines_Inr [OF slice] i have len: "length slice = length (NodeDetails s)"
    and fi: "?f node = Inr (slice ! i)"
    by auto
  from tally_lookup [OF assms(3) len i(1), of Map.empty 0] res i(2)
  have "effectiveStakes (NodeAddress node) = Some (slice ! i)"
    by simp
  with fi show ?thesis by blast
qed

text \<open>The definitions that evaluating \<open>CalculateEffectiveStakes\<close> on an example state
  unfolds.\<close>

lemmas example_defs = example_state_def example_node_def example_minipool_def example_details_def
  node_minipools_def deref_minipool_def eligible_step_def minCollateral_def maxCollateral_def
  big_Div_def clamp_stake_def scale_stake_def node_effective_stake_def slot_time_def
  CalculateEffectiveStakes_def Duration_Seconds_int64_def go_quot_def time_Second_def
  time_Unix_def Time_Add_def Time_Sub_def wrap_int64_def big_Int64_def maxDuration_def minDuration_def

lemma go_quot_nonneg: "0 \<le> a \<Longrightarrow> 0 < b \<Longrightarrow> go_quot a b = a div b"
  by (cases "a = 0") (simp_all add: go_quot_def)

lemma clamp_stake_nonneg:
  "0 \<le> rplStake \<Longrightarrow> 0 \<le> maxC \<Longrightarrow> 0 \<le> clamp_stake rplStake minC maxC"
  by (simp add: clamp_stake_def)

lemma collateral_nonneg:
  assumes "0 < price" and "0 \<le> eth" and "0 \<le> fraction"
  shows "big_Div (eth * fraction) price = Inr (eth * fraction div price)"
    and "0 \<le> eth * fraction div price"
  using assms by (simp_all add: big_Div_def pos_imp_zdiv_nonneg_iff)

text \<open>Scaling by participation, for a node registered at or before the slot time: the
  elapsed seconds are not negative and, where the scaling applies, not above the seconds
  of the interval.\<close>

lemma scale_stake_bounds:
  assumes "scale_stake nd (Duration_Seconds_int64 (nd IntervalDuration)) slotTime node nodeStake = Inr v"
    and "time_Unix (big_Int64 (RegistrationTime node)) \<le> slotTime"
    and "0 \<le> nodeStake"
  shows "0 \<le> v \<and> v \<le> nodeStake"
proof -
  define eD where "eD = Time_Sub slotTime (time_Unix (big_Int64 (RegistrationTime node)))"
  have eD0: "0 \<le> eD"
    using assms(2) by (simp add: eD_def Time_Sub_def Let_def minDuration_def maxDuration_def)
  show ?thesis
  proof (cases "eD < nd IntervalDuration")
    case False
    with assms(1,3) show ?thesis
      by (simp add: scale_stake_def Let_def eD_def)
  next
    case True
    define es where "es = eD div time_Second"
    define idb where "idb = nd IntervalDuration div time_Second"
    have sec: "0 < time_Second" by (simp add: time_Second_def)
    have es: "go_quot eD time_Second = es"
      using eD0 sec by (simp add: go_quot_nonneg es_def)
    have idb: "Duration_Seconds_int64 (nd IntervalDuration) = idb"
      using eD0 True sec by (simp add: Duration_Seconds_int64_def go_quot_nonneg idb_def)
    have es0: "0 \<le> es"
      using eD0 sec by (simp add: es_def pos_imp_zdiv_nonneg_iff)
    have le: "es \<le> idb"
      unfolding es_def idb_def using True sec by (intro zdiv_mono1) simp_all
    from assms(1) True have div: "big_Div (nodeStake * es) idb = Inr v"
      by (simp add: scale_stake_def Let_def es idb flip: eD_def)
    then have "idb \<noteq> 0"
      by (auto simp add: big_Div_def)
    with es0 le have pos: "0 < idb" by simp
    with div have v: "v = nodeStake * es div idb"
      by (simp add: big_Div_def)
    have "0 \<le> nodeStake * es" using assms(3) es0 by simp
    then have v0: "0 \<le> v"
      unfolding v using pos by (simp add: pos_imp_zdiv_nonneg_iff)
    have "nodeStake * es \<le> nodeStake * idb"
      using assms(3) le by (simp add: mult_left_mono)
    then have "nodeStake * es div idb \<le> nodeStake * idb div idb"
      using pos by (intro zdiv_mono1) simp_all
    then have "v \<le> nodeStake"
      unfolding v using pos by simp
    with v0 show ?thesis by simp
  qed
qed

text \<open>Scaling by participation, for a node registered a second or more after the slot
  time: the elapsed seconds are negative, the scaling applies to an interval of a second
  or more, and a positive stake becomes negative.\<close>

lemma scale_stake_negative:
  assumes "scale_stake nd (Duration_Seconds_int64 (nd IntervalDuration)) slotTime node nodeStake = Inr v"
    and "slotTime + time_Second \<le> time_Unix (big_Int64 (RegistrationTime node))"
    and "time_Second \<le> nd IntervalDuration"
    and "0 < nodeStake"
  shows "v < 0"
proof -
  define eD where "eD = Time_Sub slotTime (time_Unix (big_Int64 (RegistrationTime node)))"
  define es where "es = (- eD) div time_Second"
  define idb where "idb = nd IntervalDuration div time_Second"
  have sec: "0 < time_Second" "time_Second < 2 ^ 63"
    by (simp_all add: time_Second_def)
  have eD: "eD \<le> - time_Second"
    using assms(2) sec by (simp add: eD_def Time_Sub_def Let_def minDuration_def maxDuration_def)
  then have lt: "eD < nd IntervalDuration"
    using assms(3) sec by simp
  have "time_Second div time_Second \<le> (- eD) div time_Second"
    using eD sec by (intro zdiv_mono1) simp_all
  then have es1: "1 \<le> es"
    using sec by (simp add: es_def)
  have q: "go_quot eD time_Second = - es"
    using eD sec by (simp add: go_quot_def es_def)
  have "time_Second div time_Second \<le> nd IntervalDuration div time_Second"
    using assms(3) sec by (intro zdiv_mono1) simp_all
  then have idb1: "1 \<le> idb"
    using sec by (simp add: idb_def)
  have idb: "Duration_Seconds_int64 (nd IntervalDuration) = idb"
    using assms(3) sec by (simp add: Duration_Seconds_int64_def go_quot_nonneg idb_def)
  from assms(1) lt have "big_Div (nodeStake * (- es)) idb = Inr v"
    by (simp add: scale_stake_def Let_def q idb flip: eD_def)
  with idb1 have v: "v = nodeStake * (- es) div idb"
    by (simp add: big_Div_def)
  have "nodeStake * (- es) < 0"
    using assms(4) es1 by (simp add: mult_pos_neg)
  then show ?thesis
    unfolding v using idb1 by (simp add: div_neg_pos_less0)
qed

text \<open>
  \<^bold>\<open>C3.\<close> In \<open>CalculateEffectiveStakes\<close> a minipool adds its borrowed amount
  (\<open>UserDepositBalance\<close>) and its bonded amount (\<open>NodeDepositBalance\<close>) to the node's
  eligible totals if and only if it exists with status \<open>Staking\<close>, its public key has a
  validator status, the validator's activation epoch is at or before the epoch of the
  state's slot and its exit epoch is after that epoch (\<open>minipool_eligible\<close>). Every other
  minipool leaves the totals as they are and the loop goes on without an error: the
  node's totals are the sums over its eligible minipools, and they are zero when none of
  its minipools is staking. (The loop's pointers are indices of \<open>MinipoolDetails\<close>, and
  \<open>SlotsPerEpoch\<close> is not zero: Go panics on a nil pointer and on a division by zero.)
\<close>

theorem eligible_minipools_contribute:
  assumes "SlotsPerEpoch (BeaconConfig s) \<noteq> 0"
    and "\<forall>p \<in> set (node_minipools s node). p < length (MinipoolDetails s)"
  shows "(\<forall>mpd b d.
            eligible_step s mpd (b, d) =
              Inr (if minipool_eligible s mpd
                   then (b + UserDepositBalance mpd, d + NodeDepositBalance mpd)
                   else (b, d)))
       \<and> eligible_loop s (node_minipools s node) (0, 0) =
            Inr (sum_list (map UserDepositBalance (filter (minipool_eligible s)
                    (map (\<lambda>p. MinipoolDetails s ! p) (node_minipools s node)))),
                 sum_list (map NodeDepositBalance (filter (minipool_eligible s)
                    (map (\<lambda>p. MinipoolDetails s ! p) (node_minipools s node)))))
       \<and> ((\<forall>p \<in> set (node_minipools s node). Status (MinipoolDetails s ! p) \<noteq> Staking)
             \<longrightarrow> eligible_loop s (node_minipools s node) (0, 0) = Inr (0, 0))"
proof (intro conjI allI impI)
  fix mpd b d
  show "eligible_step s mpd (b, d) =
              Inr (if minipool_eligible s mpd
                   then (b + UserDepositBalance mpd, d + NodeDepositBalance mpd)
                   else (b, d))"
    by (rule eligible_step_eligible [OF assms(1)])
next
  show "eligible_loop s (node_minipools s node) (0, 0) =
            Inr (sum_list (map UserDepositBalance (filter (minipool_eligible s)
                    (map (\<lambda>p. MinipoolDetails s ! p) (node_minipools s node)))),
                 sum_list (map NodeDepositBalance (filter (minipool_eligible s)
                    (map (\<lambda>p. MinipoolDetails s ! p) (node_minipools s node)))))"
    using eligible_loop_sums [OF assms, of 0 0] by simp
next
  assume ns: "\<forall>p \<in> set (node_minipools s node). Status (MinipoolDetails s ! p) \<noteq> Staking"
  then have "filter (minipool_eligible s)
               (map (\<lambda>p. MinipoolDetails s ! p) (node_minipools s node)) = []"
    by (auto simp add: filter_empty_conv minipool_eligible_def)
  then show "eligible_loop s (node_minipools s node) (0, 0) = Inr (0, 0)"
    using eligible_loop_sums [OF assms, of 0 0] by simp
qed

text \<open>The theorem on the example state: of the five minipools only the first counts.\<close>

theorem eligible_minipools_contribute_witness:
  "eligible_loop (example_state 1 1) (node_minipools (example_state 1 1) (example_node 1 1)) (0, 0)
     = Inr (24000000000000000000, 8000000000000000000)
   \<and> eligible_step (example_state 1 1) (example_minipool 201 2 Prelaunch) (5, 7) = Inr (5, 7)
   \<and> eligible_step (example_state 1 1) (example_minipool 202 3 Staking) (5, 7) = Inr (5, 7)
   \<and> eligible_step (example_state 1 1) (example_minipool 204 5 Staking) (5, 7) = Inr (5, 7)"
proof -
  have a: "SlotsPerEpoch (BeaconConfig (example_state 1 1)) \<noteq> 0"
    by (simp add: example_state_def)
  have b: "\<forall>p \<in> set (node_minipools (example_state 1 1) (example_node 1 1)).
             p < length (MinipoolDetails (example_state 1 1))"
    by (simp add: example_state_def example_node_def node_minipools_def)
  have e: "filter (minipool_eligible (example_state 1 1))
             (map (\<lambda>p. MinipoolDetails (example_state 1 1) ! p)
                (node_minipools (example_state 1 1) (example_node 1 1)))
           = [example_minipool 200 1 Staking]"
    by (simp add: example_state_def example_node_def node_minipools_def minipool_eligible_def
        example_minipool_def)
  have n: "\<not> minipool_eligible (example_state 1 1) (example_minipool 201 2 Prelaunch)"
    "\<not> minipool_eligible (example_state 1 1) (example_minipool 202 3 Staking)"
    "\<not> minipool_eligible (example_state 1 1) (example_minipool 204 5 Staking)"
    by (simp_all add: example_state_def minipool_eligible_def example_minipool_def)
  from eligible_minipools_contribute [OF a b] show ?thesis
    unfolding e using n by (simp add: example_minipool_def)
qed

text \<open>
  \<^bold>\<open>C2\<close> (as amended). For every node of a state with pairwise different node
  addresses, a positive RPL price and non-negative bonded amounts, the stake that
  \<open>CalculateEffectiveStakes\<close> returns without scaling is at most
  \<open>maxCollateral = eligibleBondedEth * MaxCollateralFraction div RplPrice\<close>. It is zero when
  the node's RPL stake is below
  \<open>minCollateral = eligibleBorrowedEth * MinCollateralFraction div RplPrice\<close>, and the
  lesser of the RPL stake and \<open>maxCollateral\<close> otherwise; so it is at least
  \<open>minCollateral\<close> when the RPL stake is and \<open>minCollateral \<le> maxCollateral\<close>.
\<close>

theorem effective_stake_clamped:
  assumes "CalculateEffectiveStakes s False = Inr (effectiveStakes, totalStake)"
    and "NetworkDetails s = Some nd"
    and "distinct (map NodeAddress (NodeDetails s))"
    and "node \<in> set (NodeDetails s)"
    and "eligible_loop s (node_minipools s node) (0, 0) = Inr (eligibleBorrowedEth, eligibleBondedEth)"
    and "0 < nd RplPrice" and "0 \<le> nd MaxCollateralFraction" and "0 \<le> eligibleBondedEth"
  shows "\<exists>v minC maxC.
           effectiveStakes (NodeAddress node) = Some v
         \<and> minCollateral nd eligibleBorrowedEth = Inr minC
         \<and> minC = eligibleBorrowedEth * nd MinCollateralFraction div nd RplPrice
         \<and> maxCollateral nd eligibleBondedEth = Inr maxC
         \<and> maxC = eligibleBondedEth * nd MaxCollateralFraction div nd RplPrice
         \<and> v \<le> maxC
         \<and> (RplStake node < minC \<longrightarrow> v = 0)
         \<and> (minC \<le> RplStake node \<longrightarrow> v = min (RplStake node) maxC)
         \<and> (minC \<le> RplStake node \<and> minC \<le> maxC \<longrightarrow> minC \<le> v)"
proof -
  define minC where "minC = eligibleBorrowedEth * nd MinCollateralFraction div nd RplPrice"
  define maxC where "maxC = eligibleBondedEth * nd MaxCollateralFraction div nd RplPrice"
  have minC: "minCollateral nd eligibleBorrowedEth = Inr minC"
    using assms(6) by (simp add: minCollateral_def big_Div_def minC_def)
  have maxC: "maxCollateral nd eligibleBondedEth = Inr maxC"
    using assms(6) by (simp add: maxCollateral_def big_Div_def maxC_def)
  have maxC0: "0 \<le> maxC"
    unfolding maxC_def using collateral_nonneg(2) [OF assms(6,8,7)] .
  from CalculateEffectiveStakes_lookup [OF assms(1-4)] obtain v
    where v: "effectiveStakes (NodeAddress node) = Some v"
      and "node_effective_stake s nd False (Duration_Seconds_int64 (nd IntervalDuration))
             (slot_time s) node = Inr v"
    by blast
  then have veq: "v = clamp_stake (RplStake node) minC maxC"
    by (simp add: node_effective_stake_def assms(5) minC maxC)
  have "v \<le> maxC" "RplStake node < minC \<longrightarrow> v = 0"
    "minC \<le> RplStake node \<longrightarrow> v = min (RplStake node) maxC"
    "minC \<le> RplStake node \<and> minC \<le> maxC \<longrightarrow> minC \<le> v"
    unfolding veq using maxC0 by (auto simp add: clamp_stake_def)
  with v minC maxC show ?thesis
    unfolding minC_def maxC_def by blast
qed

text \<open>
  The lower bound of C2 as it was stated fails for a node under its minimum: with 100 RPL
  staked on one eligible minipool (24 ETH borrowed, 8 ETH bonded) the minimum is 240 RPL
  and the effective stake is 0.
\<close>

theorem effective_stake_clamped_counterexample:
  "(case CalculateEffectiveStakes (example_state 100000000000000000000 1605615623) False of
      Inr (effectiveStakes, totalStake) \<Rightarrow> effectiveStakes 100
    | Inl e \<Rightarrow> None) = Some 0
   \<and> eligible_loop (example_state 100000000000000000000 1605615623)
        (node_minipools (example_state 100000000000000000000 1605615623)
           (example_node 100000000000000000000 1605615623)) (0, 0)
       = Inr (24000000000000000000, 8000000000000000000)
   \<and> minCollateral example_details 24000000000000000000 = Inr 240000000000000000000
   \<and> maxCollateral example_details 8000000000000000000 = Inr 1200000000000000000000
   \<and> \<not> (240000000000000000000 \<le> (0 :: int))"
  by (simp add: example_defs)


text \<open>Parts of the example states, evaluated.\<close>

lemma example_state_simps:
  "NetworkDetails (example_state r t) = Some example_details"
  "NodeDetails (example_state r t) = [example_node r t]"
  "NodeAddress (example_node r t) = 100"
  "RplStake (example_node r t) = r"
  "RegistrationTime (example_node r t) = t"
  "eligible_loop (example_state r t) (node_minipools (example_state r t) (example_node r t)) (0, 0)
     = Inr (24000000000000000000, 8000000000000000000)"
  "example_details RplPrice = 10000000000000000"
  "example_details MinCollateralFraction = 100000000000000000"
  "example_details MaxCollateralFraction = 1500000000000000000"
  "slot_time (example_state r t) = 1606825223 * time_Second"
  by (simp_all add: example_defs)

text \<open>The theorem on the example state with 300 RPL staked: the stake lies between the
  minimum of 240 RPL and the maximum of 1200 RPL.\<close>

theorem effective_stake_clamped_witness:
  "\<exists>v. (case CalculateEffectiveStakes (example_state 300000000000000000000 1605615623) False of
           Inr (effectiveStakes, totalStake) \<Rightarrow> effectiveStakes 100
         | Inl e \<Rightarrow> None) = Some v
       \<and> 240000000000000000000 \<le> v \<and> v \<le> 1200000000000000000000"
proof -
  let ?s = "example_state 300000000000000000000 1605615623"
  let ?n = "example_node 300000000000000000000 1605615623"
  have "\<exists>m t. CalculateEffectiveStakes ?s False = Inr (m, t)"
    by (simp add: example_defs)
  then obtain m t where mt: "CalculateEffectiveStakes ?s False = Inr (m, t)"
    by blast
  have "\<exists>v minC maxC.
           m (NodeAddress ?n) = Some v
         \<and> minCollateral example_details 24000000000000000000 = Inr minC
         \<and> minC = 24000000000000000000 * example_details MinCollateralFraction div example_details RplPrice
         \<and> maxCollateral example_details 8000000000000000000 = Inr maxC
         \<and> maxC = 8000000000000000000 * example_details MaxCollateralFraction div example_details RplPrice
         \<and> v \<le> maxC
         \<and> (RplStake ?n < minC \<longrightarrow> v = 0)
         \<and> (minC \<le> RplStake ?n \<longrightarrow> v = min (RplStake ?n) maxC)
         \<and> (minC \<le> RplStake ?n \<and> minC \<le> maxC \<longrightarrow> minC \<le> v)"
    by (rule effective_stake_clamped [OF mt]) (simp_all add: example_state_simps)
  then obtain v where "m 100 = Some v" "v \<le> 1200000000000000000000"
    "240000000000000000000 \<le> v"
    by (auto simp add: example_state_simps)
  with mt show ?thesis by simp
qed

text \<open>
  \<^bold>\<open>C10\<close> (as amended). For every node with a non-negative RPL stake, in a state with
  pairwise different node addresses, a positive RPL price and non-negative bonded
  amounts, the stake that \<open>CalculateEffectiveStakes\<close> returns is not negative and not above
  the clamped stake, provided that, when \<open>scaleByParticipation\<close> is set, the node's
  registration time is not after the state's slot time. With \<open>scaleByParticipation\<close> set,
  a node registered a second or more after the slot time gets a negative stake whenever
  its clamped stake is positive and the interval lasts a second or more. (The genesis
  time and the registration time are Unix times in the range of \<^verbatim>\<open>time.Time\<close>.)
\<close>

theorem effective_stake_nonneg:
  assumes "CalculateEffectiveStakes s scaleByParticipation = Inr (effectiveStakes, totalStake)"
    and "NetworkDetails s = Some nd"
    and "distinct (map NodeAddress (NodeDetails s))"
    and "node \<in> set (NodeDetails s)"
    and "eligible_loop s (node_minipools s node) (0, 0) = Inr (eligibleBorrowedEth, eligibleBondedEth)"
    and "0 < nd RplPrice" and "0 \<le> nd MaxCollateralFraction" and "0 \<le> eligibleBondedEth"
    and "0 \<le> RplStake node"
    and "Unix_in_range (wrap_int64 (int (GenesisTime (BeaconConfig s))))"
    and "Unix_in_range (big_Int64 (RegistrationTime node))"
  shows "\<exists>v minC maxC.
           effectiveStakes (NodeAddress node) = Some v
         \<and> minCollateral nd eligibleBorrowedEth = Inr minC
         \<and> maxCollateral nd eligibleBondedEth = Inr maxC
         \<and> ((scaleByParticipation \<longrightarrow>
                time_Unix (big_Int64 (RegistrationTime node)) \<le> slot_time s) \<longrightarrow>
              0 \<le> v \<and> v \<le> clamp_stake (RplStake node) minC maxC)
         \<and> (scaleByParticipation
              \<and> slot_time s + time_Second \<le> time_Unix (big_Int64 (RegistrationTime node))
              \<and> time_Second \<le> nd IntervalDuration
              \<and> 0 < clamp_stake (RplStake node) minC maxC \<longrightarrow>
              v < 0)"
proof -
  define minC where "minC = eligibleBorrowedEth * nd MinCollateralFraction div nd RplPrice"
  define maxC where "maxC = eligibleBondedEth * nd MaxCollateralFraction div nd RplPrice"
  have minC: "minCollateral nd eligibleBorrowedEth = Inr minC"
    using assms(6) by (simp add: minCollateral_def big_Div_def minC_def)
  have maxC: "maxCollateral nd eligibleBondedEth = Inr maxC"
    using assms(6) by (simp add: maxCollateral_def big_Div_def maxC_def)
  have maxC0: "0 \<le> maxC"
    unfolding maxC_def using collateral_nonneg(2) [OF assms(6,8,7)] .
  have c0: "0 \<le> clamp_stake (RplStake node) minC maxC"
    using assms(9) maxC0 by (rule clamp_stake_nonneg)
  from CalculateEffectiveStakes_lookup [OF assms(1-4)] obtain v
    where v: "effectiveStakes (NodeAddress node) = Some v"
      and n: "node_effective_stake s nd scaleByParticipation
             (Duration_Seconds_int64 (nd IntervalDuration)) (slot_time s) node = Inr v"
    by blast
  have bounds: "0 \<le> v \<and> v \<le> clamp_stake (RplStake node) minC maxC"
    if r: "scaleByParticipation \<longrightarrow>
             time_Unix (big_Int64 (RegistrationTime node)) \<le> slot_time s"
  proof (cases scaleByParticipation)
    case False
    with n have "v = clamp_stake (RplStake node) minC maxC"
      by (simp add: node_effective_stake_def assms(5) minC maxC)
    with c0 show ?thesis by simp
  next
    case True
    with n have "scale_stake nd (Duration_Seconds_int64 (nd IntervalDuration)) (slot_time s) node
                   (clamp_stake (RplStake node) minC maxC) = Inr v"
      by (simp add: node_effective_stake_def assms(5) minC maxC)
    then show ?thesis
      using r True c0 by (intro scale_stake_bounds) simp_all
  qed
  have negative: "v < 0"
    if l: "scaleByParticipation
             \<and> slot_time s + time_Second \<le> time_Unix (big_Int64 (RegistrationTime node))
             \<and> time_Second \<le> nd IntervalDuration
             \<and> 0 < clamp_stake (RplStake node) minC maxC"
  proof -
    from n l have "scale_stake nd (Duration_Seconds_int64 (nd IntervalDuration)) (slot_time s) node
                   (clamp_stake (RplStake node) minC maxC) = Inr v"
      by (simp add: node_effective_stake_def assms(5) minC maxC)
    moreover from l
    have "slot_time s + time_Second \<le> time_Unix (big_Int64 (RegistrationTime node))"
      and "time_Second \<le> nd IntervalDuration"
      and "0 < clamp_stake (RplStake node) minC maxC"
      by blast+
    ultimately show ?thesis
      by (rule scale_stake_negative)
  qed
  from v minC maxC bounds negative show ?thesis by blast
qed

text \<open>The theorem on the example state, scaled: a node registered 14 days before the
  slot time, half an interval, and a node registered 100 seconds after the slot time.\<close>

theorem effective_stake_nonneg_witness:
  "(\<exists>v. (case CalculateEffectiveStakes (example_state 300000000000000000000 1605615623) True of
            Inr (effectiveStakes, totalStake) \<Rightarrow> effectiveStakes 100
          | Inl e \<Rightarrow> None) = Some v
        \<and> 0 \<le> v \<and> v \<le> 300000000000000000000)
   \<and> (\<exists>v. (case CalculateEffectiveStakes (example_state 300000000000000000000 1606825323) True of
            Inr (effectiveStakes, totalStake) \<Rightarrow> effectiveStakes 100
          | Inl e \<Rightarrow> None) = Some v
        \<and> v < 0)"
proof -
  let ?s = "example_state 300000000000000000000 1605615623"
  let ?n = "example_node 300000000000000000000 1605615623"
  let ?s' = "example_state 300000000000000000000 1606825323"
  let ?n' = "example_node 300000000000000000000 1606825323"
  have c: "minCollateral example_details 24000000000000000000 = Inr 240000000000000000000"
    "maxCollateral example_details 8000000000000000000 = Inr 1200000000000000000000"
    "clamp_stake 300000000000000000000 240000000000000000000 1200000000000000000000
       = 300000000000000000000"
    by (simp_all add: example_state_simps minCollateral_def maxCollateral_def big_Div_def
        clamp_stake_def)
  have range: "Unix_in_range (wrap_int64 (int (GenesisTime (BeaconConfig ?s))))"
    "Unix_in_range (big_Int64 1605615623)"
    "Unix_in_range (wrap_int64 (int (GenesisTime (BeaconConfig ?s'))))"
    "Unix_in_range (big_Int64 1606825323)"
    by (simp_all add: example_state_def Unix_in_range_def wrap_int64_def big_Int64_def)
  have "\<exists>m t. CalculateEffectiveStakes ?s True = Inr (m, t)"
    by (simp add: example_defs)
  then obtain m t where mt: "CalculateEffectiveStakes ?s True = Inr (m, t)"
    by blast
  have before: "time_Unix (big_Int64 (RegistrationTime ?n)) \<le> slot_time ?s"
    by (simp add: example_state_simps time_Unix_def big_Int64_def wrap_int64_def time_Second_def)
  have "\<exists>v minC maxC.
           m (NodeAddress ?n) = Some v
         \<and> minCollateral example_details 24000000000000000000 = Inr minC
         \<and> maxCollateral example_details 8000000000000000000 = Inr maxC
         \<and> ((True \<longrightarrow> time_Unix (big_Int64 (RegistrationTime ?n)) \<le> slot_time ?s) \<longrightarrow>
              0 \<le> v \<and> v \<le> clamp_stake (RplStake ?n) minC maxC)
         \<and> (True
              \<and> slot_time ?s + time_Second \<le> time_Unix (big_Int64 (RegistrationTime ?n))
              \<and> time_Second \<le> example_details IntervalDuration
              \<and> 0 < clamp_stake (RplStake ?n) minC maxC \<longrightarrow>
              v < 0)"
    by (rule effective_stake_nonneg [OF mt]) (simp_all add: example_state_simps range)
  with before c obtain v where "m 100 = Some v" "0 \<le> v" "v \<le> 300000000000000000000"
    by (auto simp add: example_state_simps)
  with mt have 1: "\<exists>v. (case CalculateEffectiveStakes ?s True of
            Inr (effectiveStakes, totalStake) \<Rightarrow> effectiveStakes 100
          | Inl e \<Rightarrow> None) = Some v
        \<and> 0 \<le> v \<and> v \<le> 300000000000000000000"
    by simp
  have "\<exists>m t. CalculateEffectiveStakes ?s' True = Inr (m, t)"
    by (simp add: example_defs)
  then obtain m' t' where mt': "CalculateEffectiveStakes ?s' True = Inr (m', t')"
    by blast
  have after: "slot_time ?s' + time_Second \<le> time_Unix (big_Int64 (RegistrationTime ?n'))"
    "time_Second \<le> example_details IntervalDuration"
    by (simp_all add: example_state_simps time_Unix_def big_Int64_def wrap_int64_def
        time_Second_def example_details_def)
  have "\<exists>v minC maxC.
           m' (NodeAddress ?n') = Some v
         \<and> minCollateral example_details 24000000000000000000 = Inr minC
         \<and> maxCollateral example_details 8000000000000000000 = Inr maxC
         \<and> ((True \<longrightarrow> time_Unix (big_Int64 (RegistrationTime ?n')) \<le> slot_time ?s') \<longrightarrow>
              0 \<le> v \<and> v \<le> clamp_stake (RplStake ?n') minC maxC)
         \<and> (True
              \<and> slot_time ?s' + time_Second \<le> time_Unix (big_Int64 (RegistrationTime ?n'))
              \<and> time_Second \<le> example_details IntervalDuration
              \<and> 0 < clamp_stake (RplStake ?n') minC maxC \<longrightarrow>
              v < 0)"
    by (rule effective_stake_nonneg [OF mt']) (simp_all add: example_state_simps range)
  with after c obtain v' where "m' 100 = Some v'" "v' < 0"
    by (auto simp add: example_state_simps)
  with mt' have 2: "\<exists>v. (case CalculateEffectiveStakes ?s' True of
            Inr (effectiveStakes, totalStake) \<Rightarrow> effectiveStakes 100
          | Inl e \<Rightarrow> None) = Some v
        \<and> v < 0"
    by simp
  from 1 2 show ?thesis by blast
qed

text \<open>
  C10 as it was stated fails for a node registered after the slot time: registered 100
  seconds after it, with 300 RPL staked, the scaled stake is negative.
\<close>

theorem effective_stake_nonneg_counterexample:
  "(case CalculateEffectiveStakes (example_state 300000000000000000000 1606825323) True of
      Inr (effectiveStakes, totalStake) \<Rightarrow> effectiveStakes 100
    | Inl e \<Rightarrow> None) = Some (- 12400793650793651)
   \<and> slot_time (example_state 300000000000000000000 1606825323)
       < time_Unix (big_Int64 (RegistrationTime (example_node 300000000000000000000 1606825323)))
   \<and> \<not> (0 \<le> (- 12400793650793651 :: int))"
  by (simp add: example_defs)

section \<open>Building the network state\<close>

text \<open>A goroutine without an error made every call of its steps with success.\<close>

lemma run_task_None:
  "run_task env blk steps nd = (None, nd') \<Longrightarrow>
     \<forall>step \<in> set steps. \<exists>v. network_read env (fst step) blk = Inr v"
  by (induction steps arbitrary: nd) (auto split: sum.splits)

lemma run_tasks_None:
  "run_tasks env blk tasks nd = (errs, nd') \<Longrightarrow> \<forall>e \<in> set errs. e = None \<Longrightarrow>
     \<forall>task \<in> set tasks. \<forall>step \<in> set task. \<exists>v. network_read env (fst step) blk = Inr v"
proof (induction tasks arbitrary: nd errs nd')
  case Nil
  then show ?case by simp
next
  case (Cons task tasks)
  obtain err nd1 where t: "run_task env blk task nd = (err, nd1)"
    by (cases "run_task env blk task nd")
  obtain errs1 nd2 where ts: "run_tasks env blk tasks nd1 = (errs1, nd2)"
    by (cases "run_tasks env blk tasks nd1")
  from Cons.prems(1) t ts have errs: "errs = err # errs1"
    by simp
  with Cons.prems(2) have "err = None" "\<forall>e \<in> set errs1. e = None"
    by simp_all
  with t ts Cons.IH [OF ts] run_task_None [of env blk task nd nd1] show ?case
    by simp
qed

text \<open>\<^verbatim>\<open>wg.Wait\<close> returns nil only when no goroutine failed.\<close>

lemma wg_Wait_None:
  assumes "wg_Wait rank errs = None"
  shows "\<forall>e \<in> set errs. e = None"
proof (cases "filter (\<lambda>ie. snd ie \<noteq> None) (zip [0..<length errs] errs)")
  case Nil
  then have "\<forall>ie \<in> set (zip [0..<length errs] errs). snd ie = None"
    by (simp add: filter_empty_conv)
  moreover have "snd ` set (zip [0..<length errs] errs) = set errs"
    by (metis length_upt diff_zero map_snd_zip set_map)
  ultimately show ?thesis
    by force
next
  case (Cons f fs)
  have "arg_min_list (\<lambda>ie. rank (fst ie)) (f # fs) \<in> set (f # fs)"
    by (rule arg_min_list_in) simp
  then have "arg_min_list (\<lambda>ie. rank (fst ie)) (f # fs)
               \<in> set (filter (\<lambda>ie. snd ie \<noteq> None) (zip [0..<length errs] errs))"
    by (simp only: Cons)
  then have "snd (arg_min_list (\<lambda>ie. rank (fst ie)) (f # fs)) \<noteq> None"
    by simp
  with assms Cons show ?thesis
    by (simp add: wg_Wait_def)
qed

lemma getNetworkDetails_None:
  assumes "getNetworkDetails env state blk isAtlasDeployed = (None, state')"
  shows "\<forall>f \<in> set (fields_read isAtlasDeployed). \<exists>v. network_read env f blk = Inr v"
proof -
  let ?tasks = "network_tasks @ (if isAtlasDeployed then atlas_tasks else [])"
  obtain errs nd where r: "run_tasks env blk ?tasks (\<lambda>f. 0) = (errs, nd)"
    by (cases "run_tasks env blk ?tasks (\<lambda>f. 0)")
  with assms have "wg_Wait (finish_rank env) errs = None"
    by (simp add: getNetworkDetails_def)
  then have "\<forall>e \<in> set errs. e = None"
    by (rule wg_Wait_None)
  from run_tasks_None [OF r this] show ?thesis
    unfolding fields_read_def by auto
qed


text \<open>What the loops leave unchanged.\<close>

lemma minipool_lookup_loop_frame:
  "NodeDetails (fst (minipool_lookup_loop i mps st pks)) = NodeDetails st"
  "NodeDetailsByAddress (fst (minipool_lookup_loop i mps st pks)) = NodeDetailsByAddress st"
  "node_cells (fst (minipool_lookup_loop i mps st pks)) = node_cells st"
  "MinipoolDetails (fst (minipool_lookup_loop i mps st pks)) = MinipoolDetails st"
  by (induction i mps st pks rule: minipool_lookup_loop.induct) simp_all

lemma minipool_lookup_loop_pubkeys:
  "snd (minipool_lookup_loop i mps st pks) =
     pks @ filter (\<lambda>k. k \<noteq> emptyPubkey) (map Pubkey mps)"
  by (induction i mps st pks rule: minipool_lookup_loop.induct) simp_all

lemma node_lookup_loop_frame:
  "NodeDetails (node_lookup_loop sem k nodes st) = NodeDetails st"
  "MinipoolDetails (node_lookup_loop sem k nodes st) = MinipoolDetails st"
  by (induction sem k nodes st rule: node_lookup_loop.induct) simp_all

lemma getNetworkDetails_frame:
  "NodeDetails (snd (getNetworkDetails env st blk a)) = NodeDetails st"
  "MinipoolDetails (snd (getNetworkDetails env st blk a)) = MinipoolDetails st"
  by (simp_all add: getNetworkDetails_def split: prod.splits)

lemma CreateNetworkState_None:
  "CreateNetworkState env sem slotNumber beaconConfig = (None, e) \<Longrightarrow> e \<noteq> None"
  unfolding CreateNetworkState_def Let_def
  by (auto split: sum.splits prod.splits if_splits option.splits)

text \<open>A returned state: no error comes with it, every call succeeded, and the node
  lookup is the one that the loop of lines 127--129 built.\<close>

lemma CreateNetworkState_Some:
  assumes "CreateNetworkState env sem slotNumber beaconConfig = (Some state, e)"
  shows "e = None \<and>
    (\<exists>beaconBlock isAtlasDeployed contracts nodeDetails minipoolDetails statusMap shares state4.
        bc_GetBeaconBlock env slotNumber = Inr (beaconBlock, True)
      \<and> rp_IsAtlasDeployed env (ExecutionBlockNumber beaconBlock) = Inr isAtlasDeployed
      \<and> rpstate_NewNetworkContracts env isAtlasDeployed (ExecutionBlockNumber beaconBlock)
          = Inr contracts
      \<and> (\<forall>f \<in> set (fields_read isAtlasDeployed).
            \<exists>v. network_read env f (ExecutionBlockNumber beaconBlock) = Inr v)
      \<and> rpstate_GetAllNativeNodeDetails env contracts (ExecutionBlockNumber beaconBlock)
          = Inr nodeDetails
      \<and> rpstate_GetAllNativeMinipoolDetails env contracts (ExecutionBlockNumber beaconBlock)
          = Inr minipoolDetails
      \<and> bc_GetValidatorStatuses env
            (filter (\<lambda>k. k \<noteq> emptyPubkey) (map Pubkey minipoolDetails)) slotNumber
          = Inr statusMap
      \<and> rpstate_CalculateCompleteMinipoolShares env contracts minipoolDetails
            (map (\<lambda>mpd. case statusMap (Pubkey mpd) of
                           None \<Rightarrow> 0
                         | Some validator \<Rightarrow> GweiToWei (Balance validator)) minipoolDetails)
            (ExecutionBlockNumber beaconBlock)
          = Inr shares
      \<and> NodeDetails state = nodeDetails
      \<and> NodeDetails state4 = nodeDetails
      \<and> NodeDetailsByAddress state = NodeDetailsByAddress (node_lookup_loop sem 0 nodeDetails state4)
      \<and> node_cells state = node_cells (node_lookup_loop sem 0 nodeDetails state4))"
proof -
  from assms obtain beaconBlock where bb: "bc_GetBeaconBlock env slotNumber = Inr (beaconBlock, True)"
    unfolding CreateNetworkState_def by (auto split: sum.splits if_splits)
  define blk where "blk = ExecutionBlockNumber beaconBlock"
  from assms bb obtain isAtlasDeployed where at: "rp_IsAtlasDeployed env blk = Inr isAtlasDeployed"
    unfolding CreateNetworkState_def blk_def by (auto simp add: Let_def split: sum.splits)
  from assms bb at obtain contracts
    where co: "rpstate_NewNetworkContracts env isAtlasDeployed blk = Inr contracts"
    unfolding CreateNetworkState_def blk_def by (auto simp add: Let_def split: sum.splits)
  define state0 where "state0 =
     \<lparr>IsAtlasDeployed = isAtlasDeployed, ElBlockNumber = blk,
      BeaconSlotNumber = slotNumber, BeaconConfig = beaconConfig,
      NetworkDetails = None, NodeDetails = [],
      NodeDetailsByAddress = Map.empty, node_cells = Map.empty,
      MinipoolDetails = [], MinipoolDetailsByAddress = Map.empty,
      MinipoolDetailsByNode = Map.empty, ValidatorDetails = Map.empty\<rparr>"
  obtain gerr state1 where gn: "getNetworkDetails env state0 blk isAtlasDeployed = (gerr, state1)"
    by (cases "getNetworkDetails env state0 blk isAtlasDeployed")
  from assms bb at co gn have gerr: "gerr = None"
    unfolding CreateNetworkState_def blk_def state0_def
    by (auto simp add: Let_def split: option.splits)
  from getNetworkDetails_None [OF gn [unfolded gerr]]
  have nr: "\<forall>f \<in> set (fields_read isAtlasDeployed). \<exists>v. network_read env f blk = Inr v" .
  from assms bb at co gn gerr obtain nodeDetails
    where nd: "rpstate_GetAllNativeNodeDetails env contracts blk = Inr nodeDetails"
    unfolding CreateNetworkState_def blk_def state0_def
    by (auto simp add: Let_def split: sum.splits)
  from assms bb at co gn gerr nd obtain minipoolDetails
    where mp: "rpstate_GetAllNativeMinipoolDetails env contracts blk = Inr minipoolDetails"
    unfolding CreateNetworkState_def blk_def state0_def
    by (auto simp add: Let_def split: sum.splits)
  define state3 where "state3 = state1\<lparr>NodeDetails := nodeDetails, MinipoolDetails := minipoolDetails\<rparr>"
  define state4 where "state4 = node_lookup_loop sem 0 nodeDetails state3"
  obtain state5 pubkeys where ml: "minipool_lookup_loop 0 minipoolDetails state4 [] = (state5, pubkeys)"
    by (cases "minipool_lookup_loop 0 minipoolDetails state4 []")
  have pk: "pubkeys = filter (\<lambda>k. k \<noteq> emptyPubkey) (map Pubkey minipoolDetails)"
    using minipool_lookup_loop_pubkeys [of 0 minipoolDetails state4 "[]"] ml by simp
  have s4: "NodeDetails state4 = nodeDetails" "MinipoolDetails state4 = minipoolDetails"
    by (simp_all add: state4_def state3_def node_lookup_loop_frame)
  have s5: "NodeDetails state5 = nodeDetails" "MinipoolDetails state5 = minipoolDetails"
    "NodeDetailsByAddress state5 = NodeDetailsByAddress state4"
    "node_cells state5 = node_cells state4"
    using minipool_lookup_loop_frame [of 0 minipoolDetails state4 "[]"] ml s4 by simp_all
  have unfold: "CreateNetworkState env sem slotNumber beaconConfig =
     (case bc_GetValidatorStatuses env pubkeys slotNumber of
        Inl err \<Rightarrow> (None, Some err)
      | Inr statusMap \<Rightarrow>
          (case rpstate_CalculateCompleteMinipoolShares env contracts minipoolDetails
                  (beaconBalances (state5\<lparr>ValidatorDetails := statusMap\<rparr>)) blk of
             Inl err \<Rightarrow> (None, Some err)
           | Inr shares \<Rightarrow>
               (Some (state5\<lparr>ValidatorDetails := statusMap,
                             MinipoolDetails :=
                               map (\<lambda>ip. shares (fst ip) (snd ip))
                                 (zip [0..<length minipoolDetails] minipoolDetails),
                             ValidatorDetails := statusMap\<rparr>),
                None)))"
    unfolding CreateNetworkState_def
    using bb at co gn gerr nd mp ml s4 s5
    by (simp add: Let_def blk_def [symmetric] state0_def [symmetric] state3_def [symmetric]
        state4_def [symmetric] node_lookup_loop_frame split: sum.splits)
  from assms obtain statusMap where vs: "bc_GetValidatorStatuses env pubkeys slotNumber = Inr statusMap"
    unfolding unfold by (auto split: sum.splits)
  have bal: "beaconBalances (state5\<lparr>ValidatorDetails := statusMap\<rparr>) =
               map (\<lambda>mpd. case statusMap (Pubkey mpd) of
                           None \<Rightarrow> 0
                         | Some validator \<Rightarrow> GweiToWei (Balance validator)) minipoolDetails"
    by (simp add: beaconBalances_def s5)
  from assms vs obtain shares where sh:
    "rpstate_CalculateCompleteMinipoolShares env contracts minipoolDetails
       (beaconBalances (state5\<lparr>ValidatorDetails := statusMap\<rparr>)) blk = Inr shares"
    unfolding unfold by (auto split: sum.splits)
  from assms vs sh have st: "state = state5\<lparr>ValidatorDetails := statusMap,
                             MinipoolDetails :=
                               map (\<lambda>ip. shares (fst ip) (snd ip))
                                 (zip [0..<length minipoolDetails] minipoolDetails),
                             ValidatorDetails := statusMap\<rparr>" and e: "e = None"
    unfolding unfold by simp_all
  have "NodeDetails state = nodeDetails"
    "NodeDetailsByAddress state = NodeDetailsByAddress (node_lookup_loop sem 0 nodeDetails state3)"
    "node_cells state = node_cells (node_lookup_loop sem 0 nodeDetails state3)"
    "NodeDetails state3 = nodeDetails"
    by (simp_all add: st s5 state4_def state3_def)
  with e bb at co nr nd mp vs sh show ?thesis
    unfolding blk_def pk bal by blast
qed


text \<open>With one loop variable, every key of the node lookup points to cell 0, which holds
  the last node.\<close>

lemma node_lookup_loop_PerLoop:
  "nodes \<noteq> [] \<Longrightarrow> a \<in> NodeAddress ` set nodes \<or> NodeDetailsByAddress st a = Some 0 \<Longrightarrow>
     lookup_node (node_lookup_loop PerLoop k nodes st) a = Some (last nodes)"
proof (induction nodes arbitrary: st k)
  case Nil
  then show ?case by simp
next
  case (Cons details rest)
  let ?st = "st\<lparr>node_cells := (node_cells st)(0 \<mapsto> details),
                NodeDetailsByAddress := (NodeDetailsByAddress st)(NodeAddress details \<mapsto> 0)\<rparr>"
  show ?case
  proof (cases "rest = []")
    case True
    with Cons.prems(2) show ?thesis
      by (auto simp add: lookup_node_def)
  next
    case False
    from Cons.prems(2)
    have "a \<in> NodeAddress ` set rest \<or> NodeDetailsByAddress ?st a = Some 0"
      by auto
    from Cons.IH [OF False this, of "Suc k"] False show ?thesis
      by simp
  qed
qed

text \<open>With a variable per iteration and pairwise different addresses, every key points
  to a cell of its own, which holds the key's node.\<close>

lemma node_lookup_loop_other:
  "a \<notin> NodeAddress ` set nodes \<Longrightarrow>
     NodeDetailsByAddress (node_lookup_loop sem k nodes st) a = NodeDetailsByAddress st a"
  by (induction sem k nodes st rule: node_lookup_loop.induct) auto

lemma node_lookup_loop_below:
  "c < k \<Longrightarrow> node_cells (node_lookup_loop PerIteration k nodes st) c = node_cells st c"
  by (induction nodes arbitrary: k st) auto

lemma node_lookup_loop_PerIteration:
  "distinct (map NodeAddress nodes) \<Longrightarrow> i < length nodes \<Longrightarrow>
     lookup_node (node_lookup_loop PerIteration k nodes st) (NodeAddress (nodes ! i))
       = Some (nodes ! i)"
proof (induction nodes arbitrary: st k i)
  case Nil
  then show ?case by simp
next
  case (Cons details rest)
  show ?case
  proof (cases i)
    case 0
    have "NodeAddress details \<notin> NodeAddress ` set rest"
      using Cons.prems(1) by simp
    then show ?thesis
      by (simp add: 0 lookup_node_def node_lookup_loop_other node_lookup_loop_below)
  next
    case (Suc j)
    with Cons show ?thesis by simp
  qed
qed

lemma CreateNetworkState_lookup_PerLoop:
  assumes "CreateNetworkState env PerLoop slotNumber beaconConfig = (Some state, e)"
    and "node \<in> set (NodeDetails state)"
  shows "lookup_node state (NodeAddress node) = Some (last (NodeDetails state))"
proof -
  from CreateNetworkState_Some [OF assms(1)] obtain state4
    where "NodeDetailsByAddress state
             = NodeDetailsByAddress (node_lookup_loop PerLoop 0 (NodeDetails state) state4)"
      and "node_cells state = node_cells (node_lookup_loop PerLoop 0 (NodeDetails state) state4)"
    by auto
  then have "lookup_node state (NodeAddress node)
               = lookup_node (node_lookup_loop PerLoop 0 (NodeDetails state) state4) (NodeAddress node)"
    by (simp add: lookup_node_def cong: option.case_cong)
  also have "\<dots> = Some (last (NodeDetails state))"
    using assms(2) by (intro node_lookup_loop_PerLoop) auto
  finally show ?thesis .
qed

lemma CreateNetworkState_lookup_PerIteration:
  assumes "CreateNetworkState env PerIteration slotNumber beaconConfig = (Some state, e)"
    and "distinct (map NodeAddress (NodeDetails state))"
    and "i < length (NodeDetails state)"
  shows "lookup_node state (NodeAddress (NodeDetails state ! i)) = Some (NodeDetails state ! i)"
proof -
  from CreateNetworkState_Some [OF assms(1)] obtain state4
    where "NodeDetailsByAddress state
             = NodeDetailsByAddress (node_lookup_loop PerIteration 0 (NodeDetails state) state4)"
      and "node_cells state
             = node_cells (node_lookup_loop PerIteration 0 (NodeDetails state) state4)"
    by auto
  then have "lookup_node state (NodeAddress (NodeDetails state ! i))
               = lookup_node (node_lookup_loop PerIteration 0 (NodeDetails state) state4)
                   (NodeAddress (NodeDetails state ! i))"
    by (simp add: lookup_node_def cong: option.case_cong)
  also have "\<dots> = Some (NodeDetails state ! i)"
    using assms(2,3) by (rule node_lookup_loop_PerIteration)
  finally show ?thesis .
qed

text \<open>
  \<^bold>\<open>C1.\<close> \<open>CreateNetworkState\<close> returns either an error and no state, or a state and
  no error; and it returns a state only if every read it issued succeeded: the Beacon
  block of the slot (which exists), the Atlas check, the network contracts, every getter
  of the goroutines of \<open>getNetworkDetails\<close> (those of Atlas included when Atlas is
  deployed), the node details, the minipool details, the validator statuses and the
  minipool shares. So if any of these reads fails, the caller gets \<open>(nil, err)\<close> and
  never a partly filled state.
\<close>

theorem CreateNetworkState_all_or_nothing:
  "(\<exists>err. CreateNetworkState env sem slotNumber beaconConfig = (None, Some err))
   \<or> (\<exists>state beaconBlock isAtlasDeployed contracts nodeDetails minipoolDetails statusMap shares.
        CreateNetworkState env sem slotNumber beaconConfig = (Some state, None)
      \<and> bc_GetBeaconBlock env slotNumber = Inr (beaconBlock, True)
      \<and> rp_IsAtlasDeployed env (ExecutionBlockNumber beaconBlock) = Inr isAtlasDeployed
      \<and> rpstate_NewNetworkContracts env isAtlasDeployed (ExecutionBlockNumber beaconBlock)
          = Inr contracts
      \<and> (\<forall>f \<in> set (fields_read isAtlasDeployed).
            \<exists>v. network_read env f (ExecutionBlockNumber beaconBlock) = Inr v)
      \<and> rpstate_GetAllNativeNodeDetails env contracts (ExecutionBlockNumber beaconBlock)
          = Inr nodeDetails
      \<and> rpstate_GetAllNativeMinipoolDetails env contracts (ExecutionBlockNumber beaconBlock)
          = Inr minipoolDetails
      \<and> bc_GetValidatorStatuses env
            (filter (\<lambda>k. k \<noteq> emptyPubkey) (map Pubkey minipoolDetails)) slotNumber
          = Inr statusMap
      \<and> rpstate_CalculateCompleteMinipoolShares env contracts minipoolDetails
            (map (\<lambda>mpd. case statusMap (Pubkey mpd) of
                           None \<Rightarrow> 0
                         | Some validator \<Rightarrow> GweiToWei (Balance validator)) minipoolDetails)
            (ExecutionBlockNumber beaconBlock)
          = Inr shares)"
proof (cases "CreateNetworkState env sem slotNumber beaconConfig")
  case (Pair st e)
  show ?thesis
  proof (cases st)
    case None
    with Pair CreateNetworkState_None [of env sem slotNumber beaconConfig e]
    show ?thesis by auto
  next
    case (Some state)
    with Pair have r: "CreateNetworkState env sem slotNumber beaconConfig = (Some state, e)"
      by simp
    from CreateNetworkState_Some [OF r] have "e = None"
      by simp
    with r CreateNetworkState_Some [OF r] show ?thesis
      by (intro disjI2) (simp, blast)
  qed
qed

text \<open>The theorem on \<open>failing_reads\<close>: one getter of 36 fails, and the result is an error
  without a state.\<close>

theorem CreateNetworkState_all_or_nothing_witness:
  "\<exists>err. CreateNetworkState failing_reads PerLoop 100 example_config = (None, Some err)"
proof -
  have f: "TotalRPLStake \<in> set (fields_read a)" for a
    by (simp add: fields_read_def network_tasks_def)
  have "network_read failing_reads TotalRPLStake blk = Inl (Error ''execution reverted'')" for blk
    by (simp add: failing_reads_def)
  with f have "\<not> (\<forall>f \<in> set (fields_read a). \<exists>v. network_read failing_reads f blk = Inr v)" for a blk
    by (metis Inl_Inr_False)
  with CreateNetworkState_all_or_nothing [of failing_reads PerLoop 100 example_config]
  show ?thesis
    by blast
qed

text \<open>The definitions that evaluating \<open>CreateNetworkState\<close> on the example unfolds.\<close>

lemmas create_defs = CreateNetworkState_def example_reads_def example_config_def
  getNetworkDetails_def network_tasks_def atlas_tasks_def wg_Wait_def lookup_node_def
  beaconBalances_def GweiToWei_def emptyPubkey_def example_state_def example_node_def
  example_minipool_def example_details_def time_Second_def big_Uint64_def wrap_int64_def

text \<open>
  \<^bold>\<open>C9.\<close> The claim \<open>NodeDetailsByAddress[NodeDetails[i].NodeAddress] = NodeDetails[i]\<close>
  fails on the code: on the example answers, with the two nodes 100 and 101, both keys of
  \<open>NodeDetailsByAddress\<close> resolve to the record of node 101. (The lemmas above give the
  general picture: with one loop variable every key resolves to the last node; the
  minipool lookups, built from \<^verbatim>\<open>&state.MinipoolDetails[i]\<close>, do not share this.)
\<close>

theorem CreateNetworkState_node_lookup_aliased:
  "(case CreateNetworkState example_reads PerLoop 100 example_config of
      (Some state, err) \<Rightarrow>
        (map NodeAddress (NodeDetails state),
         map_option NodeAddress (lookup_node state 100),
         map_option NodeAddress (lookup_node state 101))
    | (None, err) \<Rightarrow> ([], None, None))
   = ([100, 101], Some 101, Some 101)"
  by (simp add: create_defs)

section \<open>Rewards files\<close>

text \<open>The definitions that evaluating the two functions on the examples unfolds.\<close>

lemmas rewards_defs = rewards_env_def fallback_env_def offline_env_def full_disk_env_def
  example_event_def good_file_def
  tampered_file_def good_bytes_def tampered_bytes_def tree_path_def primary_url_def
  secondary_url_def github_url_def DownloadRewardsFile_def rewards_urls_def fetch_url_def
  decompressFile_def os_WriteFile_def os_ReadFile_def os_Stat_def GetIntervalInfo_def
  interval_event_def GetRewardSnapshotEvent_def node_rewards_def zero_IntervalInfo_def
  suffix_to_prefix Let_def

text \<open>The loop over the mirrors: when every pass fails, and when a pass succeeds after
  failed ones.\<close>

lemma download_loop_all_fail:
  assumes "\<forall>url \<in> set urls. \<exists>line. fetch_url env url = Inl line"
  shows "download_loop env fs interval path urls errBuilder =
           (Some (fmt_Errorf_format env (errBuilder @ failure_lines env urls)), fs)"
  using assms
proof (induction urls arbitrary: errBuilder)
  case Nil
  then show ?case by (simp add: failure_lines_def)
next
  case (Cons url urls)
  then obtain line where "fetch_url env url = Inl line"
    by auto
  with Cons show ?case
    by (simp add: failure_lines_def)
qed

lemma download_loop_first_success:
  assumes "\<forall>u \<in> set us1. \<exists>line. fetch_url env u = Inl line"
    and "fetch_url env url = Inr writeBytes"
  shows "download_loop env fs interval path (us1 @ url # us2) errBuilder =
           (case write_fails env path of
              None \<Rightarrow> (None, fs(path \<mapsto> writeBytes))
            | Some (OpenFails e) \<Rightarrow> (Some (saving_error interval path e), fs)
            | Some (WriteFails e n) \<Rightarrow>
                (Some (saving_error interval path e), fs(path \<mapsto> take n writeBytes)))"
  using assms(1)
proof (induction us1 arbitrary: errBuilder)
  case Nil
  show ?case
  proof (cases "write_fails env path")
    case None
    then show ?thesis
      by (simp add: assms(2) os_WriteFile_def)
  next
    case (Some failure)
    then show ?thesis
      by (cases failure) (simp_all add: assms(2) os_WriteFile_def)
  qed
next
  case (Cons u us1)
  then obtain line where "fetch_url env u = Inl line"
    by auto
  with Cons show ?case
    by simp
qed

text \<open>
  \<^bold>\<open>C5\<close> (as amended). \<open>DownloadRewardsFile\<close> tries the three mirror URLs in order
  (primary, secondary, network-specific fallback). The first mirror whose download
  succeeds (the request succeeds with status 200, the body is read and, for a URL with
  the compressed extension, decompressed) wins: its bytes are written to the rewards
  tree path, without any check of a Merkle root, and no later mirror is tried; a failed
  write is returned as the error of line 318, with the file untouched when it could not
  be opened and holding the bytes written so far otherwise. When every mirror fails the
  function writes nothing and returns the error that \<^verbatim>\<open>fmt.Errorf\<close> makes of the
  failures' lines, taken as its format: its message is those lines, one after the other,
  when they contain no \<^verbatim>\<open>%\<close>.
\<close>

theorem DownloadRewardsFile_first_fetched_wins:
  assumes "homedir_Expand env (GetRewardsTreePath env interval isDaemon) = Inr rewardsTreePath"
    and "urls =
      [PrimaryRewardsFileUrl env cid
         (filepath_Base env rewardsTreePath @ RewardsTreeIpfsExtension env),
       SecondaryRewardsFileUrl env cid
         (filepath_Base env rewardsTreePath @ RewardsTreeIpfsExtension env),
       GithubRewardsFileUrl env (Network_name env) (filepath_Base env rewardsTreePath)]"
  shows "((\<forall>url \<in> set urls. \<exists>line. fetch_url env url = Inl line) \<longrightarrow>
            DownloadRewardsFile env fs interval cid isDaemon =
              (Some (fmt_Errorf_format env (failure_lines env urls)), fs)
          \<and> (CHR ''%'' \<notin> set (failure_lines env urls) \<longrightarrow>
               DownloadRewardsFile env fs interval cid isDaemon =
                 (Some (Error (failure_lines env urls)), fs)))
       \<and> (\<forall>us1 url us2 writeBytes.
             urls = us1 @ url # us2
             \<and> (\<forall>u \<in> set us1. \<exists>line. fetch_url env u = Inl line)
             \<and> fetch_url env url = Inr writeBytes \<longrightarrow>
               (write_fails env rewardsTreePath = None \<longrightarrow>
                  DownloadRewardsFile env fs interval cid isDaemon =
                    (None, fs(rewardsTreePath \<mapsto> writeBytes)))
             \<and> (\<forall>e. write_fails env rewardsTreePath = Some (OpenFails e) \<longrightarrow>
                  DownloadRewardsFile env fs interval cid isDaemon =
                    (Some (saving_error interval rewardsTreePath e), fs))
             \<and> (\<forall>e n. write_fails env rewardsTreePath = Some (WriteFails e n) \<longrightarrow>
                  DownloadRewardsFile env fs interval cid isDaemon =
                    (Some (saving_error interval rewardsTreePath e),
                     fs(rewardsTreePath \<mapsto> take n writeBytes))))"
proof -
  have d: "DownloadRewardsFile env fs interval cid isDaemon =
             download_loop env fs interval rewardsTreePath urls []"
    by (simp add: DownloadRewardsFile_def assms rewards_urls_def Let_def)
  have fail: "DownloadRewardsFile env fs interval cid isDaemon =
                (Some (fmt_Errorf_format env (failure_lines env urls)), fs)"
    if "\<forall>url \<in> set urls. \<exists>line. fetch_url env url = Inl line"
    using download_loop_all_fail [OF that, of fs interval rewardsTreePath "[]"]
    by (simp add: d)
  have win: "DownloadRewardsFile env fs interval cid isDaemon =
           (case write_fails env rewardsTreePath of
              None \<Rightarrow> (None, fs(rewardsTreePath \<mapsto> writeBytes))
            | Some (OpenFails e) \<Rightarrow> (Some (saving_error interval rewardsTreePath e), fs)
            | Some (WriteFails e n) \<Rightarrow>
                (Some (saving_error interval rewardsTreePath e),
                 fs(rewardsTreePath \<mapsto> take n writeBytes)))"
    if "urls = us1 @ url # us2
          \<and> (\<forall>u \<in> set us1. \<exists>line. fetch_url env u = Inl line)
          \<and> fetch_url env url = Inr writeBytes"
    for us1 url us2 writeBytes
  proof -
    from that have "\<forall>u \<in> set us1. \<exists>line. fetch_url env u = Inl line"
      and "fetch_url env url = Inr writeBytes" and u: "urls = us1 @ url # us2"
      by blast+
    from download_loop_first_success [OF this(1,2)] show ?thesis
      by (simp add: d u)
  qed
  show ?thesis
  proof (intro conjI allI impI)
    assume "\<forall>url \<in> set urls. \<exists>line. fetch_url env url = Inl line"
    then show "DownloadRewardsFile env fs interval cid isDaemon =
                 (Some (fmt_Errorf_format env (failure_lines env urls)), fs)"
      by (rule fail)
  next
    assume "\<forall>url \<in> set urls. \<exists>line. fetch_url env url = Inl line"
      and "CHR ''%'' \<notin> set (failure_lines env urls)"
    then show "DownloadRewardsFile env fs interval cid isDaemon =
                 (Some (Error (failure_lines env urls)), fs)"
      by (simp add: fail fmt_Errorf_format_def)
  next
    fix us1 url us2 writeBytes
    assume a: "urls = us1 @ url # us2
             \<and> (\<forall>u \<in> set us1. \<exists>line. fetch_url env u = Inl line)
             \<and> fetch_url env url = Inr writeBytes"
      and w: "write_fails env rewardsTreePath = None"
    from win [OF a] w show "DownloadRewardsFile env fs interval cid isDaemon =
                    (None, fs(rewardsTreePath \<mapsto> writeBytes))"
      by simp
  next
    fix us1 url us2 writeBytes e
    assume a: "urls = us1 @ url # us2
             \<and> (\<forall>u \<in> set us1. \<exists>line. fetch_url env u = Inl line)
             \<and> fetch_url env url = Inr writeBytes"
      and w: "write_fails env rewardsTreePath = Some (OpenFails e)"
    from win [OF a] w show "DownloadRewardsFile env fs interval cid isDaemon =
                    (Some (saving_error interval rewardsTreePath e), fs)"
      by simp
  next
    fix us1 url us2 writeBytes e n
    assume a: "urls = us1 @ url # us2
             \<and> (\<forall>u \<in> set us1. \<exists>line. fetch_url env u = Inl line)
             \<and> fetch_url env url = Inr writeBytes"
      and w: "write_fails env rewardsTreePath = Some (WriteFails e n)"
    from win [OF a] w show "DownloadRewardsFile env fs interval cid isDaemon =
                    (Some (saving_error interval rewardsTreePath e),
                     fs(rewardsTreePath \<mapsto> take n writeBytes))"
      by simp
  qed
qed

text \<open>The theorem on \<open>fallback_env\<close>, where two mirrors fail and the third one's file is
  written, on \<open>offline_env\<close>, where the three failures are the error, and on
  \<open>full_disk_env\<close>, where the write of the third mirror's file fails.\<close>

theorem DownloadRewardsFile_first_fetched_wins_witness:
  "DownloadRewardsFile fallback_env Map.empty 5 ''bafy'' True
     = (None, [tree_path \<mapsto> good_bytes])
   \<and> DownloadRewardsFile offline_env Map.empty 5 ''bafy'' True
     = (Some (Error (''Downloading '' @ primary_url @ '' failed (connection refused)\<newline>''
                     @ ''Downloading '' @ secondary_url @ '' failed (connection refused)\<newline>''
                     @ ''Downloading '' @ github_url @ '' failed (connection refused)\<newline>'')),
        Map.empty)
   \<and> DownloadRewardsFile full_disk_env Map.empty 5 ''bafy'' True
     = (Some (Error (''error saving interval 5 file to '' @ tree_path
                     @ '': no space left on device'')),
        [tree_path \<mapsto> take 2 good_bytes])"
proof -
  have h: "homedir_Expand fallback_env (GetRewardsTreePath fallback_env 5 True) = Inr tree_path"
    by (simp add: rewards_defs)
  have u: "[primary_url, secondary_url, github_url] =
      [PrimaryRewardsFileUrl fallback_env ''bafy''
         (filepath_Base fallback_env tree_path @ RewardsTreeIpfsExtension fallback_env),
       SecondaryRewardsFileUrl fallback_env ''bafy''
         (filepath_Base fallback_env tree_path @ RewardsTreeIpfsExtension fallback_env),
       GithubRewardsFileUrl fallback_env (Network_name fallback_env)
         (filepath_Base fallback_env tree_path)]"
    by (simp add: rewards_defs)
  have s: "[primary_url, secondary_url, github_url] = [primary_url, secondary_url] @ github_url # []"
    by simp
  have f: "\<forall>u \<in> set [primary_url, secondary_url]. \<exists>line. fetch_url fallback_env u = Inl line"
    by (simp add: rewards_defs)
  have g: "fetch_url fallback_env github_url = Inr good_bytes"
    by (simp add: rewards_defs)
  have w: "write_fails fallback_env tree_path = None"
    by (simp add: rewards_defs)
  from DownloadRewardsFile_first_fetched_wins [OF h u, of Map.empty] s f g w
  have 1: "DownloadRewardsFile fallback_env Map.empty 5 ''bafy'' True
             = (None, [tree_path \<mapsto> good_bytes])"
    by blast
  have h': "homedir_Expand offline_env (GetRewardsTreePath offline_env 5 True) = Inr tree_path"
    by (simp add: rewards_defs)
  have u': "[primary_url, secondary_url, github_url] =
      [PrimaryRewardsFileUrl offline_env ''bafy''
         (filepath_Base offline_env tree_path @ RewardsTreeIpfsExtension offline_env),
       SecondaryRewardsFileUrl offline_env ''bafy''
         (filepath_Base offline_env tree_path @ RewardsTreeIpfsExtension offline_env),
       GithubRewardsFileUrl offline_env (Network_name offline_env)
         (filepath_Base offline_env tree_path)]"
    by (simp add: rewards_defs)
  have f': "\<forall>u \<in> set [primary_url, secondary_url, github_url].
              \<exists>line. fetch_url offline_env u = Inl line"
    by (simp add: offline_env_def fetch_url_def)
  have l: "failure_lines offline_env [primary_url, secondary_url, github_url] =
             ''Downloading '' @ primary_url @ '' failed (connection refused)\<newline>''
             @ ''Downloading '' @ secondary_url @ '' failed (connection refused)\<newline>''
             @ ''Downloading '' @ github_url @ '' failed (connection refused)\<newline>''"
    by (simp add: failure_lines_def offline_env_def fetch_url_def)
  have p: "CHR ''%'' \<notin> set (failure_lines offline_env [primary_url, secondary_url, github_url])"
    unfolding l by (simp add: primary_url_def secondary_url_def github_url_def)
  from DownloadRewardsFile_first_fetched_wins [OF h' u', of Map.empty] f' p
  have 2: "DownloadRewardsFile offline_env Map.empty 5 ''bafy'' True
     = (Some (Error (failure_lines offline_env [primary_url, secondary_url, github_url])),
        Map.empty)"
    by blast
  have h'': "homedir_Expand full_disk_env (GetRewardsTreePath full_disk_env 5 True) = Inr tree_path"
    by (simp add: rewards_defs)
  have u'': "[primary_url, secondary_url, github_url] =
      [PrimaryRewardsFileUrl full_disk_env ''bafy''
         (filepath_Base full_disk_env tree_path @ RewardsTreeIpfsExtension full_disk_env),
       SecondaryRewardsFileUrl full_disk_env ''bafy''
         (filepath_Base full_disk_env tree_path @ RewardsTreeIpfsExtension full_disk_env),
       GithubRewardsFileUrl full_disk_env (Network_name full_disk_env)
         (filepath_Base full_disk_env tree_path)]"
    by (simp add: rewards_defs)
  have f'': "\<forall>u \<in> set [primary_url, secondary_url]. \<exists>line. fetch_url full_disk_env u = Inl line"
    by (simp add: rewards_defs)
  have g'': "fetch_url full_disk_env github_url = Inr good_bytes"
    by (simp add: rewards_defs)
  have w'': "write_fails full_disk_env tree_path
               = Some (WriteFails (Error ''no space left on device'') 2)"
    by (simp add: rewards_defs)
  have e: "saving_error 5 tree_path (Error ''no space left on device'')
             = Error (''error saving interval 5 file to '' @ tree_path
                      @ '': no space left on device'')"
    by (simp add: saving_error_def fmt_decimal.simps)
  from DownloadRewardsFile_first_fetched_wins [OF h'' u'', of Map.empty] s f'' g'' w''
  have 3: "DownloadRewardsFile full_disk_env Map.empty 5 ''bafy'' True
     = (Some (saving_error 5 tree_path (Error ''no space left on device'')),
        [tree_path \<mapsto> take 2 good_bytes])"
    by blast
  from 1 2 3 show ?thesis
    unfolding l e by simp
qed

text \<open>
  C5 as it was stated fails: the primary mirror serves a file whose root is not the
  event's; \<open>DownloadRewardsFile\<close> succeeds and writes it, \<open>GetIntervalInfo\<close> then finds
  the written file invalid, and the secondary mirror, which had the valid file, was never
  asked.
\<close>

theorem DownloadRewardsFile_unverified_counterexample:
  "fst (DownloadRewardsFile rewards_env Map.empty 5 ''bafy'' True) = None
   \<and> snd (DownloadRewardsFile rewards_env Map.empty 5 ''bafy'' True) tree_path
       = Some tampered_bytes
   \<and> GetIntervalInfo rewards_env
        (snd (DownloadRewardsFile rewards_env Map.empty 5 ''bafy'' True)) 100 5
       = (\<lparr>Index = 5, TreeFilePath = tree_path, TreeFileExists = True, MerkleRootValid = False,
           CID = ''bafy'', StartTime = 1000, EndTime = 2000, NodeExists = False,
           CollateralRplAmount = None, ODaoRplAmount = None, SmoothingPoolEthAmount = None,
           MerkleProof = []\<rparr>, None)
   \<and> fetch_url rewards_env secondary_url = Inr good_bytes
   \<and> MerkleRootValid (fst (GetIntervalInfo rewards_env [tree_path \<mapsto> good_bytes] 100 5))"
  by (simp add: rewards_defs)


text \<open>The rewards of the node, read from a file with a valid root.\<close>

lemma node_rewards_None:
  "NodeRewards proofWrapper nodeAddress = None \<Longrightarrow>
     node_rewards env proofWrapper nodeAddress info = (info\<lparr>NodeExists := False\<rparr>, None)"
  by (simp add: node_rewards_def)

lemma node_rewards_Some:
  "NodeRewards proofWrapper nodeAddress = Some rewards \<Longrightarrow>
     \<exists>info' err.
       node_rewards env proofWrapper nodeAddress info = (info', err)
     \<and> NodeExists info'
     \<and> TreeFileExists info' = TreeFileExists info
     \<and> MerkleRootValid info' = MerkleRootValid info
     \<and> CollateralRplAmount info' = Some (CollateralRpl rewards)
     \<and> ODaoRplAmount info' = Some (OracleDaoRpl rewards)
     \<and> SmoothingPoolEthAmount info' = Some (SmoothingPoolEth rewards)
     \<and> (\<forall>proof. GetMerkleProof env rewards = Inr proof \<longrightarrow>
            err = None \<and> MerkleProof info' = proof)
     \<and> (\<forall>e. GetMerkleProof env rewards = Inl e \<longrightarrow> err \<noteq> None)"
  by (cases "GetMerkleProof env rewards") (simp_all add: node_rewards_def Let_def)

text \<open>
  \<^bold>\<open>C6\<close> (as amended). Given the event of the interval, \<open>GetIntervalInfo\<close> tells three
  outcomes apart. If the file does not exist it returns \<open>TreeFileExists = false\<close> and no
  error. If the file exists and parses but the Merkle root it states (its field
  \<^verbatim>\<open>merkleRoot\<close>, read by \<^verbatim>\<open>HexToHash\<close>) differs from the root of the event, it returns
  \<open>MerkleRootValid = false\<close>, no error, and no amounts or proof. Only when the two roots
  are equal does it report whether the node has an entry and, if so, its amounts and its
  Merkle proof.
\<close>

theorem GetIntervalInfo_three_outcomes:
  assumes "interval_event env interval = Inr event"
    and "path = GetRewardsTreePath env interval True"
  shows "(os_Stat env fs path = StatNotExist \<longrightarrow>
            (\<exists>info. GetIntervalInfo env fs nodeAddress interval = (info, None)
               \<and> \<not> TreeFileExists info \<and> \<not> MerkleRootValid info \<and> \<not> NodeExists info
               \<and> CollateralRplAmount info = None \<and> ODaoRplAmount info = None
               \<and> SmoothingPoolEthAmount info = None \<and> MerkleProof info = []))
       \<and> (os_Stat env fs path \<noteq> StatNotExist
            \<and> os_ReadFile env fs path = Inr fileBytes
            \<and> json_Unmarshal env fileBytes = Inr proofWrapper \<longrightarrow>
            (MerkleRoot event \<noteq> common_HexToHash env (MerkleRoot_hex proofWrapper) \<longrightarrow>
               (\<exists>info. GetIntervalInfo env fs nodeAddress interval = (info, None)
                  \<and> TreeFileExists info \<and> \<not> MerkleRootValid info \<and> \<not> NodeExists info
                  \<and> CollateralRplAmount info = None \<and> ODaoRplAmount info = None
                  \<and> SmoothingPoolEthAmount info = None \<and> MerkleProof info = []))
          \<and> (MerkleRoot event = common_HexToHash env (MerkleRoot_hex proofWrapper) \<longrightarrow>
               (\<exists>info err. GetIntervalInfo env fs nodeAddress interval = (info, err)
                  \<and> TreeFileExists info \<and> MerkleRootValid info
                  \<and> NodeExists info = (NodeRewards proofWrapper nodeAddress \<noteq> None)
                  \<and> (NodeRewards proofWrapper nodeAddress = None \<longrightarrow>
                        err = None
                      \<and> CollateralRplAmount info = None \<and> ODaoRplAmount info = None
                      \<and> SmoothingPoolEthAmount info = None \<and> MerkleProof info = [])
                  \<and> (\<forall>rewards. NodeRewards proofWrapper nodeAddress = Some rewards \<longrightarrow>
                        CollateralRplAmount info = Some (CollateralRpl rewards)
                      \<and> ODaoRplAmount info = Some (OracleDaoRpl rewards)
                      \<and> SmoothingPoolEthAmount info = Some (SmoothingPoolEth rewards)
                      \<and> (\<forall>proof. GetMerkleProof env rewards = Inr proof \<longrightarrow>
                             err = None \<and> MerkleProof info = proof)))))"
proof (intro conjI impI)
  assume "os_Stat env fs path = StatNotExist"
  then show "\<exists>info. GetIntervalInfo env fs nodeAddress interval = (info, None)
               \<and> \<not> TreeFileExists info \<and> \<not> MerkleRootValid info \<and> \<not> NodeExists info
               \<and> CollateralRplAmount info = None \<and> ODaoRplAmount info = None
               \<and> SmoothingPoolEthAmount info = None \<and> MerkleProof info = []"
    by (simp add: GetIntervalInfo_def assms Let_def zero_IntervalInfo_def)
next
  assume a: "os_Stat env fs path \<noteq> StatNotExist
            \<and> os_ReadFile env fs path = Inr fileBytes
            \<and> json_Unmarshal env fileBytes = Inr proofWrapper"
    and r: "MerkleRoot event \<noteq> common_HexToHash env (MerkleRoot_hex proofWrapper)"
  then show "\<exists>info. GetIntervalInfo env fs nodeAddress interval = (info, None)
                  \<and> TreeFileExists info \<and> \<not> MerkleRootValid info \<and> \<not> NodeExists info
                  \<and> CollateralRplAmount info = None \<and> ODaoRplAmount info = None
                  \<and> SmoothingPoolEthAmount info = None \<and> MerkleProof info = []"
    by (simp add: GetIntervalInfo_def assms Let_def zero_IntervalInfo_def)
next
  assume a: "os_Stat env fs path \<noteq> StatNotExist
            \<and> os_ReadFile env fs path = Inr fileBytes
            \<and> json_Unmarshal env fileBytes = Inr proofWrapper"
    and r: "MerkleRoot event = common_HexToHash env (MerkleRoot_hex proofWrapper)"
  define info3 where "info3 =
     zero_IntervalInfo\<lparr>Index := interval, CID := MerkleTreeCID event,
        StartTime := IntervalStartTime event, EndTime := IntervalEndTime event,
        TreeFilePath := path, TreeFileExists := True, MerkleRootValid := True\<rparr>"
  have g: "GetIntervalInfo env fs nodeAddress interval
             = node_rewards env proofWrapper nodeAddress info3"
    using a r by (simp add: GetIntervalInfo_def assms Let_def info3_def)
  have i3: "TreeFileExists info3" "MerkleRootValid info3" "CollateralRplAmount info3 = None"
    "ODaoRplAmount info3 = None" "SmoothingPoolEthAmount info3 = None" "MerkleProof info3 = []"
    by (simp_all add: info3_def zero_IntervalInfo_def)
  show "\<exists>info err. GetIntervalInfo env fs nodeAddress interval = (info, err)
                  \<and> TreeFileExists info \<and> MerkleRootValid info
                  \<and> NodeExists info = (NodeRewards proofWrapper nodeAddress \<noteq> None)
                  \<and> (NodeRewards proofWrapper nodeAddress = None \<longrightarrow>
                        err = None
                      \<and> CollateralRplAmount info = None \<and> ODaoRplAmount info = None
                      \<and> SmoothingPoolEthAmount info = None \<and> MerkleProof info = [])
                  \<and> (\<forall>rewards. NodeRewards proofWrapper nodeAddress = Some rewards \<longrightarrow>
                        CollateralRplAmount info = Some (CollateralRpl rewards)
                      \<and> ODaoRplAmount info = Some (OracleDaoRpl rewards)
                      \<and> SmoothingPoolEthAmount info = Some (SmoothingPoolEth rewards)
                      \<and> (\<forall>proof. GetMerkleProof env rewards = Inr proof \<longrightarrow>
                             err = None \<and> MerkleProof info = proof))"
  proof (cases "NodeRewards proofWrapper nodeAddress")
    case None
    with i3 show ?thesis
      by (simp add: g node_rewards_None)
  next
    case (Some rewards)
    from node_rewards_Some [OF Some, of env info3] i3 Some show ?thesis
      unfolding g by auto
  qed
qed

text \<open>The theorem on the three cases: no file, the tampered file, the good file.\<close>

theorem GetIntervalInfo_three_outcomes_witness:
  "GetIntervalInfo rewards_env Map.empty 100 5
     = (\<lparr>Index = 5, TreeFilePath = tree_path, TreeFileExists = False, MerkleRootValid = False,
         CID = ''bafy'', StartTime = 1000, EndTime = 2000, NodeExists = False,
         CollateralRplAmount = None, ODaoRplAmount = None, SmoothingPoolEthAmount = None,
         MerkleProof = []\<rparr>, None)
   \<and> (\<exists>info. GetIntervalInfo rewards_env [tree_path \<mapsto> tampered_bytes] 100 5 = (info, None)
         \<and> TreeFileExists info \<and> \<not> MerkleRootValid info \<and> \<not> NodeExists info
         \<and> CollateralRplAmount info = None \<and> MerkleProof info = [])
   \<and> (\<exists>info. GetIntervalInfo rewards_env [tree_path \<mapsto> good_bytes] 100 5 = (info, None)
         \<and> TreeFileExists info \<and> MerkleRootValid info \<and> NodeExists info
         \<and> CollateralRplAmount info = Some 10 \<and> ODaoRplAmount info = Some 0
         \<and> SmoothingPoolEthAmount info = Some 20 \<and> MerkleProof info = [1])"
proof -
  have ev: "interval_event rewards_env 5 = Inr example_event"
    by (simp add: rewards_defs)
  have p: "tree_path = GetRewardsTreePath rewards_env 5 True"
    by (simp add: rewards_defs)
  note outcomes = GetIntervalInfo_three_outcomes [OF ev p]
  have 1: "GetIntervalInfo rewards_env Map.empty 100 5
     = (\<lparr>Index = 5, TreeFilePath = tree_path, TreeFileExists = False, MerkleRootValid = False,
         CID = ''bafy'', StartTime = 1000, EndTime = 2000, NodeExists = False,
         CollateralRplAmount = None, ODaoRplAmount = None, SmoothingPoolEthAmount = None,
         MerkleProof = []\<rparr>, None)"
    by (simp add: rewards_defs)
  have t: "os_Stat rewards_env [tree_path \<mapsto> tampered_bytes] tree_path \<noteq> StatNotExist
            \<and> os_ReadFile rewards_env [tree_path \<mapsto> tampered_bytes] tree_path = Inr tampered_bytes
            \<and> json_Unmarshal rewards_env tampered_bytes = Inr tampered_file"
    "MerkleRoot example_event \<noteq> common_HexToHash rewards_env (MerkleRoot_hex tampered_file)"
    by (simp_all add: rewards_defs)
  from outcomes [of "[tree_path \<mapsto> tampered_bytes]" 100 tampered_bytes tampered_file] t
  have 2: "\<exists>info. GetIntervalInfo rewards_env [tree_path \<mapsto> tampered_bytes] 100 5 = (info, None)
         \<and> TreeFileExists info \<and> \<not> MerkleRootValid info \<and> \<not> NodeExists info
         \<and> CollateralRplAmount info = None \<and> MerkleProof info = []"
    by blast
  have g: "os_Stat rewards_env [tree_path \<mapsto> good_bytes] tree_path \<noteq> StatNotExist
            \<and> os_ReadFile rewards_env [tree_path \<mapsto> good_bytes] tree_path = Inr good_bytes
            \<and> json_Unmarshal rewards_env good_bytes = Inr good_file"
    "MerkleRoot example_event = common_HexToHash rewards_env (MerkleRoot_hex good_file)"
    "NodeRewards good_file 100 = Some \<lparr>CollateralRpl = 10, OracleDaoRpl = 0,
        SmoothingPoolEth = 20, MerkleProof_hex = [''0x01'']\<rparr>"
    "GetMerkleProof rewards_env \<lparr>CollateralRpl = 10, OracleDaoRpl = 0,
        SmoothingPoolEth = 20, MerkleProof_hex = [''0x01'']\<rparr> = Inr [1]"
    by (simp_all add: rewards_defs)
  from outcomes [of "[tree_path \<mapsto> good_bytes]" 100 good_bytes good_file] g(1,2)
  obtain info err where i: "GetIntervalInfo rewards_env [tree_path \<mapsto> good_bytes] 100 5 = (info, err)"
    "TreeFileExists info" "MerkleRootValid info"
    "NodeExists info = (NodeRewards good_file 100 \<noteq> None)"
    "\<forall>rewards. NodeRewards good_file 100 = Some rewards \<longrightarrow>
                        CollateralRplAmount info = Some (CollateralRpl rewards)
                      \<and> ODaoRplAmount info = Some (OracleDaoRpl rewards)
                      \<and> SmoothingPoolEthAmount info = Some (SmoothingPoolEth rewards)
                      \<and> (\<forall>proof. GetMerkleProof rewards_env rewards = Inr proof \<longrightarrow>
                             err = None \<and> MerkleProof info = proof)"
    by blast
  from i(4,5) g(3,4) have "NodeExists info" "CollateralRplAmount info = Some 10"
    "ODaoRplAmount info = Some 0" "SmoothingPoolEthAmount info = Some 20"
    "err = None" "MerkleProof info = [1]"
    by simp_all
  with i(1-3) have 3: "\<exists>info. GetIntervalInfo rewards_env [tree_path \<mapsto> good_bytes] 100 5 = (info, None)
         \<and> TreeFileExists info \<and> MerkleRootValid info \<and> NodeExists info
         \<and> CollateralRplAmount info = Some 10 \<and> ODaoRplAmount info = Some 0
         \<and> SmoothingPoolEthAmount info = Some 20 \<and> MerkleProof info = [1]"
    by blast
  from 1 2 3 show ?thesis
    by blast
qed

text \<open>
  C6 as it was stated fails: no root is recomputed from the entries of the file. Two
  files with the same node entries, one stating the event's root and one stating another
  root, get different verdicts; so the verdict is not a function of the entries.
\<close>

theorem GetIntervalInfo_root_not_recomputed_counterexample:
  "json_Unmarshal rewards_env good_bytes = Inr good_file
   \<and> json_Unmarshal rewards_env tampered_bytes = Inr tampered_file
   \<and> NodeRewards good_file = NodeRewards tampered_file
   \<and> MerkleRootValid (fst (GetIntervalInfo rewards_env [tree_path \<mapsto> good_bytes] 100 5))
   \<and> \<not> MerkleRootValid (fst (GetIntervalInfo rewards_env [tree_path \<mapsto> tampered_bytes] 100 5))"
  by (simp add: rewards_defs)

section \<open>Bond reduction\<close>

text \<open>Without overflow, \<open>isDue\<close> is the comparison in the integers.\<close>

lemma isDue_plain:
  assumes "0 \<le> windowStart" and "0 \<le> windowLength"
    and "windowStart + windowLength \<le> maxDuration"
    and "reduceBondTime \<le> latestBlockTime"
    and "latestBlockTime - reduceBondTime \<le> maxDuration"
  shows "isDue windowStart windowLength latestBlockTime reduceBondTime \<longleftrightarrow>
           windowStart + windowLength - (latestBlockTime - reduceBondTime) < windowLength div 2"
proof -
  have w: "wrap_int64 x = x" if "- (2 ^ 63) \<le> x" "x < 2 ^ 63" for x :: int
    using that by (simp add: wrap_int64_def)
  have s: "Time_Sub latestBlockTime reduceBondTime = latestBlockTime - reduceBondTime"
    using assms(4,5) by (simp add: Time_Sub_def Let_def minDuration_def maxDuration_def)
  have a: "wrap_int64 (windowStart + windowLength) = windowStart + windowLength"
    using assms(1-3) by (intro w) (simp_all add: maxDuration_def)
  have b: "wrap_int64 (windowStart + windowLength - (latestBlockTime - reduceBondTime))
             = windowStart + windowLength - (latestBlockTime - reduceBondTime)"
    using assms by (intro w) (simp_all add: maxDuration_def)
  have q: "go_quot windowLength 2 = windowLength div 2"
    using assms(2) by (cases "windowLength = 0") (simp_all add: go_quot_def)
  show ?thesis
    by (simp add: isDue_def remainingTime_def Let_def s a b q reduceBondTimeoutSafetyFactor_def)
qed

text \<open>
  \<^bold>\<open>C7.\<close> In \<open>reduceBond\<close>, when all calls before the gas check succeed and the gas
  check fails, the transaction is submitted if and only if \<open>isDue\<close>: the remaining time
  \<open>(windowStart + windowLength) - (latestBlockTime - reduceBondTime)\<close> is below
  \<open>windowLength / 2\<close>. Otherwise nothing is submitted and the function returns
  \<open>success = false\<close> with no error. (The comparison is made in \<^verbatim>\<open>time.Duration\<close>; the last
  part says that it is the comparison of the integers when nothing overflows.)
\<close>

theorem reduceBond_forced_when_due:
  assumes "w_GetNodeAccountTransactor calls = Inr opts"
    and "minipool_NewMinipoolFromVersion calls (MinipoolAddress mpd) (Version mpd) = Inr mpBinding"
    and "minipool_GetMinipoolAsV3 calls mpBinding"
    and "mpv3_EstimateReduceBondAmountGas calls opts = Inr gasInfo"
    and "get_maxFee t calls = Inr fee"
    and "minipool_GetReduceBondTime calls (MinipoolAddress mpd) = Inr reduceBondTime"
    and "\<not> api_PrintAndCheckGasInfo calls gasInfo fee (gasLimit t)"
  shows "(snd (reduceBond t calls mpd windowStart windowLength latestBlockTime) \<noteq> []
            \<longleftrightarrow> isDue windowStart windowLength latestBlockTime reduceBondTime)
       \<and> (\<not> isDue windowStart windowLength latestBlockTime reduceBondTime \<longrightarrow>
            reduceBond t calls mpd windowStart windowLength latestBlockTime = ((False, None), []))
       \<and> (isDue windowStart windowLength latestBlockTime reduceBondTime \<longrightarrow>
            snd (reduceBond t calls mpd windowStart windowLength latestBlockTime) =
              [opts\<lparr>GasFeeCap := Some fee, GasTipCap := Some (maxPriorityFee t),
                     GasLimit := (if gasLimit t \<noteq> 0 then gasLimit t else SafeGasLimit gasInfo)\<rparr>])
       \<and> (0 \<le> windowStart \<and> 0 \<le> windowLength \<and> windowStart + windowLength \<le> maxDuration
            \<and> reduceBondTime \<le> latestBlockTime
            \<and> latestBlockTime - reduceBondTime \<le> maxDuration \<longrightarrow>
            isDue windowStart windowLength latestBlockTime reduceBondTime =
              (windowStart + windowLength - (latestBlockTime - reduceBondTime)
                 < windowLength div 2))"
proof -
  have r: "reduceBond t calls mpd windowStart windowLength latestBlockTime =
             (if \<not> isDue windowStart windowLength latestBlockTime reduceBondTime
              then ((False, None), [])
              else submit_reduceBond t calls opts fee
                     (if gasLimit t \<noteq> 0 then gasLimit t else SafeGasLimit gasInfo))"
    using assms by (simp add: reduceBond_def Let_def)
  have s: "snd (submit_reduceBond t calls opts fee gas) =
             [opts\<lparr>GasFeeCap := Some fee, GasTipCap := Some (maxPriorityFee t), GasLimit := gas\<rparr>]"
    for gas
    by (simp add: submit_reduceBond_def Let_def split: sum.splits option.splits)
  show ?thesis
    using isDue_plain [of windowStart windowLength reduceBondTime latestBlockTime]
    by (simp add: r s)
qed

text \<open>The definitions that evaluating \<open>reduceBond\<close> on the example unfolds.\<close>

lemmas bond_defs = example_task_def example_opts_def example_calls_def reduceBond_def
  submit_reduceBond_def get_maxFee_def isDue_def remainingTime_def
  reduceBondTimeoutSafetyFactor_def Time_Sub_def time_Unix_def time_Second_def wrap_int64_def
  go_quot_def minDuration_def maxDuration_def Let_def

text \<open>The theorem on the example: 48 hours after the request 12 hours remain, less than
  half the window, and the transaction is submitted; 13 hours after the request 47 hours
  remain and it is deferred.\<close>

theorem reduceBond_forced_when_due_witness:
  "reduceBond example_task example_calls (example_minipool 200 1 Staking)
      (43200 * time_Second) (172800 * time_Second) (time_Unix 1700172800)
     = ((True, None),
        [\<lparr>From = 100, GasFeeCap = Some 90000000000, GasTipCap = Some 2000000000,
          GasLimit = 150000\<rparr>])
   \<and> reduceBond example_task example_calls (example_minipool 200 1 Staking)
      (43200 * time_Second) (172800 * time_Second) (time_Unix 1700046800)
     = ((False, None), [])"
proof -
  have a: "w_GetNodeAccountTransactor example_calls = Inr example_opts"
    "minipool_NewMinipoolFromVersion example_calls
       (MinipoolAddress (example_minipool 200 1 Staking))
       (Version (example_minipool 200 1 Staking)) = Inr 3"
    "minipool_GetMinipoolAsV3 example_calls 3"
    "mpv3_EstimateReduceBondAmountGas example_calls example_opts
       = Inr \<lparr>EstGasLimit = 100000, SafeGasLimit = 150000\<rparr>"
    "get_maxFee example_task example_calls = Inr 90000000000"
    "minipool_GetReduceBondTime example_calls (MinipoolAddress (example_minipool 200 1 Staking))
       = Inr (time_Unix 1700000000)"
    "\<not> api_PrintAndCheckGasInfo example_calls \<lparr>EstGasLimit = 100000, SafeGasLimit = 150000\<rparr>
         90000000000 (gasLimit example_task)"
    by (simp_all add: bond_defs example_minipool_def)
  note th = reduceBond_forced_when_due [OF a]
  have due: "isDue (43200 * time_Second) (172800 * time_Second) (time_Unix 1700172800)
               (time_Unix 1700000000)"
    by (simp add: bond_defs)
  have notdue: "\<not> isDue (43200 * time_Second) (172800 * time_Second) (time_Unix 1700046800)
               (time_Unix 1700000000)"
    by (simp add: bond_defs)
  from th [of "43200 * time_Second" "172800 * time_Second" "time_Unix 1700046800"] notdue
  have 2: "reduceBond example_task example_calls (example_minipool 200 1 Staking)
      (43200 * time_Second) (172800 * time_Second) (time_Unix 1700046800)
     = ((False, None), [])"
    by blast
  from th [of "43200 * time_Second" "172800 * time_Second" "time_Unix 1700172800"] due
  have "snd (reduceBond example_task example_calls (example_minipool 200 1 Staking)
      (43200 * time_Second) (172800 * time_Second) (time_Unix 1700172800))
     = [example_opts\<lparr>GasFeeCap := Some 90000000000,
          GasTipCap := Some (maxPriorityFee example_task),
          GasLimit := (if gasLimit example_task \<noteq> 0 then gasLimit example_task
                       else SafeGasLimit \<lparr>EstGasLimit = 100000, SafeGasLimit = 150000\<rparr>)\<rparr>]"
    by blast
  moreover have "fst (reduceBond example_task example_calls (example_minipool 200 1 Staking)
      (43200 * time_Second) (172800 * time_Second) (time_Unix 1700172800)) = (True, None)"
    by (simp add: bond_defs example_minipool_def)
  ultimately have 1: "reduceBond example_task example_calls (example_minipool 200 1 Staking)
      (43200 * time_Second) (172800 * time_Second) (time_Unix 1700172800)
     = ((True, None),
        [\<lparr>From = 100, GasFeeCap = Some 90000000000, GasTipCap = Some 2000000000,
          GasLimit = 150000\<rparr>])"
    by (simp add: prod_eq_iff example_task_def example_opts_def)
  from 1 2 show ?thesis
    by simp
qed

section \<open>Finding the block of a time\<close>

text \<open>One pass of each loop, for a count of passes given as a numeral.\<close>

lemma walk_back_numeral:
  "walk_back (numeral k) client targetTimeUnix candidateBlockNumber candidateTime bestBlock =
     (if candidateTime > targetTimeUnix
      then
        (case client (Some (candidateBlockNumber - 1)) of
           Inl err \<Rightarrow> Some (Inl (wrap_error ''error getting EL block: '' err))
         | Inr candidateBlock \<Rightarrow>
             walk_back (pred_numeral k) client targetTimeUnix (candidateBlockNumber - 1)
               (int (Time candidateBlock)) candidateBlock)
      else Some (Inr bestBlock))"
  by (simp only: numeral_eq_Suc walk_back.simps)

lemma search_loop_numeral:
  "search_loop (numeral k) client latestBlock targetTimeUnix candidateBlockNumber candidateBlock
     bestBlock pivotSize minimumDistance =
     (if \<not> is_better \<bar>targetTimeUnix - int (Time candidateBlock)\<bar> minimumDistance
         \<and> pivotSize = 1
      then walk_back (pred_numeral k) client targetTimeUnix candidateBlockNumber
             (int (Time candidateBlock)) bestBlock
      else
        (case client (Some (clamp_candidate latestBlock
                 (move_candidate candidateBlockNumber
                    (targetTimeUnix - int (Time candidateBlock)) (half_pivot pivotSize)))) of
           Inl err \<Rightarrow> Some (Inl (wrap_error ''error getting EL block: '' err))
         | Inr nextBlock \<Rightarrow>
             search_loop (pred_numeral k) client latestBlock targetTimeUnix
               (clamp_candidate latestBlock
                  (move_candidate candidateBlockNumber
                     (targetTimeUnix - int (Time candidateBlock)) (half_pivot pivotSize)))
               nextBlock
               (if is_better \<bar>targetTimeUnix - int (Time candidateBlock)\<bar> minimumDistance
                then candidateBlock else bestBlock)
               (half_pivot pivotSize)
               (if is_better \<bar>targetTimeUnix - int (Time candidateBlock)\<bar> minimumDistance
                then Some \<bar>targetTimeUnix - int (Time candidateBlock)\<bar>
                else minimumDistance)))"
  by (simp only: numeral_eq_Suc search_loop.simps)

text \<open>The definitions that evaluating \<open>GetELBlockHeaderForTime\<close> on the example
  unfolds.\<close>

lemmas block_defs = search_loop_numeral walk_back_numeral example_chain_def GetELBlockHeaderForTime_def is_better_def half_pivot_def
  move_candidate_def clamp_candidate_def big_Uint64_def wrap_int64_def time_Second_def Let_def

text \<open>
  Safety. The client is taken to answer a request for block \<open>n\<close> with a header of
  number \<open>n\<close>. Then every candidate at or below a bound gives a result at or below it:
  the walk backwards only lowers the candidate, and the clamp of lines 255--257 keeps
  every later candidate below the latest block.
\<close>

lemma walk_back_below:
  assumes "\<forall>n h. client (Some n) = Inr h \<longrightarrow> Number h = n"
    and "walk_back fuel client targetTimeUnix c candidateTime bestBlock = Some (Inr header)"
    and "c \<le> bound" and "Number bestBlock \<le> bound"
  shows "Number header \<le> bound"
  using assms(2-4)
proof (induction fuel arbitrary: c candidateTime bestBlock)
  case 0
  then show ?case by simp
next
  case (Suc fuel)
  show ?case
  proof (cases "candidateTime > targetTimeUnix")
    case False
    with Suc.prems show ?thesis by simp
  next
    case True
    with Suc.prems(1) obtain candidateBlock
      where cb: "client (Some (c - 1)) = Inr candidateBlock"
        and w: "walk_back fuel client targetTimeUnix (c - 1) (int (Time candidateBlock))
                  candidateBlock = Some (Inr header)"
      by (auto split: sum.splits)
    from assms(1) cb have "Number candidateBlock = c - 1"
      by blast
    with Suc.prems(2) have "c - 1 \<le> bound" "Number candidateBlock \<le> bound"
      by simp_all
    with Suc.IH [OF w] show ?thesis .
  qed
qed

lemma clamp_candidate_below:
  assumes "1 \<le> latestBlock" and "latestBlock < 2 ^ 63" and "c \<le> latestBlock - 1"
  shows "clamp_candidate latestBlock (move_candidate c delta pivotSize) \<le> latestBlock - 1"
proof -
  define c1 where "c1 = move_candidate c delta pivotSize"
  have lim: "(big_Uint64 latestBlock + 2 ^ 64 - 1) mod 2 ^ 64 = nat (latestBlock - 1)"
  proof -
    have "big_Uint64 latestBlock = nat latestBlock"
      using assms(1,2) by (simp add: big_Uint64_def)
    moreover have "nat latestBlock + 2 ^ 64 - 1 = nat (latestBlock - 1) + 2 ^ 64"
      using assms(1) by (simp add: nat_diff_distrib)
    moreover have "nat (latestBlock - 1) < 2 ^ 64"
      using assms(1,2) by (simp add: nat_less_iff)
    ultimately show ?thesis
      by simp
  qed
  have w: "wrap_int64 x < 2 ^ 63" for x
    unfolding wrap_int64_def
    using pos_mod_bound [of "2 ^ 64 :: int" "x + 2 ^ 63"] by simp
  have up: "c1 < 2 ^ 64"
  proof -
    have "c1 \<le> c + \<bar>wrap_int64 (int pivotSize)\<bar>"
      unfolding c1_def move_candidate_def by (cases "delta < 0") simp_all
    moreover have "\<bar>wrap_int64 (int pivotSize)\<bar> \<le> 2 ^ 63"
      unfolding wrap_int64_def
      using pos_mod_bound [of "2 ^ 64 :: int" "int pivotSize + 2 ^ 63"]
        pos_mod_sign [of "2 ^ 64 :: int" "int pivotSize + 2 ^ 63"]
      by simp
    ultimately show ?thesis
      using assms(2,3) by simp
  qed
  show ?thesis
  proof (cases "0 \<le> c1")
    case True
    with up have "big_Uint64 c1 = nat c1"
      by (simp add: big_Uint64_def)
    with True assms(1) show ?thesis
      unfolding c1_def [symmetric] clamp_candidate_def Let_def lim
      by (simp split: if_splits)
  next
    case False
    with assms(1) show ?thesis
      unfolding c1_def [symmetric] clamp_candidate_def Let_def lim
      by simp
  qed
qed

lemma search_loop_below:
  assumes "\<forall>n h. client (Some n) = Inr h \<longrightarrow> Number h = n"
    and "1 \<le> latestBlock" and "latestBlock < 2 ^ 63"
    and "search_loop fuel client latestBlock targetTimeUnix c candidateBlock bestBlock
           pivotSize minimumDistance = Some (Inr header)"
    and "c \<le> latestBlock - 1" and "Number candidateBlock \<le> latestBlock - 1"
    and "Number bestBlock \<le> latestBlock - 1"
  shows "Number header \<le> latestBlock - 1"
  using assms(4-7)
proof (induction fuel arbitrary: c candidateBlock bestBlock pivotSize minimumDistance)
  case 0
  then show ?case by simp
next
  case (Suc fuel)
  let ?better = "is_better \<bar>targetTimeUnix - int (Time candidateBlock)\<bar> minimumDistance"
  let ?c = "clamp_candidate latestBlock
              (move_candidate c (targetTimeUnix - int (Time candidateBlock)) (half_pivot pivotSize))"
  show ?case
  proof (cases "\<not> ?better \<and> pivotSize = 1")
    case True
    with Suc.prems(1) have "walk_back fuel client targetTimeUnix c (int (Time candidateBlock))
             bestBlock = Some (Inr header)"
      by simp
    from walk_back_below [OF assms(1) this Suc.prems(2) Suc.prems(4)] show ?thesis .
  next
    case False
    with Suc.prems(1) obtain nextBlock where nb: "client (Some ?c) = Inr nextBlock"
      and s: "search_loop fuel client latestBlock targetTimeUnix ?c nextBlock
               (if ?better then candidateBlock else bestBlock)
               (half_pivot pivotSize)
               (if ?better then Some \<bar>targetTimeUnix - int (Time candidateBlock)\<bar>
                else minimumDistance) = Some (Inr header)"
      by (auto split: sum.splits)
    have c: "?c \<le> latestBlock - 1"
      using assms(2,3) Suc.prems(2) by (rule clamp_candidate_below)
    from assms(1) nb have "Number nextBlock = ?c"
      by blast
    with c have n: "Number nextBlock \<le> latestBlock - 1"
      by simp
    have b: "Number (if ?better then candidateBlock else bestBlock) \<le> latestBlock - 1"
      using Suc.prems(3,4) by simp
    from Suc.IH [OF s c n b] show ?thesis .
  qed
qed

text \<open>
  Termination. When the client knows no block of a negative number, the walk backwards
  ends at block 0 at the latest, and the search loop ends because \<open>search_measure\<close>
  falls with every pass.
\<close>

lemma walk_back_returns:
  assumes "\<forall>n h. client (Some n) = Inr h \<longrightarrow> 0 \<le> n"
    and "nat c < fuel"
  shows "walk_back fuel client targetTimeUnix c candidateTime bestBlock \<noteq> None"
  using assms(2)
proof (induction fuel arbitrary: c candidateTime bestBlock)
  case 0
  then show ?case by simp
next
  case (Suc fuel)
  show ?case
  proof (cases "candidateTime > targetTimeUnix")
    case False
    then show ?thesis by simp
  next
    case True
    show ?thesis
    proof (cases "client (Some (c - 1))")
      case (Inl err)
      with True show ?thesis by simp
    next
      case (Inr candidateBlock)
      with assms(1) have "0 \<le> c - 1"
        by blast
      with Suc.prems have "nat (c - 1) < fuel"
        by linarith
      from Suc.IH [OF this] True Inr show ?thesis
        by simp
    qed
  qed
qed



lemma half_pivot_bounds:
  "1 \<le> pivotSize \<Longrightarrow> 1 \<le> half_pivot pivotSize"
  "half_pivot pivotSize \<le> pivotSize"
  "2 \<le> pivotSize \<Longrightarrow> half_pivot pivotSize < pivotSize"
  by (simp_all add: half_pivot_def)

lemma search_loop_returns:
  assumes "\<forall>n h. client (Some n) = Inr h \<longrightarrow> 0 \<le> n"
    and "1 \<le> latestBlock" and "latestBlock < 2 ^ 63"
    and "search_measure \<bar>targetTimeUnix - int (Time candidateBlock)\<bar> pivotSize minimumDistance
           + nat latestBlock < fuel"
    and "1 \<le> pivotSize" and "c \<le> latestBlock - 1"
  shows "search_loop fuel client latestBlock targetTimeUnix c candidateBlock bestBlock
           pivotSize minimumDistance \<noteq> None"
  using assms(4-6)
proof (induction fuel arbitrary: c candidateBlock bestBlock pivotSize minimumDistance)
  case 0
  then show ?case by simp
next
  case (Suc fuel)
  let ?d = "\<bar>targetTimeUnix - int (Time candidateBlock)\<bar>"
  let ?better = "is_better ?d minimumDistance"
  let ?c = "clamp_candidate latestBlock
              (move_candidate c (targetTimeUnix - int (Time candidateBlock)) (half_pivot pivotSize))"
  show ?case
  proof (cases "\<not> ?better \<and> pivotSize = 1")
    case True
    from Suc.prems(1,3) assms(2) have "nat c < fuel"
      by linarith
    from walk_back_returns [OF assms(1) this] True show ?thesis
      by simp
  next
    case False
    show ?thesis
    proof (cases "client (Some ?c)")
      case (Inl err)
      with False show ?thesis by auto
    next
      case (Inr nextBlock)
      let ?m = "if ?better then Some ?d else minimumDistance"
      have step: "search_measure \<bar>targetTimeUnix - int (Time nextBlock)\<bar> (half_pivot pivotSize) ?m
                    < search_measure ?d pivotSize minimumDistance"
      proof (cases ?better)
        case True
        then show ?thesis
          using half_pivot_bounds(2) [of pivotSize]
          by (cases minimumDistance) (simp_all add: search_measure_def is_better_def)
      next
        case nb: False
        with False Suc.prems(2) have "2 \<le> pivotSize"
          by simp
        from half_pivot_bounds(3) [OF this] nb show ?thesis
          by (cases minimumDistance) (simp_all add: search_measure_def is_better_def)
      qed
      have "search_loop fuel client latestBlock targetTimeUnix ?c nextBlock
               (if ?better then candidateBlock else bestBlock) (half_pivot pivotSize) ?m \<noteq> None"
      proof (rule Suc.IH)
        show "1 \<le> half_pivot pivotSize"
          using Suc.prems(2) by (rule half_pivot_bounds(1))
        show "search_measure \<bar>targetTimeUnix - int (Time nextBlock)\<bar> (half_pivot pivotSize) ?m
                + nat latestBlock < fuel"
          using step Suc.prems(1) by linarith
        show "?c \<le> latestBlock - 1"
          using assms(2,3) Suc.prems(3) by (rule clamp_candidate_below)
      qed
      with False Inr show ?thesis
        by auto
    qed
  qed
qed

lemma GetELBlockHeaderForTime_returns:
  assumes "\<forall>n h. client (Some n) = Inr h \<longrightarrow> 0 \<le> n \<and> Number h = n"
    and "client None = Inr latestBlockHeader"
    and "Number latestBlockHeader < 2 ^ 63"
    and "0 \<le> deployBlock"
    and "2 \<le> Number latestBlockHeader - deployBlock"
  shows "\<exists>fuel. GetELBlockHeaderForTime fuel client deployBlock targetTime \<noteq> None"
proof -
  define latestBlock where "latestBlock = Number latestBlockHeader"
  define c0 where "c0 = latestBlock - (latestBlock - deployBlock) div 2"
  have l1: "1 \<le> latestBlock" and l2: "latestBlock < 2 ^ 63"
    using assms(3-5) by (simp_all add: latestBlock_def)
  have c0: "c0 \<le> latestBlock - 1" "1 \<le> c0"
    using assms(4,5) unfolding c0_def latestBlock_def by linarith+
  have nn: "\<forall>n h. client (Some n) = Inr h \<longrightarrow> 0 \<le> n"
    using assms(1) by blast
  show ?thesis
  proof (cases "client (Some c0)")
    case (Inl err)
    with assms(2) have "GetELBlockHeaderForTime 0 client deployBlock targetTime \<noteq> None"
      by (simp add: GetELBlockHeaderForTime_def Let_def c0_def latestBlock_def)
    then show ?thesis ..
  next
    case (Inr candidateBlock)
    with assms(1) have n: "Number candidateBlock = c0"
      by blast
    have p: "1 \<le> big_Uint64 (Number candidateBlock)"
      using c0 l2 by (simp add: n big_Uint64_def)
    define fuel where "fuel = Suc (search_measure
        \<bar>targetTime div time_Second - int (Time candidateBlock)\<bar>
        (big_Uint64 (Number candidateBlock)) None + nat latestBlock)"
    have "search_loop fuel client latestBlock (targetTime div time_Second) c0 candidateBlock
            candidateBlock (big_Uint64 (Number candidateBlock)) None \<noteq> None"
      by (rule search_loop_returns [OF nn l1 l2 _ p c0(1)]) (simp add: fuel_def)
    with assms(2) Inr have "GetELBlockHeaderForTime fuel client deployBlock targetTime \<noteq> None"
      by (simp add: GetELBlockHeaderForTime_def Let_def c0_def latestBlock_def)
    then show ?thesis ..
  qed
qed

text \<open>
  \<^bold>\<open>C8\<close> (as amended). Let the client answer a request for block \<open>n\<close> with a header of
  number \<open>n\<close>, let the latest block have a number from 1 to below \<open>2 ^ 63\<close>, and let it
  lie at least two blocks after the deployment block. Then for every target time, every
  block that \<open>GetELBlockHeaderForTime\<close> returns has a number strictly below the number of
  the latest block. And the function does return (a block or an error of the client)
  when the client knows no block of a negative number and the deployment block is not
  negative.
\<close>

theorem GetELBlockHeaderForTime_below_head:
  assumes "\<forall>n h. client (Some n) = Inr h \<longrightarrow> Number h = n"
    and "client None = Inr latestBlockHeader"
    and "1 \<le> Number latestBlockHeader" and "Number latestBlockHeader < 2 ^ 63"
    and "2 \<le> Number latestBlockHeader - deployBlock"
  shows "(\<forall>fuel header.
            GetELBlockHeaderForTime fuel client deployBlock targetTime = Some (Inr header) \<longrightarrow>
              Number header < Number latestBlockHeader)
       \<and> ((\<forall>n h. client (Some n) = Inr h \<longrightarrow> 0 \<le> n) \<and> 0 \<le> deployBlock \<longrightarrow>
            (\<exists>fuel. GetELBlockHeaderForTime fuel client deployBlock targetTime \<noteq> None))"
proof (intro conjI allI impI)
  fix fuel header
  assume r: "GetELBlockHeaderForTime fuel client deployBlock targetTime = Some (Inr header)"
  define latestBlock where "latestBlock = Number latestBlockHeader"
  define c0 where "c0 = latestBlock - (latestBlock - deployBlock) div 2"
  have c0: "c0 \<le> latestBlock - 1"
    using assms(5) unfolding c0_def latestBlock_def by linarith
  from assms(2) r obtain candidateBlock where cb: "client (Some c0) = Inr candidateBlock"
    and s: "search_loop fuel client latestBlock (targetTime div time_Second) c0 candidateBlock
              candidateBlock (big_Uint64 (Number candidateBlock)) None = Some (Inr header)"
    unfolding GetELBlockHeaderForTime_def Let_def c0_def latestBlock_def
    by (auto split: sum.splits)
  from assms(1) cb have "Number candidateBlock = c0"
    by blast
  with c0 have n: "Number candidateBlock \<le> latestBlock - 1"
    by simp
  from search_loop_below [OF assms(1) assms(3,4) [folded latestBlock_def] s c0 n n]
  show "Number header < Number latestBlockHeader"
    unfolding latestBlock_def by simp
next
  assume "(\<forall>n h. client (Some n) = Inr h \<longrightarrow> 0 \<le> n) \<and> 0 \<le> deployBlock"
  with assms(1) have a: "\<forall>n h. client (Some n) = Inr h \<longrightarrow> 0 \<le> n \<and> Number h = n"
    and d: "0 \<le> deployBlock"
    by blast+
  show "\<exists>fuel. GetELBlockHeaderForTime fuel client deployBlock targetTime \<noteq> None"
    by (rule GetELBlockHeaderForTime_returns [OF a assms(2,4) d assms(5)])
qed

text \<open>The theorem on the example chain, deployed at block 0, for the time 150: the
  result is block 4, of time 148.\<close>

theorem GetELBlockHeaderForTime_below_head_witness:
  "GetELBlockHeaderForTime 20 example_chain 0 (150 * time_Second)
     = Some (Inr \<lparr>Number = 4, Time = 148\<rparr>)
   \<and> (4 :: int) < 10
   \<and> (\<exists>fuel. GetELBlockHeaderForTime fuel example_chain 0 (150 * time_Second) \<noteq> None)"
proof -
  have r: "GetELBlockHeaderForTime 20 example_chain 0 (150 * time_Second)
     = Some (Inr \<lparr>Number = 4, Time = 148\<rparr>)"
    by (simp add: block_defs)
  have h: "\<forall>n h. example_chain (Some n) = Inr h \<longrightarrow> Number h = n"
    by (auto simp add: example_chain_def split: if_splits)
  have p: "\<forall>n h. example_chain (Some n) = Inr h \<longrightarrow> 0 \<le> n"
    by (auto simp add: example_chain_def split: if_splits)
  have l: "example_chain None = Inr \<lparr>Number = 10, Time = 220\<rparr>"
    by (simp add: example_chain_def)
  have "(\<forall>fuel header.
            GetELBlockHeaderForTime fuel example_chain 0 (150 * time_Second)
              = Some (Inr header) \<longrightarrow>
              Number header < Number \<lparr>Number = 10, Time = 220\<rparr>)
       \<and> ((\<forall>n h. example_chain (Some n) = Inr h \<longrightarrow> 0 \<le> n) \<and> (0 :: int) \<le> 0 \<longrightarrow>
            (\<exists>fuel. GetELBlockHeaderForTime fuel example_chain 0 (150 * time_Second) \<noteq> None))"
    by (rule GetELBlockHeaderForTime_below_head [OF h l]) simp_all
  with r p show ?thesis
    by auto
qed

text \<open>
  C8 as it was stated fails when the chain head is the deployment block (or the block
  after it): the first candidate is then the head itself, which the clamp never sees; for
  a target time after the head's time the head is the nearest block and is returned.
\<close>

theorem GetELBlockHeaderForTime_head_counterexample:
  "example_chain None = Inr \<lparr>Number = 10, Time = 220\<rparr>
   \<and> GetELBlockHeaderForTime 20 example_chain 10 (1000 * time_Second)
       = Some (Inr \<lparr>Number = 10, Time = 220\<rparr>)
   \<and> \<not> ((10 :: int) < 10)"
  by (simp add: block_defs)

end
